theory Spec2Isabelle
  imports Complex_Main "HOL-Library.Monad_Syntax"
begin

section \<open>Data model\<close>

text \<open>
  The embedding follows \<^verbatim>\<open>src/microhhpy/openbc/input_from_era5.py\<close>.
  A 3-D numpy array indexed (level, j, i) is a list of levels, each a list of rows.
  Field values are real numbers: the IEEE rounding of \<^verbatim>\<open>np.float32\<close> and
  \<^verbatim>\<open>np.float64\<close>, NaN and infinities are not part of the model, and the
  \<^verbatim>\<open>dtype\<close> argument is dropped. A raised exception is the value \<open>None\<close>.
\<close>

type_synonym 'a field = "'a list list list"
type_synonym field3 = "real field"

text \<open>The attributes of a \<^verbatim>\<open>Rect_to_curv_interpolation_factors\<close> instance that the code reads.\<close>

record ip_factors =
  il :: "int list list"
  jl :: "int list list"
  fx :: "real list list"
  fy :: "real list list"

text \<open>The dictionary built by \<^verbatim>\<open>setup_interpolations\<close>: keys u, v and s.\<close>

record ip_dict =
  factors_u :: ip_factors
  factors_v :: ip_factors
  factors_s :: ip_factors

text \<open>The attributes of \<^verbatim>\<open>domain.proj_pad\<close> that the code reads.\<close>

record projection =
  lon_u :: "real list list"
  lat_u :: "real list list"
  lon_v :: "real list list"
  lat_v :: "real list list"
  lon :: "real list list"
  lat :: "real list list"
  proj_x :: "real list"
  proj_y :: "real list"
  xsize :: real
  ysize :: real
  proj_dx :: real
  itot :: nat
  jtot :: nat

text \<open>The attributes of the \<^verbatim>\<open>Domain\<close> instance that the code reads.\<close>

record domain =
  proj_pad :: projection
  dom_x :: "real list"
  dom_y :: "real list"
  dom_xh :: "real list"
  dom_yh :: "real list"
  n_pad :: int
  n_ghost :: int
  n_sponge :: int
  dxi :: real
  dyi :: real
  istart_pad :: int
  iend_pad :: int
  jstart_pad :: int
  jend_pad :: int

text \<open>The attributes of a \<^verbatim>\<open>Vertical_grid_2nd\<close> instance that the code reads.\<close>

record vgrid =
  vgrid_z :: "real list"
  vgrid_zh :: "real list"
  vgrid_dz :: "real list"
  vgrid_dzi :: "real list"

text \<open>
  Every call that leaves the module (the logger, numpy allocation, the numerical kernels,
  writing a file, assigning into the LBC dataset) is recorded, in program order.
  The elapsed time printed by the two \<^verbatim>\<open>Created ... input\<close> messages is not modelled.
\<close>

datatype event =
    Logger_info_creating string
  | Logger_info_filter int
  | Logger_info_scalar_done
  | Logger_info_momentum_done
  | Logger_warning_momentum_missing
  | Logger_debug_field string nat
  | Logger_debug_momentum nat
  | Logger_debug_divergence real int int int
  | Np_empty nat nat nat
  | Interpolate_rect_to_curv ip_factors "real list"
  | Gaussian_filter_wrapper int
  | Blend_w_to_zero_at_sfc real
  | Correct_div_uv
  | Calc_w_from_uv
  | Check_divergence
  | Tofile string
  | Lbc_assign string nat

text \<open>
  The state the run acts on: the LBC dataset (per variable and side, one record per time,
  \<open>None\<close> while not yet assigned), the files written (path to flat contents) and the
  record of calls.
\<close>

type_synonym lbc_dataset = "string \<rightharpoonup> field3 option list"
type_synonym lbc_slice_dict = "string \<rightharpoonup> (field3 \<Rightarrow> field3)"

record pstate =
  lbc_ds :: lbc_dataset
  files :: "string \<rightharpoonup> real list"
  trace :: "event list"

text \<open>
  The collaborators imported from modules that are not part of the sources at hand
  (\<^verbatim>\<open>microhhpy.interpolate\<close>, \<^verbatim>\<open>microhhpy.spatial\<close>, \<^verbatim>\<open>global_help_functions\<close>,
  \<^verbatim>\<open>lbc_help_functions\<close>) are parameters; each may raise. A kernel that works in place
  on a buffer returns the new contents of the buffers it writes; the buffer allocated by
  \<^verbatim>\<open>np.empty\<close> is passed as its shape.
\<close>

record ext =
  vertical_grid_2nd :: "real list \<Rightarrow> real \<Rightarrow> vgrid option"
  rect_to_curv_interpolation_factors ::
    "real list \<Rightarrow> real list \<Rightarrow> real list list \<Rightarrow> real list list \<Rightarrow> ip_factors option"
  interpolate_rect_to_curv ::
    "nat \<times> nat \<times> nat \<Rightarrow> field3 \<Rightarrow> int list list \<Rightarrow> int list list \<Rightarrow>
     real list list \<Rightarrow> real list list \<Rightarrow> real list \<Rightarrow> field3 \<Rightarrow> field3 option"
  gaussian_filter_wrapper :: "field3 \<Rightarrow> int \<Rightarrow> field3 option"
  correct_div_uv ::
    "field3 \<Rightarrow> field3 \<Rightarrow> field3 \<Rightarrow> real list \<Rightarrow> real list \<Rightarrow> real list \<Rightarrow>
     real list \<Rightarrow> real list \<Rightarrow> real \<Rightarrow> real \<Rightarrow> int \<Rightarrow> (field3 \<times> field3) option"
  calc_w_from_uv ::
    "field3 \<Rightarrow> field3 \<Rightarrow> field3 \<Rightarrow> real list \<Rightarrow> real list \<Rightarrow> real list \<Rightarrow>
     real \<Rightarrow> real \<Rightarrow> int \<Rightarrow> int \<Rightarrow> int \<Rightarrow> int \<Rightarrow> nat \<Rightarrow> field3 option"
  check_divergence ::
    "field3 \<Rightarrow> field3 \<Rightarrow> field3 \<Rightarrow> real list \<Rightarrow> real list \<Rightarrow> real \<Rightarrow> real \<Rightarrow>
     real list \<Rightarrow> int \<Rightarrow> int \<Rightarrow> int \<Rightarrow> int \<Rightarrow> nat \<Rightarrow> (real \<times> int \<times> int \<times> int) option"
  setup_lbc_slices :: "int \<Rightarrow> int \<Rightarrow> lbc_slice_dict"

definition emit :: "event \<Rightarrow> pstate \<Rightarrow> pstate" where
  "emit e st = st\<lparr>trace := trace st @ [e]\<rparr>"

section \<open>Slicing and writing arrays\<close>

text \<open>
  A bound of a Python slice with step 1 on a sequence of length \<open>n\<close>: a negative bound
  counts from the end, and every bound is clipped to the range from 0 to \<open>n\<close>.
\<close>

definition py_bound :: "int \<Rightarrow> nat \<Rightarrow> nat" where
  "py_bound i n = (if i < 0 then nat (max 0 (i + int n)) else min (nat i) n)"

definition py_slice :: "int \<Rightarrow> int \<Rightarrow> 'a list \<Rightarrow> 'a list" where
  "py_slice start stop xs =
     (let n = length xs; a = py_bound start n; b = py_bound stop n
      in take (b - a) (drop a xs))"

text \<open>\<^verbatim>\<open>fld[:, n_pad:-n_pad, n_pad:-n_pad]\<close>\<close>

definition strip_pad :: "int \<Rightarrow> 'a field \<Rightarrow> 'a field" where
  "strip_pad n fld = map (\<lambda>level. map (py_slice n (- n)) (py_slice n (- n) level)) fld"

text \<open>\<^verbatim>\<open>ndarray.tofile\<close> writes the items in C order: level by level, each level row by row.\<close>

definition c_order :: "'a field \<Rightarrow> 'a list" where
  "c_order fld = concat (map concat fld)"

definition tofile :: "field3 \<Rightarrow> string \<Rightarrow> pstate \<Rightarrow> pstate" where
  "tofile fld f_out st = emit (Tofile f_out) (st\<lparr>files := (files st)(f_out \<mapsto> c_order fld)\<rparr>)"

definition save_3d_field :: "field3 \<Rightarrow> string \<Rightarrow> string \<Rightarrow> int \<Rightarrow> string \<Rightarrow> pstate \<Rightarrow> pstate" where
  "save_3d_field fld name name_suffix n output_dir st =
     (let f_out = (if name_suffix = ''''
                   then output_dir @ ''/'' @ name @ ''.0000000''
                   else output_dir @ ''/'' @ name @ ''_'' @ name_suffix @ ''.0000000'')
      in tofile (strip_pad n fld) f_out st)"

section \<open>The LBC dataset\<close>

definition lbc_locs :: "string list" where
  "lbc_locs = [''west'', ''east'', ''south'', ''north'']"

text \<open>
  Modelled from the spec: \<^verbatim>\<open>create_lbc_ds\<close> (module \<^verbatim>\<open>lbc_help_functions\<close>) is missing
  from the sources. The spec's LBC container holds one record per (variable, boundary
  side, time) and is created empty, with its final shape, before interpolation begins.
  The coordinate arguments only shape the records and are not used here.
\<close>

definition create_lbc_ds ::
  "string list \<Rightarrow> real list \<Rightarrow> real list \<Rightarrow> real list \<Rightarrow> real list \<Rightarrow> real list \<Rightarrow>
   real list \<Rightarrow> real list \<Rightarrow> int \<Rightarrow> int \<Rightarrow> lbc_dataset" where
  "create_lbc_ds names time_era x y z xh yh zh ng ns =
     map_of (concat (map (\<lambda>name.
        map (\<lambda>loc. (name @ ''_'' @ loc, replicate (length time_era) None)) lbc_locs) names))"

text \<open>
  \<^verbatim>\<open>lbc_ds[key][t,:,:,:] = band\<close>: a missing variable raises KeyError, a time index
  outside the record list raises IndexError. The shapes of the records belong to the
  missing \<^verbatim>\<open>create_lbc_ds\<close>, so a shape mismatch is not modelled.
\<close>

definition lbc_assign :: "string \<Rightarrow> nat \<Rightarrow> field3 \<Rightarrow> pstate \<Rightarrow> pstate option" where
  "lbc_assign key t band st =
     (case lbc_ds st key of
        None \<Rightarrow> None
      | Some recs \<Rightarrow>
          if t < length recs
          then Some (emit (Lbc_assign key t) (st\<lparr>lbc_ds := (lbc_ds st)(key \<mapsto> recs[t := Some band])\<rparr>))
          else None)"

section \<open>Interpolation factors\<close>

definition setup_interpolations ::
  "ext \<Rightarrow> real list \<Rightarrow> real list \<Rightarrow> projection \<Rightarrow> ip_dict option" where
  "setup_interpolations K lon_era lat_era pp = do {
     if_u \<leftarrow> rect_to_curv_interpolation_factors K lon_era lat_era (lon_u pp) (lat_u pp);
     if_v \<leftarrow> rect_to_curv_interpolation_factors K lon_era lat_era (lon_v pp) (lat_v pp);
     if_s \<leftarrow> rect_to_curv_interpolation_factors K lon_era lat_era (lon pp) (lat pp);
     Some \<lparr>factors_u = if_u, factors_v = if_v, factors_s = if_s\<rparr>
   }"

definition get_interpolation_factors :: "ip_dict \<Rightarrow> string \<Rightarrow> ip_factors" where
  "get_interpolation_factors factors name =
     (if name = ''u'' then factors_u factors
      else if name = ''v'' then factors_v factors
      else factors_s factors)"

section \<open>Surface blending\<close>

text \<open>
  Modelled from the spec: \<^verbatim>\<open>blend_w_to_zero_at_sfc\<close> (module
  \<^verbatim>\<open>global_help_functions\<close>) is missing from the sources. By the spec it scales, in every
  column, each half level at or below the blend height by a piecewise-linear ramp factor
  that is 0 at the surface (height 0, where the first half level lies at or below) and 1
  at the blend height, and leaves the levels above the blend height alone. One height is
  needed per level of the buffer.
\<close>

definition blend_ramp :: "real \<Rightarrow> real \<Rightarrow> real" where
  "blend_ramp zmax zk = (if zk \<le> 0 then 0 else zk / zmax)"

definition blend_w_to_zero_at_sfc :: "field3 \<Rightarrow> real list \<Rightarrow> real \<Rightarrow> field3 option" where
  "blend_w_to_zero_at_sfc w zh zmax =
     (if length zh \<noteq> length w then None
      else Some (map (\<lambda>(zk, level).
             if zk \<le> zmax then map (map (\<lambda>x. x * blend_ramp zmax zk)) level else level)
           (zip zh w)))"

section \<open>The per-timestep pipelines\<close>

fun lbc_loop_scalar ::
  "lbc_slice_dict \<Rightarrow> string \<Rightarrow> nat \<Rightarrow> field3 \<Rightarrow> string list \<Rightarrow> pstate \<Rightarrow> pstate option" where
  "lbc_loop_scalar lbc_slices name t fld_les [] st = Some st"
| "lbc_loop_scalar lbc_slices name t fld_les (loc # locs) st = do {
     lbc_slice \<leftarrow> lbc_slices (''s_'' @ loc);
     st \<leftarrow> lbc_assign (name @ ''_'' @ loc) t (lbc_slice fld_les) st;
     lbc_loop_scalar lbc_slices name t fld_les locs st
   }"

definition parse_scalar ::
  "ext \<Rightarrow> string \<Rightarrow> string \<Rightarrow> nat \<Rightarrow> field3 \<Rightarrow> field3 \<Rightarrow> real list \<Rightarrow> ip_factors \<Rightarrow>
   lbc_slice_dict \<Rightarrow> int \<Rightarrow> domain \<Rightarrow> string \<Rightarrow> pstate \<Rightarrow> pstate option" where
  "parse_scalar K name name_suffix t fld_era z_era z_les ip_fac lbc_slices sigma_n domain output_dir st = do {
     let st = emit (Logger_debug_field name t) st;
     let shape = (length z_les, jtot (proj_pad domain), itot (proj_pad domain));
     let st = emit (Np_empty (length z_les) (jtot (proj_pad domain)) (itot (proj_pad domain))) st;
     fld_les \<leftarrow> interpolate_rect_to_curv K shape fld_era
                  (il ip_fac) (jl ip_fac) (fx ip_fac) (fy ip_fac) z_les z_era;
     let st = emit (Interpolate_rect_to_curv ip_fac z_les) st;
     (fld_les, st) \<leftarrow>
        (if sigma_n > 0
         then do { fld_les \<leftarrow> gaussian_filter_wrapper K fld_les sigma_n;
                   Some (fld_les, emit (Gaussian_filter_wrapper sigma_n) st) }
         else Some (fld_les, st));
     let st = (if t = 0 then save_3d_field fld_les name name_suffix (n_pad domain) output_dir st else st);
     lbc_loop_scalar lbc_slices name t fld_les lbc_locs st
   }"

fun lbc_loop_momentum ::
  "lbc_slice_dict \<Rightarrow> nat \<Rightarrow> field3 \<Rightarrow> field3 \<Rightarrow> field3 \<Rightarrow> string list \<Rightarrow> pstate \<Rightarrow> pstate option" where
  "lbc_loop_momentum lbc_slices t u v w [] st = Some st"
| "lbc_loop_momentum lbc_slices t u v w (loc # locs) st = do {
     lbc_slice \<leftarrow> lbc_slices (''u_'' @ loc);
     st \<leftarrow> lbc_assign (''u_'' @ loc) t (lbc_slice u) st;
     lbc_slice \<leftarrow> lbc_slices (''v_'' @ loc);
     st \<leftarrow> lbc_assign (''v_'' @ loc) t (lbc_slice v) st;
     lbc_slice \<leftarrow> lbc_slices (''w_'' @ loc);
     st \<leftarrow> lbc_assign (''w_'' @ loc) t (lbc_slice w) st;
     lbc_loop_momentum lbc_slices t u v w locs st
   }"

definition parse_momentum ::
  "ext \<Rightarrow> string \<Rightarrow> nat \<Rightarrow> field3 \<Rightarrow> field3 \<Rightarrow> field3 \<Rightarrow> field3 \<Rightarrow>
   real list \<Rightarrow> real list \<Rightarrow> real list \<Rightarrow> real list \<Rightarrow> real list \<Rightarrow> real list \<Rightarrow>
   ip_factors \<Rightarrow> ip_factors \<Rightarrow> ip_factors \<Rightarrow> lbc_slice_dict \<Rightarrow> int \<Rightarrow> domain \<Rightarrow> string \<Rightarrow>
   pstate \<Rightarrow> pstate option" where
  "parse_momentum K name_suffix t u_era v_era w_era z_era z zh dz dzi rho rhoh
       ip_u ip_v ip_s lbc_slices sigma_n domain output_dir st = do {
     let st = emit (Logger_debug_momentum t) st;
     let nj = jtot (proj_pad domain);
     let ni = itot (proj_pad domain);
     let st = emit (Np_empty (length z) nj ni) st;
     let st = emit (Np_empty (length z) nj ni) st;
     let st = emit (Np_empty (length zh) nj ni) st;
     u \<leftarrow> interpolate_rect_to_curv K (length z, nj, ni) u_era
            (il ip_u) (jl ip_u) (fx ip_u) (fy ip_u) z z_era;
     let st = emit (Interpolate_rect_to_curv ip_u z) st;
     v \<leftarrow> interpolate_rect_to_curv K (length z, nj, ni) v_era
            (il ip_v) (jl ip_v) (fx ip_v) (fy ip_v) z z_era;
     let st = emit (Interpolate_rect_to_curv ip_v z) st;
     w \<leftarrow> interpolate_rect_to_curv K (length zh, nj, ni) w_era
            (il ip_s) (jl ip_s) (fx ip_s) (fy ip_s) zh z_era;
     let st = emit (Interpolate_rect_to_curv ip_s zh) st;
     (u, v, w, st) \<leftarrow>
        (if sigma_n > 0
         then do { u \<leftarrow> gaussian_filter_wrapper K u sigma_n;
                   let st = emit (Gaussian_filter_wrapper sigma_n) st;
                   v \<leftarrow> gaussian_filter_wrapper K v sigma_n;
                   let st = emit (Gaussian_filter_wrapper sigma_n) st;
                   w \<leftarrow> gaussian_filter_wrapper K w sigma_n;
                   Some (u, v, w, emit (Gaussian_filter_wrapper sigma_n) st) }
         else Some (u, v, w, st));
     w \<leftarrow> blend_w_to_zero_at_sfc w zh 500;
     let st = emit (Blend_w_to_zero_at_sfc 500) st;
     let proj = proj_pad domain;
     (u, v) \<leftarrow> correct_div_uv K u v w rho rhoh dzi
                 (proj_x proj) (proj_y proj) (xsize proj) (ysize proj) (n_pad domain);
     let st = emit Correct_div_uv st;
     w \<leftarrow> calc_w_from_uv K w u v rho rhoh dz (dxi domain) (dyi domain)
            (istart_pad domain) (iend_pad domain) (jstart_pad domain) (jend_pad domain) (length dz);
     let st = emit Calc_w_from_uv st;
     (div_max, i, j, k) \<leftarrow> check_divergence K u v w rho rhoh (dxi domain) (dyi domain) dzi
            (istart_pad domain) (iend_pad domain) (jstart_pad domain) (jend_pad domain) (length dz);
     let st = emit Check_divergence st;
     let st = emit (Logger_debug_divergence div_max i j k) st;
     let st = (if t = 0
               then save_3d_field (py_slice 0 (- 1) w) ''w'' name_suffix (n_pad domain) output_dir
                      (save_3d_field v ''v'' name_suffix (n_pad domain) output_dir
                        (save_3d_field u ''u'' name_suffix (n_pad domain) output_dir st))
               else st);
     lbc_loop_momentum lbc_slices t u v w lbc_locs st
   }"

section \<open>The driver\<close>

text \<open>\<^verbatim>\<open>arr[t,:,:,:]\<close> on an array whose first axis is time: IndexError out of range.\<close>

definition time_slice :: "'a list \<Rightarrow> nat \<Rightarrow> 'a option" where
  "time_slice arr t = (if t < length arr then Some (arr ! t) else None)"

text \<open>
  \<^verbatim>\<open>ThreadPoolExecutor.map\<close> followed by \<^verbatim>\<open>list\<close>: the tasks are run here one after the
  other, in the order of the argument list, and the first exception is raised again in
  the driver. The interleaving of the worker threads is not modelled.
\<close>

fun executor_map :: "('a \<Rightarrow> pstate \<Rightarrow> pstate option) \<Rightarrow> 'a list \<Rightarrow> pstate \<Rightarrow> pstate option" where
  "executor_map f [] st = Some st"
| "executor_map f (a # args) st = do { st \<leftarrow> f a st; executor_map f args st }"

text \<open>
  The argument tuples of the scalar tasks, reduced to the components that vary between
  tasks: name, time index, the field's time slice and the heights' time slice.
\<close>

definition scalar_args ::
  "(string \<times> field3 list) list \<Rightarrow> field3 list \<Rightarrow> nat \<Rightarrow> (string \<times> nat \<times> field3 \<times> field3) list option" where
  "scalar_args fields_era z_era nt =
     those (concat (map (\<lambda>(name, fld_era).
        if name \<notin> set [''u'', ''v'', ''w'']
        then map (\<lambda>t. do { f \<leftarrow> time_slice fld_era t;
                           ze \<leftarrow> time_slice z_era t;
                           Some (name, t, f, ze) }) [0..<nt]
        else []) fields_era))"

text \<open>The argument tuples of the momentum tasks, reduced in the same way.\<close>

definition momentum_args ::
  "(string \<times> field3 list) list \<Rightarrow> field3 list \<Rightarrow> nat \<Rightarrow>
   (nat \<times> field3 \<times> field3 \<times> field3 \<times> field3) list option" where
  "momentum_args fields_era z_era nt =
     those (map (\<lambda>t. do { fu \<leftarrow> map_of fields_era ''u''; u_era \<leftarrow> time_slice fu t;
                          fv \<leftarrow> map_of fields_era ''v''; v_era \<leftarrow> time_slice fv t;
                          fw \<leftarrow> map_of fields_era ''w''; w_era \<leftarrow> time_slice fw t;
                          ze \<leftarrow> time_slice z_era t;
                          Some (t, u_era, v_era, w_era, ze) }) [0..<nt])"

text \<open>
  \<^verbatim>\<open>fields_era\<close> is a dictionary, iterated in insertion order: an association list
  (with distinct keys). \<^verbatim>\<open>time_era\<close> is the time axis. Division by a zero grid spacing
  raises. The dataset given in the initial state is replaced by a fresh one.

  The body of \<^verbatim>\<open>create_era5_input\<close> has three parts, each under its own comment in the
  source: the set-up (up to \<^verbatim>\<open>setup_lbc_slices\<close>), \<^verbatim>\<open>Parse scalars\<close> and
  \<^verbatim>\<open>Parse momentum fields\<close>. They are three definitions here, run one after the other;
  the local variables that the later parts read are handed over in a record.
\<close>

record run_ctx =
  ctx_vgrid :: vgrid
  ctx_ip_facs :: ip_dict
  ctx_sigma_n :: int
  ctx_lbc_slices :: lbc_slice_dict

definition driver_setup ::
  "ext \<Rightarrow> (string \<times> field3 list) list \<Rightarrow> real list \<Rightarrow> real list \<Rightarrow> real list \<Rightarrow>
   real list \<Rightarrow> real \<Rightarrow> domain \<Rightarrow> real \<Rightarrow> string \<Rightarrow> pstate \<Rightarrow> (run_ctx \<times> pstate) option" where
  "driver_setup K fields_era lon_era lat_era time_era z zsize domain sigma_h output_dir st = do {
     let st = emit (Logger_info_creating output_dir) st;
     let pp = proj_pad domain;
     vgrid \<leftarrow> vertical_grid_2nd K z zsize;
     ip_facs \<leftarrow> setup_interpolations K lon_era lat_era pp;
     sigma_n \<leftarrow> (if proj_dx pp = 0 then None else Some \<lceil>sigma_h / proj_dx pp\<rceil>);
     let st = (if sigma_n > 0 then emit (Logger_info_filter sigma_n) st else st);
     let st = st\<lparr>lbc_ds := create_lbc_ds (map fst fields_era) time_era
                 (dom_x domain) (dom_y domain) (vgrid_z vgrid)
                 (dom_xh domain) (dom_yh domain) (py_slice 0 (- 1) (vgrid_zh vgrid))
                 (n_ghost domain) (n_sponge domain)\<rparr>;
     let lbc_slices = setup_lbc_slices K (n_ghost domain) (n_sponge domain);
     Some (\<lparr>ctx_vgrid = vgrid, ctx_ip_facs = ip_facs, ctx_sigma_n = sigma_n,
            ctx_lbc_slices = lbc_slices\<rparr>, st)
   }"

definition driver_scalars ::
  "ext \<Rightarrow> run_ctx \<Rightarrow> (string \<times> field3 list) list \<Rightarrow> field3 list \<Rightarrow> real list \<Rightarrow>
   domain \<Rightarrow> string \<Rightarrow> string \<Rightarrow> pstate \<Rightarrow> pstate option" where
  "driver_scalars K ctx fields_era z_era time_era domain name_suffix output_dir st = do {
     let ip_fac = get_interpolation_factors (ctx_ip_facs ctx) ''s'';
     args \<leftarrow> scalar_args fields_era z_era (length time_era);
     st \<leftarrow> executor_map (\<lambda>(name, t, fld_era, ze).
              parse_scalar K name name_suffix t fld_era ze (vgrid_z (ctx_vgrid ctx)) ip_fac
                (ctx_lbc_slices ctx) (ctx_sigma_n ctx) domain output_dir) args st;
     Some (emit Logger_info_scalar_done st)
   }"

definition driver_momentum ::
  "ext \<Rightarrow> run_ctx \<Rightarrow> (string \<times> field3 list) list \<Rightarrow> field3 list \<Rightarrow> real list \<Rightarrow>
   real list \<Rightarrow> real list \<Rightarrow> domain \<Rightarrow> string \<Rightarrow> string \<Rightarrow> pstate \<Rightarrow> pstate option" where
  "driver_momentum K ctx fields_era z_era time_era rho rhoh domain name_suffix output_dir st =
     (if list_ex (\<lambda>fld. fld \<notin> set (map fst fields_era)) [''u'', ''v'', ''w'']
      then Some (emit Logger_warning_momentum_missing st)
      else do {
        let ip_u = get_interpolation_factors (ctx_ip_facs ctx) ''u'';
        let ip_v = get_interpolation_factors (ctx_ip_facs ctx) ''v'';
        let ip_s = get_interpolation_factors (ctx_ip_facs ctx) ''s'';
        args \<leftarrow> momentum_args fields_era z_era (length time_era);
        st \<leftarrow> executor_map (\<lambda>(t, u_era, v_era, w_era, ze).
                 parse_momentum K name_suffix t u_era v_era w_era ze
                   (vgrid_z (ctx_vgrid ctx)) (vgrid_zh (ctx_vgrid ctx))
                   (vgrid_dz (ctx_vgrid ctx)) (vgrid_dzi (ctx_vgrid ctx)) rho rhoh
                   ip_u ip_v ip_s (ctx_lbc_slices ctx) (ctx_sigma_n ctx) domain output_dir) args st;
        Some (emit Logger_info_momentum_done st)
      })"

definition create_era5_input ::
  "ext \<Rightarrow> (string \<times> field3 list) list \<Rightarrow> real list \<Rightarrow> real list \<Rightarrow> field3 list \<Rightarrow> real list \<Rightarrow>
   real list \<Rightarrow> real \<Rightarrow> real list \<Rightarrow> real list \<Rightarrow> domain \<Rightarrow> real \<Rightarrow> string \<Rightarrow> string \<Rightarrow>
   pstate \<Rightarrow> pstate option" where
  "create_era5_input K fields_era lon_era lat_era z_era time_era z zsize rho rhoh domain sigma_h
       name_suffix output_dir st = do {
     (ctx, st) \<leftarrow> driver_setup K fields_era lon_era lat_era time_era z zsize domain sigma_h output_dir st;
     st \<leftarrow> driver_scalars K ctx fields_era z_era time_era domain name_suffix output_dir st;
     driver_momentum K ctx fields_era z_era time_era rho rhoh domain name_suffix output_dir st
   }"

section \<open>What a task computes and what the dataset holds\<close>

text \<open>The record of a variable and side at a time index; \<open>None\<close> while it is not assigned.\<close>

definition cell :: "lbc_dataset \<Rightarrow> string \<Rightarrow> nat \<Rightarrow> field3 option" where
  "cell ds key t =
     (case ds key of None \<Rightarrow> None | Some recs \<Rightarrow> if t < length recs then recs ! t else None)"

text \<open>The dataset has the variable and the time index.\<close>

definition lbc_ok :: "lbc_dataset \<Rightarrow> string \<Rightarrow> nat \<Rightarrow> bool" where
  "lbc_ok ds key t = (case ds key of None \<Rightarrow> False | Some recs \<Rightarrow> t < length recs)"

text \<open>The field that \<^verbatim>\<open>parse_scalar\<close> holds after interpolation and filtering.\<close>

definition scalar_field ::
  "ext \<Rightarrow> domain \<Rightarrow> field3 \<Rightarrow> field3 \<Rightarrow> real list \<Rightarrow> ip_factors \<Rightarrow> int \<Rightarrow> field3 option" where
  "scalar_field K domain fld_era z_era z_les ip_fac sigma_n = do {
     fld_les \<leftarrow> interpolate_rect_to_curv K
                  (length z_les, jtot (proj_pad domain), itot (proj_pad domain)) fld_era
                  (il ip_fac) (jl ip_fac) (fx ip_fac) (fy ip_fac) z_les z_era;
     if sigma_n > 0 then gaussian_filter_wrapper K fld_les sigma_n else Some fld_les
   }"

text \<open>The fields u, v, w that \<^verbatim>\<open>parse_momentum\<close> holds after interpolation and filtering.\<close>

definition momentum_filtered ::
  "ext \<Rightarrow> domain \<Rightarrow> field3 \<Rightarrow> field3 \<Rightarrow> field3 \<Rightarrow> field3 \<Rightarrow> real list \<Rightarrow> real list \<Rightarrow>
   ip_factors \<Rightarrow> ip_factors \<Rightarrow> ip_factors \<Rightarrow> int \<Rightarrow> (field3 \<times> field3 \<times> field3) option" where
  "momentum_filtered K domain u_era v_era w_era z_era z zh ip_u ip_v ip_s sigma_n = do {
     u \<leftarrow> interpolate_rect_to_curv K (length z, jtot (proj_pad domain), itot (proj_pad domain)) u_era
            (il ip_u) (jl ip_u) (fx ip_u) (fy ip_u) z z_era;
     v \<leftarrow> interpolate_rect_to_curv K (length z, jtot (proj_pad domain), itot (proj_pad domain)) v_era
            (il ip_v) (jl ip_v) (fx ip_v) (fy ip_v) z z_era;
     w \<leftarrow> interpolate_rect_to_curv K (length zh, jtot (proj_pad domain), itot (proj_pad domain)) w_era
            (il ip_s) (jl ip_s) (fx ip_s) (fy ip_s) zh z_era;
     if sigma_n > 0
     then do { u \<leftarrow> gaussian_filter_wrapper K u sigma_n;
               v \<leftarrow> gaussian_filter_wrapper K v sigma_n;
               w \<leftarrow> gaussian_filter_wrapper K w sigma_n;
               Some (u, v, w) }
     else Some (u, v, w)
   }"

text \<open>
  The fields u, v, w and the diagnostic that \<^verbatim>\<open>parse_momentum\<close> holds when it starts to
  write: after blending, divergence correction, reconstruction of w and the check.
\<close>

definition momentum_fields ::
  "ext \<Rightarrow> domain \<Rightarrow> field3 \<Rightarrow> field3 \<Rightarrow> field3 \<Rightarrow> field3 \<Rightarrow> real list \<Rightarrow> real list \<Rightarrow>
   real list \<Rightarrow> real list \<Rightarrow> real list \<Rightarrow> real list \<Rightarrow>
   ip_factors \<Rightarrow> ip_factors \<Rightarrow> ip_factors \<Rightarrow> int \<Rightarrow>
   (field3 \<times> field3 \<times> field3 \<times> real \<times> int \<times> int \<times> int) option" where
  "momentum_fields K domain u_era v_era w_era z_era z zh dz dzi rho rhoh ip_u ip_v ip_s sigma_n = do {
     (u, v, w) \<leftarrow> momentum_filtered K domain u_era v_era w_era z_era z zh ip_u ip_v ip_s sigma_n;
     w \<leftarrow> blend_w_to_zero_at_sfc w zh 500;
     (u, v) \<leftarrow> correct_div_uv K u v w rho rhoh dzi
                 (proj_x (proj_pad domain)) (proj_y (proj_pad domain))
                 (xsize (proj_pad domain)) (ysize (proj_pad domain)) (n_pad domain);
     w \<leftarrow> calc_w_from_uv K w u v rho rhoh dz (dxi domain) (dyi domain)
            (istart_pad domain) (iend_pad domain) (jstart_pad domain) (jend_pad domain) (length dz);
     (div_max, i, j, k) \<leftarrow> check_divergence K u v w rho rhoh (dxi domain) (dyi domain) dzi
            (istart_pad domain) (iend_pad domain) (jstart_pad domain) (jend_pad domain) (length dz);
     Some (u, v, w, div_max, i, j, k)
   }"

text \<open>The calls that \<^verbatim>\<open>parse_momentum\<close> makes before it writes, in order.\<close>

definition momentum_calls ::
  "domain \<Rightarrow> nat \<Rightarrow> real list \<Rightarrow> real list \<Rightarrow> ip_factors \<Rightarrow> ip_factors \<Rightarrow> ip_factors \<Rightarrow> int \<Rightarrow>
   event list" where
  "momentum_calls domain t z zh ip_u ip_v ip_s sigma_n =
     [Logger_debug_momentum t,
      Np_empty (length z) (jtot (proj_pad domain)) (itot (proj_pad domain)),
      Np_empty (length z) (jtot (proj_pad domain)) (itot (proj_pad domain)),
      Np_empty (length zh) (jtot (proj_pad domain)) (itot (proj_pad domain)),
      Interpolate_rect_to_curv ip_u z,
      Interpolate_rect_to_curv ip_v z,
      Interpolate_rect_to_curv ip_s zh]
     @ (if sigma_n > 0
        then [Gaussian_filter_wrapper sigma_n, Gaussian_filter_wrapper sigma_n,
              Gaussian_filter_wrapper sigma_n]
        else [])
     @ [Blend_w_to_zero_at_sfc 500, Correct_div_uv, Calc_w_from_uv, Check_divergence]"

text \<open>The calls that \<^verbatim>\<open>parse_scalar\<close> makes before it writes, in order.\<close>

definition scalar_calls :: "domain \<Rightarrow> string \<Rightarrow> nat \<Rightarrow> real list \<Rightarrow> ip_factors \<Rightarrow> int \<Rightarrow> event list" where
  "scalar_calls domain name t z_les ip_fac sigma_n =
     [Logger_debug_field name t,
      Np_empty (length z_les) (jtot (proj_pad domain)) (itot (proj_pad domain)),
      Interpolate_rect_to_curv ip_fac z_les]
     @ (if sigma_n > 0 then [Gaussian_filter_wrapper sigma_n] else [])"

text \<open>The dataset variables that \<^verbatim>\<open>parse_momentum\<close> assigns to.\<close>

definition momentum_keys :: "string list \<Rightarrow> string set" where
  "momentum_keys locs = (\<Union>loc \<in> set locs. {''u_'' @ loc, ''v_'' @ loc, ''w_'' @ loc})"

text \<open>
  The state in which \<^verbatim>\<open>parse_momentum\<close> enters its loop over the sides: the calls so
  far are recorded and, at \<open>t = 0\<close>, the three initial files are written.
\<close>

definition momentum_start ::
  "domain \<Rightarrow> string \<Rightarrow> string \<Rightarrow> nat \<Rightarrow> real list \<Rightarrow> real list \<Rightarrow> ip_factors \<Rightarrow> ip_factors \<Rightarrow>
   ip_factors \<Rightarrow> int \<Rightarrow> field3 \<Rightarrow> field3 \<Rightarrow> field3 \<Rightarrow> real \<Rightarrow> int \<Rightarrow> int \<Rightarrow> int \<Rightarrow> pstate \<Rightarrow> pstate" where
  "momentum_start domain sfx out t z zh ip_u ip_v ip_s sigma_n u v w d i j k st =
     (if t = 0
      then save_3d_field (py_slice 0 (- 1) w) ''w'' sfx (n_pad domain) out
             (save_3d_field v ''v'' sfx (n_pad domain) out
               (save_3d_field u ''u'' sfx (n_pad domain) out
                 (st\<lparr>trace := trace st @ momentum_calls domain t z zh ip_u ip_v ip_s sigma_n
                          @ [Logger_debug_divergence d i j k]\<rparr>)))
      else st\<lparr>trace := trace st @ momentum_calls domain t z zh ip_u ip_v ip_s sigma_n
                          @ [Logger_debug_divergence d i j k]\<rparr>)"

section \<open>Shapes and test data\<close>

text \<open>A numpy array is rectangular: \<open>has_shape nk nj ni fld\<close> says that \<open>fld\<close> has shape (nk, nj, ni).\<close>

definition has_shape :: "nat \<Rightarrow> nat \<Rightarrow> nat \<Rightarrow> 'a field \<Rightarrow> bool" where
  "has_shape nk nj ni fld =
     (length fld = nk \<and>
      list_all (\<lambda>level. length level = nj \<and> list_all (\<lambda>row. length row = ni) level) fld)"

text \<open>The path that \<^verbatim>\<open>save_3d_field\<close> writes to.\<close>

definition f_out_of :: "string \<Rightarrow> string \<Rightarrow> string \<Rightarrow> string" where
  "f_out_of output_dir name name_suffix =
     (if name_suffix = ''''
      then output_dir @ ''/'' @ name @ ''.0000000''
      else output_dir @ ''/'' @ name @ ''_'' @ name_suffix @ ''.0000000'')"

text \<open>The dataset variables of a field name, one per side.\<close>

definition lbc_keys :: "string \<Rightarrow> string set" where
  "lbc_keys name = (\<lambda>loc. name @ ''_'' @ loc) ` set lbc_locs"

text \<open>The calls of one scalar task, in order.\<close>

definition scalar_task_events ::
  "domain \<Rightarrow> string \<Rightarrow> string \<Rightarrow> real list \<Rightarrow> ip_factors \<Rightarrow> int \<Rightarrow> string \<Rightarrow> nat \<Rightarrow> event list" where
  "scalar_task_events domain sfx out z_les ip_fac sigma_n name t =
     scalar_calls domain name t z_les ip_fac sigma_n
     @ (if t = 0 then [Tofile (f_out_of out name sfx)] else [])
     @ map (\<lambda>loc. Lbc_assign (name @ ''_'' @ loc) t) lbc_locs"


text \<open>The scalar tasks of a run when every time slice exists: one per scalar field and time index.\<close>

definition scalar_tasks ::
  "(string \<times> field3 list) list \<Rightarrow> field3 list \<Rightarrow> nat \<Rightarrow> (string \<times> nat \<times> field3 \<times> field3) list" where
  "scalar_tasks fields_era z_era nt =
     concat (map (\<lambda>(name, fld_era).
        if name \<notin> set [''u'', ''v'', ''w'']
        then map (\<lambda>t. (name, t, fld_era ! t, z_era ! t)) [0..<nt]
        else []) fields_era)"

text \<open>One scalar task, as the driver hands it to the executor.\<close>

definition scalar_task ::
  "ext \<Rightarrow> string \<Rightarrow> real list \<Rightarrow> ip_factors \<Rightarrow> lbc_slice_dict \<Rightarrow> int \<Rightarrow> domain \<Rightarrow> string \<Rightarrow>
   string \<times> nat \<times> field3 \<times> field3 \<Rightarrow> pstate \<Rightarrow> pstate option" where
  "scalar_task K sfx z_les ip_fac sl sigma_n domain out a =
     (case a of (name, t, fld_era, ze) \<Rightarrow>
        parse_scalar K name sfx t fld_era ze z_les ip_fac sl sigma_n domain out)"

text \<open>The name and the time index of a task.\<close>

definition task_key :: "string \<times> nat \<times> field3 \<times> field3 \<Rightarrow> string \<times> nat" where
  "task_key a = (fst a, fst (snd a))"

text \<open>The contents of a file in a state.\<close>

definition file_of :: "string \<Rightarrow> pstate \<Rightarrow> real list option" where
  "file_of p st = files st p"

text \<open>The last call that a state records, if any.\<close>

definition last_event :: "pstate \<Rightarrow> event option" where
  "last_event st = (if trace st = [] then None else Some (last (trace st)))"

text \<open>An empty initial state and a field of one level with a halo of one cell.\<close>

definition st0 :: pstate where
  "st0 = \<lparr>lbc_ds = Map.empty, files = Map.empty, trace = []\<rparr>"

definition fld_test :: field3 where
  "fld_test = [[[1, 2, 3], [4, 5, 6], [7, 8, 9]]]"

text \<open>
  A small instance of the collaborators, used to run the model on concrete input. The
  vertical grid has one full level; the interpolation copies the lowest levels of the
  source field; the filter adds the kernel width to every value, so that its use shows;
  the divergence kernels leave the fields alone. The slices take the outermost column or
  row of each side.
\<close>

definition slices_test :: lbc_slice_dict where
  "slices_test = map_of (concat (map (\<lambda>g.
     [(g @ ''_west'', map (map (take 1))),
      (g @ ''_east'', map (map (\<lambda>row. drop (length row - 1) row))),
      (g @ ''_south'', map (take 1)),
      (g @ ''_north'', map (\<lambda>level. drop (length level - 1) level))])
     [''s'', ''u'', ''v'', ''w'']))"

definition K_test :: ext where
  "K_test = \<lparr>
     vertical_grid_2nd = (\<lambda>z zsize. Some \<lparr>vgrid_z = z, vgrid_zh = [0, zsize],
                                          vgrid_dz = [zsize], vgrid_dzi = [1 / zsize]\<rparr>),
     rect_to_curv_interpolation_factors =
       (\<lambda>lon_era lat_era lon_les lat_les. Some \<lparr>il = [], jl = [], fx = lon_les, fy = lat_les\<rparr>),
     interpolate_rect_to_curv =
       (\<lambda>shape fld_era i j x y z_les z_era. Some (take (fst shape) fld_era)),
     gaussian_filter_wrapper =
       (\<lambda>fld sigma_n. Some (map (map (map (\<lambda>x. x + real_of_int sigma_n))) fld)),
     correct_div_uv = (\<lambda>u v w rho rhoh dzi x y xs ys n. Some (u, v)),
     calc_w_from_uv = (\<lambda>w u v rho rhoh dz dxi dyi is ie js je kmax. Some w),
     check_divergence = (\<lambda>u v w rho rhoh dxi dyi dzi is ie js je kmax. Some (0, 0, 0, 0)),
     setup_lbc_slices = (\<lambda>ng ns. slices_test)\<rparr>"

definition proj_test :: projection where
  "proj_test = \<lparr>lon_u = [[1]], lat_u = [[1]], lon_v = [[2]], lat_v = [[2]], lon = [[3]], lat = [[3]],
                 proj_x = [], proj_y = [], xsize = 300, ysize = 300, proj_dx = 100,
                 itot = 3, jtot = 3\<rparr>"

definition domain_test :: domain where
  "domain_test = \<lparr>proj_pad = proj_test, dom_x = [], dom_y = [], dom_xh = [], dom_yh = [],
                   n_pad = 1, n_ghost = 0, n_sponge = 1, dxi = 1 / 100, dyi = 1 / 100,
                   istart_pad = 1, iend_pad = 2, jstart_pad = 1, jend_pad = 2\<rparr>"

text \<open>A source field of two levels of 3 by 3 values; the centre of level \<open>k\<close> holds \<open>c + k + 1\<close>.\<close>

definition era_test :: "real \<Rightarrow> field3" where
  "era_test c = [[[c, c, c], [c, c + 1, c], [c, c, c]], [[c, c, c], [c, c + 2, c], [c, c, c]]]"

definition ip_test :: ip_factors where
  "ip_test = \<lparr>il = [], jl = [], fx = [[3]], fy = [[3]]\<rparr>"

text \<open>A state whose dataset holds the variable thl at two times.\<close>

definition st_thl :: pstate where
  "st_thl = st0\<lparr>lbc_ds := create_lbc_ds [''thl''] [0, 3600] [] [] [] [] [] [] 0 1\<rparr>"

text \<open>A state whose dataset holds the variables u, v and w at two times.\<close>

definition st_uvw :: pstate where
  "st_uvw = st0\<lparr>lbc_ds := create_lbc_ds [''u'', ''v'', ''w''] [0, 3600] [] [] [] [] [] [] 0 1\<rparr>"

text \<open>
  The calls that only the momentum part of a run makes: its log messages, the blending
  and the divergence kernels, the initial files of u, v and w and the assignments to the
  dataset variables of u, v and w.
\<close>

fun is_momentum_event :: "string \<Rightarrow> string \<Rightarrow> event \<Rightarrow> bool" where
  "is_momentum_event out sfx (Logger_debug_momentum t) = True"
| "is_momentum_event out sfx (Logger_debug_divergence d i j k) = True"
| "is_momentum_event out sfx Logger_info_momentum_done = True"
| "is_momentum_event out sfx (Blend_w_to_zero_at_sfc zmax) = True"
| "is_momentum_event out sfx Correct_div_uv = True"
| "is_momentum_event out sfx Calc_w_from_uv = True"
| "is_momentum_event out sfx Check_divergence = True"
| "is_momentum_event out sfx (Tofile p) = (p \<in> (\<lambda>c. f_out_of out c sfx) ` set [''u'', ''v'', ''w''])"
| "is_momentum_event out sfx (Lbc_assign key t) = (key \<in> momentum_keys lbc_locs)"
| "is_momentum_event out sfx e = False"

text \<open>The events that a run adds to the trace.\<close>

definition new_events :: "pstate \<Rightarrow> pstate \<Rightarrow> event list" where
  "new_events st st' = drop (length (trace st)) (trace st')"

text \<open>Input of a run with the scalar thl and the components u and v, and the same with w.\<close>

definition fields_uv :: "(string \<times> field3 list) list" where
  "fields_uv = [(''thl'', [era_test 10, era_test 20]), (''u'', [era_test 1, era_test 2]),
                (''v'', [era_test 3, era_test 4])]"

definition fields_uvw :: "(string \<times> field3 list) list" where
  "fields_uvw = fields_uv @ [(''w'', [era_test 5, era_test 6])]"

definition z_era_test :: "field3 list" where
  "z_era_test = [era_test 0, era_test 0]"

definition run_test :: "(string \<times> field3 list) list \<Rightarrow> real \<Rightarrow> pstate option" where
  "run_test fields_era sigma_h =
     create_era5_input K_test fields_era [] [] z_era_test [0, 3600] [125] 250 [1] [1, 1]
       domain_test sigma_h '''' ''.'' st0"

section \<open>Slices and the C order\<close>

lemma py_slice_pad:
  assumes "1 \<le> n"
  shows "py_slice n (- n) xs = take (length xs - 2 * nat n) (drop (nat n) xs)"
proof -
  have a: "py_bound n (length xs) = min (nat n) (length xs)"
    using assms by (simp add: py_bound_def)
  have b: "py_bound (- n) (length xs) = length xs - nat n"
    using assms by (auto simp: py_bound_def max_def)
  show ?thesis
  proof (cases "nat n \<le> length xs")
    case True
    then show ?thesis by (simp add: py_slice_def Let_def a b min_def mult_2)
  next
    case False
    then show ?thesis by (simp add: py_slice_def Let_def a b)
  qed
qed

lemma py_slice_butlast: "py_slice 0 (- 1) xs = butlast xs"
proof -
  have "nat (max 0 (- 1 + int (length xs))) = length xs - 1" by arith
  then show ?thesis by (simp add: py_slice_def py_bound_def butlast_conv_take)
qed

lemma length_concat_uniform:
  "\<forall>xs \<in> set xss. length xs = m \<Longrightarrow> length (concat xss) = length xss * m"
  by (induction xss) simp_all

lemma nth_concat_uniform:
  "\<forall>xs \<in> set xss. length xs = m \<Longrightarrow> r < length xss \<Longrightarrow> c < m \<Longrightarrow>
   concat xss ! (r * m + c) = xss ! r ! c"
proof (induction xss arbitrary: r)
  case Nil
  then show ?case by simp
next
  case (Cons xs xss)
  show ?case
  proof (cases r)
    case 0
    with Cons.prems show ?thesis by (simp add: nth_append)
  next
    case (Suc r')
    have "concat (xs # xss) ! (r * m + c) = concat xss ! (r' * m + c)"
      using Cons.prems Suc by (simp add: nth_append)
    also have "\<dots> = xss ! r' ! c"
      using Cons.prems Suc by (intro Cons.IH) simp_all
    finally show ?thesis using Suc by simp
  qed
qed

lemma length_c_order:
  assumes "has_shape nk nj ni fld"
  shows "length (c_order fld) = nk * nj * ni"
proof -
  have rows: "\<forall>level \<in> set fld. length (concat level) = nj * ni"
    using assms by (auto simp: has_shape_def list_all_iff length_concat_uniform)
  then have "\<forall>xs \<in> set (map concat fld). length xs = nj * ni" by simp
  then have "length (concat (map concat fld)) = length (map concat fld) * (nj * ni)"
    by (rule length_concat_uniform)
  then show ?thesis using assms by (simp add: c_order_def has_shape_def)
qed

lemma nth_c_order:
  assumes "has_shape nk nj ni fld" and "k < nk" and "j < nj" and "i < ni"
  shows "c_order fld ! ((k * nj + j) * ni + i) = fld ! k ! j ! i"
proof -
  have lev: "\<forall>level \<in> set fld. length level = nj \<and> (\<forall>row \<in> set level. length row = ni)"
    using assms(1) by (auto simp: has_shape_def list_all_iff)
  have len: "length fld = nk" using assms(1) by (simp add: has_shape_def)
  have rows: "\<forall>xs \<in> set (map concat fld). length xs = nj * ni"
    using lev by (auto simp: length_concat_uniform)
  have "j * ni + i < Suc j * ni" using assms(4) by simp
  also have "\<dots> \<le> nj * ni" using assms(3) by (intro mult_le_mono1) simp
  finally have c: "j * ni + i < nj * ni" .
  have idx: "(k * nj + j) * ni + i = k * (nj * ni) + (j * ni + i)"
    by (simp add: algebra_simps)
  have "c_order fld ! ((k * nj + j) * ni + i) = map concat fld ! k ! (j * ni + i)"
    unfolding c_order_def idx using rows len assms(2) c by (intro nth_concat_uniform) simp_all
  also have "\<dots> = concat (fld ! k) ! (j * ni + i)"
    using len assms(2) by simp
  also have "\<dots> = fld ! k ! j ! i"
  proof (rule nth_concat_uniform)
    show "\<forall>xs\<in>set (fld ! k). length xs = ni" using lev len assms(2) by (metis nth_mem)
    show "j < length (fld ! k)" using lev len assms(2,3) by (metis nth_mem)
    show "i < ni" by fact
  qed
  finally show ?thesis .
qed

lemma has_shape_strip_pad:
  assumes "1 \<le> n" and "has_shape nk nj ni fld"
  shows "has_shape nk (nj - 2 * nat n) (ni - 2 * nat n) (strip_pad n fld)"
  using assms
  by (auto simp: has_shape_def strip_pad_def list_all_iff py_slice_pad
           dest!: in_set_takeD in_set_dropD)

lemma nth_strip_pad:
  assumes "1 \<le> n" and "has_shape nk nj ni fld"
    and "k < nk" and "j < nj - 2 * nat n" and "i < ni - 2 * nat n"
  shows "strip_pad n fld ! k ! j ! i = fld ! k ! (j + nat n) ! (i + nat n)"
proof -
  have len: "length fld = nk" using assms(2) by (simp add: has_shape_def)
  have lev: "length (fld ! k) = nj"
    using assms(2,3) by (auto simp: has_shape_def list_all_length)
  have row: "length (fld ! k ! (nat n + j)) = ni"
    using assms(2,3,4) by (auto simp: has_shape_def list_all_length)
  show ?thesis
    using assms(1,3,4,5) len lev row
    by (simp add: strip_pad_def py_slice_pad add.commute)
qed

lemma save_3d_field_eq:
  "save_3d_field fld name name_suffix n output_dir st =
     emit (Tofile (f_out_of output_dir name name_suffix))
       (st\<lparr>files := (files st)(f_out_of output_dir name name_suffix \<mapsto> c_order (strip_pad n fld))\<rparr>)"
  by (simp add: save_3d_field_def f_out_of_def tofile_def Let_def)

section \<open>Writing an initial field\<close>

text \<open>
  C7. For every halo width \<open>n_pad \<ge> 1\<close> and every field of shape (nk, nj, ni),
  \<^verbatim>\<open>save_3d_field\<close> writes exactly one file. Its name in the output directory is
  name.0000000 when the suffix is empty and name_suffix.0000000 otherwise. Its contents
  are the \<open>nk * (nj - 2 n_pad) * (ni - 2 n_pad)\<close> values of the field with \<open>n_pad\<close> cells
  removed on each of the four horizontal sides and every level kept, level by level and
  row by row: the item at position \<open>(k * (nj - 2 n_pad) + j) * (ni - 2 n_pad) + i\<close> is
  the value of the field at level \<open>k\<close>, row \<open>j + n_pad\<close>, column \<open>i + n_pad\<close>, so no value
  of the halo is written. The LBC dataset is left alone.
\<close>

theorem save_3d_field_interior:
  assumes "1 \<le> n" and "has_shape nk nj ni fld"
  shows "files (save_3d_field fld name name_suffix n output_dir st) =
           (files st)(output_dir @ ''/'' @ name @ (if name_suffix = '''' then '''' else ''_'' @ name_suffix)
                        @ ''.0000000'' \<mapsto> c_order (strip_pad n fld))
       \<and> lbc_ds (save_3d_field fld name name_suffix n output_dir st) = lbc_ds st
       \<and> trace (save_3d_field fld name name_suffix n output_dir st) =
           trace st @ [Tofile (output_dir @ ''/'' @ name
                        @ (if name_suffix = '''' then '''' else ''_'' @ name_suffix) @ ''.0000000'')]
       \<and> length (c_order (strip_pad n fld)) = nk * (nj - 2 * nat n) * (ni - 2 * nat n)
       \<and> (\<forall>k < nk. \<forall>j < nj - 2 * nat n. \<forall>i < ni - 2 * nat n.
            c_order (strip_pad n fld) ! ((k * (nj - 2 * nat n) + j) * (ni - 2 * nat n) + i)
              = fld ! k ! (j + nat n) ! (i + nat n))"
proof -
  have sh: "has_shape nk (nj - 2 * nat n) (ni - 2 * nat n) (strip_pad n fld)"
    using assms by (rule has_shape_strip_pad)
  have "\<forall>k < nk. \<forall>j < nj - 2 * nat n. \<forall>i < ni - 2 * nat n.
          c_order (strip_pad n fld) ! ((k * (nj - 2 * nat n) + j) * (ni - 2 * nat n) + i)
            = fld ! k ! (j + nat n) ! (i + nat n)"
    using nth_c_order [OF sh] nth_strip_pad [OF assms] by simp
  moreover have "length (c_order (strip_pad n fld)) = nk * (nj - 2 * nat n) * (ni - 2 * nat n)"
    using sh by (rule length_c_order)
  ultimately show ?thesis
    by (simp add: save_3d_field_eq f_out_of_def emit_def)
qed

theorem save_3d_field_interior_witness:
  "(1::int) \<le> 1 \<and> has_shape 1 3 3 fld_test
   \<and> files (save_3d_field fld_test ''thl'' '''' 1 ''.'' st0) ''./thl.0000000'' = Some [5]
   \<and> files (save_3d_field fld_test ''thl'' ''ext'' 1 ''.'' st0) ''./thl_ext.0000000'' = Some [5]
   \<and> c_order (strip_pad 1 fld_test) ! 0 = fld_test ! 0 ! 1 ! 1"
proof -
  have h: "has_shape 1 3 3 fld_test"
    by (simp add: has_shape_def fld_test_def)
  have c: "c_order (strip_pad 1 fld_test) = [5]"
    by (simp add: c_order_def strip_pad_def fld_test_def py_slice_def py_bound_def)
  show ?thesis
    using h c
      save_3d_field_interior [of 1 1 3 3 fld_test "''thl''" "''''" "''.''" st0]
      save_3d_field_interior [of 1 1 3 3 fld_test "''thl''" "''ext''" "''.''" st0]
    by simp
qed

section \<open>Assignments into the dataset\<close>

lemma lbc_assign_Some:
  "lbc_assign key t band st = Some st' \<longleftrightarrow>
   (\<exists>recs. lbc_ds st key = Some recs \<and> t < length recs \<and>
      st' = emit (Lbc_assign key t) (st\<lparr>lbc_ds := (lbc_ds st)(key \<mapsto> recs[t := Some band])\<rparr>))"
  by (auto simp: lbc_assign_def split: option.splits)

lemma lbc_assign_files: "lbc_assign key t band st = Some st' \<Longrightarrow> files st' = files st"
  by (auto simp: lbc_assign_Some emit_def)

lemma lbc_assign_trace:
  "lbc_assign key t band st = Some st' \<Longrightarrow> trace st' = trace st @ [Lbc_assign key t]"
  by (auto simp: lbc_assign_Some emit_def)

lemma lbc_assign_cell:
  "lbc_assign key t band st = Some st' \<Longrightarrow>
   cell (lbc_ds st') key' t' = (if key' = key \<and> t' = t then Some band else cell (lbc_ds st) key' t')"
  by (auto simp: lbc_assign_Some emit_def cell_def)

lemma lbc_assign_ok:
  "lbc_assign key t band st = Some st' \<Longrightarrow> lbc_ok (lbc_ds st') key' t' = lbc_ok (lbc_ds st) key' t'"
  by (auto simp: lbc_assign_Some emit_def lbc_ok_def split: option.splits if_splits)

lemma lbc_assign_total:
  "lbc_ok (lbc_ds st) key t \<Longrightarrow> \<exists>st'. lbc_assign key t band st = Some st'"
  by (auto simp: lbc_assign_def lbc_ok_def split: option.splits)

lemma lbc_assign_needs: "lbc_assign key t band st = Some st' \<Longrightarrow> lbc_ok (lbc_ds st) key t"
  by (auto simp: lbc_assign_Some lbc_ok_def)

lemma lbc_loop_scalar_files:
  "lbc_loop_scalar sl name t fld locs st = Some st' \<Longrightarrow> files st' = files st"
  by (induction locs arbitrary: st) (auto simp: bind_eq_Some_conv dest: lbc_assign_files)

lemma lbc_loop_scalar_trace:
  "lbc_loop_scalar sl name t fld locs st = Some st' \<Longrightarrow>
   trace st' = trace st @ map (\<lambda>loc. Lbc_assign (name @ ''_'' @ loc) t) locs"
  by (induction locs arbitrary: st) (auto simp: bind_eq_Some_conv dest: lbc_assign_trace)

lemma lbc_loop_scalar_ok:
  "lbc_loop_scalar sl name t fld locs st = Some st' \<Longrightarrow>
   lbc_ok (lbc_ds st') key t' = lbc_ok (lbc_ds st) key t'"
  by (induction locs arbitrary: st) (auto simp: bind_eq_Some_conv dest: lbc_assign_ok)

lemma lbc_loop_scalar_frame:
  "lbc_loop_scalar sl name t fld locs st = Some st' \<Longrightarrow>
   \<not> (t' = t \<and> key \<in> (\<lambda>loc. name @ ''_'' @ loc) ` set locs) \<Longrightarrow>
   cell (lbc_ds st') key t' = cell (lbc_ds st) key t'"
proof (induction locs arbitrary: st)
  case Nil
  then show ?case by simp
next
  case (Cons loc locs)
  from Cons.prems(1) obtain s st1 where
    s: "sl (''s_'' @ loc) = Some s" and
    a: "lbc_assign (name @ ''_'' @ loc) t (s fld) st = Some st1" and
    r: "lbc_loop_scalar sl name t fld locs st1 = Some st'"
    by (auto simp: bind_eq_Some_conv)
  have "cell (lbc_ds st') key t' = cell (lbc_ds st1) key t'"
    using Cons.IH [OF r] Cons.prems(2) by auto
  also have "\<dots> = cell (lbc_ds st) key t'"
    using lbc_assign_cell [OF a] Cons.prems(2) by auto
  finally show ?case .
qed

lemma lbc_loop_scalar_cells:
  "lbc_loop_scalar sl name t fld locs st = Some st' \<Longrightarrow> distinct locs \<Longrightarrow> loc \<in> set locs \<Longrightarrow>
   \<exists>s. sl (''s_'' @ loc) = Some s \<and> cell (lbc_ds st') (name @ ''_'' @ loc) t = Some (s fld)"
proof (induction locs arbitrary: st)
  case Nil
  then show ?case by simp
next
  case (Cons l locs)
  from Cons.prems(1) obtain s st1 where
    s: "sl (''s_'' @ l) = Some s" and
    a: "lbc_assign (name @ ''_'' @ l) t (s fld) st = Some st1" and
    r: "lbc_loop_scalar sl name t fld locs st1 = Some st'"
    by (auto simp: bind_eq_Some_conv)
  show ?case
  proof (cases "loc = l")
    case True
    have "l \<notin> set locs" using Cons.prems(2) by simp
    then have "cell (lbc_ds st') (name @ ''_'' @ l) t = cell (lbc_ds st1) (name @ ''_'' @ l) t"
      by (intro lbc_loop_scalar_frame [OF r]) auto
    then show ?thesis using True s lbc_assign_cell [OF a] by simp
  next
    case False
    then show ?thesis using Cons.IH [OF r] Cons.prems(2,3) by simp
  qed
qed

lemma lbc_loop_scalar_total:
  "\<forall>loc \<in> set locs. sl (''s_'' @ loc) \<noteq> None \<and> lbc_ok (lbc_ds st) (name @ ''_'' @ loc) t \<Longrightarrow>
   \<exists>st'. lbc_loop_scalar sl name t fld locs st = Some st'"
proof (induction locs arbitrary: st)
  case Nil
  then show ?case by simp
next
  case (Cons l locs)
  from Cons.prems obtain s where s: "sl (''s_'' @ l) = Some s" by auto
  from Cons.prems obtain st1 where a: "lbc_assign (name @ ''_'' @ l) t (s fld) st = Some st1"
    using lbc_assign_total by (metis list.set_intros(1))
  have "\<forall>loc \<in> set locs. sl (''s_'' @ loc) \<noteq> None \<and> lbc_ok (lbc_ds st1) (name @ ''_'' @ loc) t"
    using Cons.prems lbc_assign_ok [OF a] by simp
  from Cons.IH [OF this] show ?case using s a by simp
qed

lemma lbc_loop_scalar_needs:
  "lbc_loop_scalar sl name t fld locs st = Some st' \<Longrightarrow> loc \<in> set locs \<Longrightarrow>
   sl (''s_'' @ loc) \<noteq> None \<and> lbc_ok (lbc_ds st) (name @ ''_'' @ loc) t"
proof (induction locs arbitrary: st)
  case Nil
  then show ?case by simp
next
  case (Cons l locs)
  from Cons.prems(1) obtain s st1 where
    s: "sl (''s_'' @ l) = Some s" and
    a: "lbc_assign (name @ ''_'' @ l) t (s fld) st = Some st1" and
    r: "lbc_loop_scalar sl name t fld locs st1 = Some st'"
    by (auto simp: bind_eq_Some_conv)
  show ?case
  proof (cases "loc = l")
    case True
    then show ?thesis using s lbc_assign_needs [OF a] by simp
  next
    case False
    then show ?thesis using Cons.IH [OF r] Cons.prems(2) lbc_assign_ok [OF a] by simp
  qed
qed

lemma parse_scalar_Some:
  "parse_scalar K name sfx t fld_era ze z_les ip sl sigma_n domain out st = Some st' \<longleftrightarrow>
   (\<exists>fld. scalar_field K domain fld_era ze z_les ip sigma_n = Some fld \<and>
      lbc_loop_scalar sl name t fld lbc_locs
        ((if t = 0 then save_3d_field fld name sfx (n_pad domain) out else id)
           (st\<lparr>trace := trace st @ scalar_calls domain name t z_les ip sigma_n\<rparr>)) = Some st')"
  by (auto simp: parse_scalar_def scalar_field_def scalar_calls_def bind_eq_Some_conv Let_def emit_def)

section \<open>The empty dataset\<close>

lemma distinct_lbc_locs: "distinct lbc_locs"
  by (simp add: lbc_locs_def)

lemma scalar_field_test:
  "scalar_field K_test domain_test (era_test 10) (era_test 0) [50] ip_test 0
     = Some [[[10, 10, 10], [10, 11, 10], [10, 10, 10]]]"
  by (simp add: scalar_field_def K_test_def era_test_def domain_test_def proj_test_def)

lemma create_lbc_ds_Some:
  assumes "create_lbc_ds names te x y z xh yh zh ng ns key = Some recs"
  shows "recs = replicate (length te) None"
proof -
  from assms have "(key, recs) \<in> set (concat (map (\<lambda>name.
        map (\<lambda>loc. (name @ ''_'' @ loc, replicate (length te) None)) lbc_locs) names))"
    unfolding create_lbc_ds_def by (rule map_of_SomeD)
  then show ?thesis by auto
qed

lemma create_lbc_ds_dom:
  "create_lbc_ds names te x y z xh yh zh ng ns key \<noteq> None \<longleftrightarrow>
   (\<exists>name \<in> set names. \<exists>loc \<in> set lbc_locs. key = name @ ''_'' @ loc)"
  unfolding create_lbc_ds_def map_of_eq_None_iff by (auto simp: image_iff)

lemma cell_create_lbc_ds: "cell (create_lbc_ds names te x y z xh yh zh ng ns) key t = None"
  by (auto simp: cell_def split: option.splits dest!: create_lbc_ds_Some)

lemma lbc_ok_create_lbc_ds:
  "lbc_ok (create_lbc_ds names te x y z xh yh zh ng ns) key t \<longleftrightarrow>
   t < length te \<and> (\<exists>name \<in> set names. \<exists>loc \<in> set lbc_locs. key = name @ ''_'' @ loc)"
proof (cases "create_lbc_ds names te x y z xh yh zh ng ns key")
  case None
  then show ?thesis using create_lbc_ds_dom [of names te x y z xh yh zh ng ns key]
    by (simp add: lbc_ok_def)
next
  case (Some recs)
  then show ?thesis
    using create_lbc_ds_dom [of names te x y z xh yh zh ng ns key] create_lbc_ds_Some [OF Some]
    by (simp add: lbc_ok_def)
qed

lemma st_thl_ok:
  "\<forall>loc \<in> set lbc_locs. slices_test (''s_'' @ loc) \<noteq> None
        \<and> lbc_ok (lbc_ds st_thl) (''thl'' @ ''_'' @ loc) t = (t < 2)"
  by (auto simp: st_thl_def st0_def lbc_ok_create_lbc_ds) (auto simp: lbc_locs_def slices_test_def)

section \<open>The scalar pipeline\<close>

text \<open>
  C6. For one scalar variable and one time index \<open>t\<close>, when interpolation and filtering
  give the field \<open>fld\<close> and the slice dictionary and the dataset have the entries of the
  four sides, \<^verbatim>\<open>parse_scalar\<close> returns, and
  \<^item> the initial file of the variable is written, with the interior of \<open>fld\<close>, if and only
    if \<open>t = 0\<close>: for any other \<open>t\<close> the files are unchanged and no file is written;
  \<^item> for every \<open>t\<close>, also \<open>t = 0\<close>, the records of the variable at west, east, south
    and north at time \<open>t\<close> hold the slices of \<open>fld\<close>, and no other record changes.
\<close>

theorem parse_scalar_outputs:
  assumes fld: "scalar_field K domain fld_era ze z_les ip sigma_n = Some fld"
    and ok: "\<forall>loc \<in> set lbc_locs. sl (''s_'' @ loc) \<noteq> None \<and> lbc_ok (lbc_ds st) (name @ ''_'' @ loc) t"
  shows "\<exists>st'. parse_scalar K name sfx t fld_era ze z_les ip sl sigma_n domain out st = Some st'
     \<and> files st' = (if t = 0
                    then (files st)(f_out_of out name sfx \<mapsto> c_order (strip_pad (n_pad domain) fld))
                    else files st)
     \<and> (\<forall>loc \<in> set lbc_locs. \<exists>s. sl (''s_'' @ loc) = Some s
            \<and> cell (lbc_ds st') (name @ ''_'' @ loc) t = Some (s fld))
     \<and> (\<forall>key t'. \<not> (t' = t \<and> key \<in> (\<lambda>loc. name @ ''_'' @ loc) ` set lbc_locs)
            \<longrightarrow> cell (lbc_ds st') key t' = cell (lbc_ds st) key t')
     \<and> trace st' = trace st @ scalar_calls domain name t z_les ip sigma_n
            @ (if t = 0 then [Tofile (f_out_of out name sfx)] else [])
            @ map (\<lambda>loc. Lbc_assign (name @ ''_'' @ loc) t) lbc_locs
     \<and> lbc_locs = [''west'', ''east'', ''south'', ''north'']"
proof -
  define st1 where "st1 = (if t = 0 then save_3d_field fld name sfx (n_pad domain) out else id)
           (st\<lparr>trace := trace st @ scalar_calls domain name t z_les ip sigma_n\<rparr>)"
  have ds1: "lbc_ds st1 = lbc_ds st"
    by (simp add: st1_def save_3d_field_eq emit_def)
  have f1: "files st1 = (if t = 0
                    then (files st)(f_out_of out name sfx \<mapsto> c_order (strip_pad (n_pad domain) fld))
                    else files st)"
    by (simp add: st1_def save_3d_field_eq emit_def)
  have t1: "trace st1 = trace st @ scalar_calls domain name t z_les ip sigma_n
            @ (if t = 0 then [Tofile (f_out_of out name sfx)] else [])"
    by (simp add: st1_def save_3d_field_eq emit_def)
  from ok ds1 obtain st' where loop: "lbc_loop_scalar sl name t fld lbc_locs st1 = Some st'"
    using lbc_loop_scalar_total [of lbc_locs sl st1 name t fld] by auto
  have run: "parse_scalar K name sfx t fld_era ze z_les ip sl sigma_n domain out st = Some st'"
    unfolding parse_scalar_Some using fld loop by (auto simp: st1_def)
  have "files st' = files st1" using loop by (rule lbc_loop_scalar_files)
  moreover have "trace st' = trace st1 @ map (\<lambda>loc. Lbc_assign (name @ ''_'' @ loc) t) lbc_locs"
    using loop by (rule lbc_loop_scalar_trace)
  moreover have "\<forall>loc \<in> set lbc_locs. \<exists>s. sl (''s_'' @ loc) = Some s
            \<and> cell (lbc_ds st') (name @ ''_'' @ loc) t = Some (s fld)"
    using lbc_loop_scalar_cells [OF loop distinct_lbc_locs] by blast
  moreover have "\<forall>key t'. \<not> (t' = t \<and> key \<in> (\<lambda>loc. name @ ''_'' @ loc) ` set lbc_locs)
            \<longrightarrow> cell (lbc_ds st') key t' = cell (lbc_ds st) key t'"
    using lbc_loop_scalar_frame [OF loop] ds1 by simp
  ultimately show ?thesis
    using run f1 t1 by (simp add: lbc_locs_def)
qed

theorem parse_scalar_outputs_witness:
  "(\<exists>st'. parse_scalar K_test ''thl'' '''' 0 (era_test 10) (era_test 0) [50] ip_test slices_test 0
             domain_test ''.'' st_thl = Some st'
       \<and> files st' ''./thl.0000000'' = Some [11]
       \<and> cell (lbc_ds st') ''thl_west'' 0 = Some [[[10], [10], [10]]]
       \<and> cell (lbc_ds st') ''thl_north'' 0 = Some [[[10, 10, 10]]]
       \<and> cell (lbc_ds st') ''thl_west'' 1 = None)
   \<and> (\<exists>st'. parse_scalar K_test ''thl'' '''' 1 (era_test 10) (era_test 0) [50] ip_test slices_test 0
             domain_test ''.'' st_thl = Some st'
       \<and> files st' ''./thl.0000000'' = None
       \<and> cell (lbc_ds st') ''thl_west'' 1 = Some [[[10], [10], [10]]]
       \<and> cell (lbc_ds st') ''thl_west'' 0 = None)"
proof -
  have ok: "\<forall>loc \<in> set lbc_locs. slices_test (''s_'' @ loc) \<noteq> None
        \<and> lbc_ok (lbc_ds st_thl) (''thl'' @ ''_'' @ loc) t" if "t < 2" for t
    using st_thl_ok [of t] that by simp
  have sl: "slices_test ''s_west'' = Some (map (map (take 1)))"
     "slices_test ''s_north'' = Some (map (\<lambda>level. drop (length level - 1) level))"
    by (simp_all add: slices_test_def)
  have c0: "cell (lbc_ds st_thl) key t = None" for key t
    by (simp add: st_thl_def st0_def cell_create_lbc_ds)
  have f0: "files st_thl = Map.empty" by (simp add: st_thl_def st0_def)
  have co: "c_order (strip_pad (n_pad domain_test) [[[10, 10, 10], [10, 11, 10], [10, 10, 10::real]]]) = [11]"
    by (simp add: c_order_def strip_pad_def py_slice_def py_bound_def domain_test_def)
  from parse_scalar_outputs [OF scalar_field_test ok, where t = 0 and sfx = "''''" and out = "''.''"]
  obtain sa where a: "parse_scalar K_test ''thl'' '''' 0 (era_test 10) (era_test 0) [50] ip_test slices_test 0
             domain_test ''.'' st_thl = Some sa"
    and fa: "files sa = (files st_thl)(f_out_of ''.'' ''thl'' '''' \<mapsto>
               c_order (strip_pad (n_pad domain_test) [[[10, 10, 10], [10, 11, 10], [10, 10, 10]]]))"
    and ca: "\<forall>loc \<in> set lbc_locs. \<exists>s. slices_test (''s_'' @ loc) = Some s
            \<and> cell (lbc_ds sa) (''thl'' @ ''_'' @ loc) 0 = Some (s [[[10, 10, 10], [10, 11, 10], [10, 10, 10]]])"
    and fra: "\<forall>key t'. \<not> (t' = 0 \<and> key \<in> (\<lambda>loc. ''thl'' @ ''_'' @ loc) ` set lbc_locs)
            \<longrightarrow> cell (lbc_ds sa) key t' = cell (lbc_ds st_thl) key t'"
    by auto
  from parse_scalar_outputs [OF scalar_field_test ok, where t = 1 and sfx = "''''" and out = "''.''"]
  obtain sb where b: "parse_scalar K_test ''thl'' '''' 1 (era_test 10) (era_test 0) [50] ip_test slices_test 0
             domain_test ''.'' st_thl = Some sb"
    and fb: "files sb = files st_thl"
    and cb: "\<forall>loc \<in> set lbc_locs. \<exists>s. slices_test (''s_'' @ loc) = Some s
            \<and> cell (lbc_ds sb) (''thl'' @ ''_'' @ loc) 1 = Some (s [[[10, 10, 10], [10, 11, 10], [10, 10, 10]]])"
    and frb: "\<forall>key t'. \<not> (t' = 1 \<and> key \<in> (\<lambda>loc. ''thl'' @ ''_'' @ loc) ` set lbc_locs)
            \<longrightarrow> cell (lbc_ds sb) key t' = cell (lbc_ds st_thl) key t'"
    by auto
  have "files sa ''./thl.0000000'' = Some [11]"
    using fa co by (simp add: f_out_of_def)
  moreover have "cell (lbc_ds sa) ''thl_west'' 0 = Some [[[10], [10], [10]]]"
    using ca sl by (simp add: lbc_locs_def)
  moreover have "cell (lbc_ds sa) ''thl_north'' 0 = Some [[[10, 10, 10]]]"
    using ca sl by (simp add: lbc_locs_def)
  moreover have "cell (lbc_ds sa) ''thl_west'' 1 = None"
    using fra c0 by simp
  moreover have "files sb ''./thl.0000000'' = None" using fb f0 by simp
  moreover have "cell (lbc_ds sb) ''thl_west'' 1 = Some [[[10], [10], [10]]]"
    using cb sl by (simp add: lbc_locs_def)
  moreover have "cell (lbc_ds sb) ''thl_west'' 0 = None"
    using frb c0 by simp
  ultimately show ?thesis using a b by simp
qed

section \<open>The momentum pipeline: its loop over the sides and its pure part\<close>

lemma momentum_fields_Some:
  "momentum_fields K domain u_era v_era w_era ze z zh dz dzi rho rhoh ip_u ip_v ip_s sigma_n
     = Some (u, v, w, d, i, j, k) \<longleftrightarrow>
   (\<exists>u0 v0 w0 w1.
      momentum_filtered K domain u_era v_era w_era ze z zh ip_u ip_v ip_s sigma_n = Some (u0, v0, w0)
    \<and> blend_w_to_zero_at_sfc w0 zh 500 = Some w1
    \<and> correct_div_uv K u0 v0 w1 rho rhoh dzi (proj_x (proj_pad domain)) (proj_y (proj_pad domain))
          (xsize (proj_pad domain)) (ysize (proj_pad domain)) (n_pad domain) = Some (u, v)
    \<and> calc_w_from_uv K w1 u v rho rhoh dz (dxi domain) (dyi domain)
          (istart_pad domain) (iend_pad domain) (jstart_pad domain) (jend_pad domain) (length dz) = Some w
    \<and> check_divergence K u v w rho rhoh (dxi domain) (dyi domain) dzi
          (istart_pad domain) (iend_pad domain) (jstart_pad domain) (jend_pad domain) (length dz)
          = Some (d, i, j, k))"
  by (auto simp: momentum_fields_def bind_eq_Some_conv)

lemma parse_momentum_bind:
  "parse_momentum K sfx t u_era v_era w_era ze z zh dz dzi rho rhoh ip_u ip_v ip_s sl sigma_n domain out st
     = momentum_fields K domain u_era v_era w_era ze z zh dz dzi rho rhoh ip_u ip_v ip_s sigma_n
        \<bind> (\<lambda>(u, v, w, d, i, j, k).
             lbc_loop_momentum sl t u v w lbc_locs
               (momentum_start domain sfx out t z zh ip_u ip_v ip_s sigma_n u v w d i j k st))"
  by (cases "0 < sigma_n"; cases "t = 0")
     (simp_all add: parse_momentum_def momentum_fields_def momentum_filtered_def momentum_calls_def
        momentum_start_def Let_def emit_def split_def)

lemma parse_momentum_Some:
  "parse_momentum K sfx t u_era v_era w_era ze z zh dz dzi rho rhoh ip_u ip_v ip_s sl sigma_n domain out st
     = Some st' \<longleftrightarrow>
   (\<exists>u v w d i j k.
      momentum_fields K domain u_era v_era w_era ze z zh dz dzi rho rhoh ip_u ip_v ip_s sigma_n
        = Some (u, v, w, d, i, j, k)
    \<and> lbc_loop_momentum sl t u v w lbc_locs
         (momentum_start domain sfx out t z zh ip_u ip_v ip_s sigma_n u v w d i j k st) = Some st')"
  unfolding parse_momentum_bind by (auto simp: bind_eq_Some_conv)

lemma momentum_keys_Cons:
  "momentum_keys (l # locs) = {''u_'' @ l, ''v_'' @ l, ''w_'' @ l} \<union> momentum_keys locs"
  by (simp add: momentum_keys_def)

lemma momentum_keys_Nil: "momentum_keys [] = {}"
  by (simp add: momentum_keys_def)

lemma momentum_keys_iff:
  "''u_'' @ l \<in> momentum_keys locs \<longleftrightarrow> l \<in> set locs"
  "''v_'' @ l \<in> momentum_keys locs \<longleftrightarrow> l \<in> set locs"
  "''w_'' @ l \<in> momentum_keys locs \<longleftrightarrow> l \<in> set locs"
  by (auto simp: momentum_keys_def)

lemma lbc_loop_momentum_step:
  "lbc_loop_momentum sl t u v w (l # locs) st = Some st' \<longleftrightarrow>
   (\<exists>su sv sw s1 s2 s3.
      sl (''u_'' @ l) = Some su \<and> lbc_assign (''u_'' @ l) t (su u) st = Some s1
    \<and> sl (''v_'' @ l) = Some sv \<and> lbc_assign (''v_'' @ l) t (sv v) s1 = Some s2
    \<and> sl (''w_'' @ l) = Some sw \<and> lbc_assign (''w_'' @ l) t (sw w) s2 = Some s3
    \<and> lbc_loop_momentum sl t u v w locs s3 = Some st')"
  by (auto simp: bind_eq_Some_conv)

lemma lbc_loop_momentum_files:
  "lbc_loop_momentum sl t u v w locs st = Some st' \<Longrightarrow> files st' = files st"
proof (induction locs arbitrary: st)
  case Nil
  then show ?case by simp
next
  case (Cons l locs)
  from Cons.prems obtain su sv sw s1 s2 s3 where
    a: "lbc_assign (''u_'' @ l) t (su u) st = Some s1"
       "lbc_assign (''v_'' @ l) t (sv v) s1 = Some s2"
       "lbc_assign (''w_'' @ l) t (sw w) s2 = Some s3"
    and r: "lbc_loop_momentum sl t u v w locs s3 = Some st'"
    unfolding lbc_loop_momentum_step by blast
  show ?case
    using Cons.IH [OF r] lbc_assign_files [OF a(1)] lbc_assign_files [OF a(2)]
      lbc_assign_files [OF a(3)] by simp
qed

lemma lbc_loop_momentum_trace:
  "lbc_loop_momentum sl t u v w locs st = Some st' \<Longrightarrow>
   trace st' = trace st @ concat (map (\<lambda>loc.
      [Lbc_assign (''u_'' @ loc) t, Lbc_assign (''v_'' @ loc) t, Lbc_assign (''w_'' @ loc) t]) locs)"
proof (induction locs arbitrary: st)
  case Nil
  then show ?case by simp
next
  case (Cons l locs)
  from Cons.prems obtain su sv sw s1 s2 s3 where
    a: "lbc_assign (''u_'' @ l) t (su u) st = Some s1"
       "lbc_assign (''v_'' @ l) t (sv v) s1 = Some s2"
       "lbc_assign (''w_'' @ l) t (sw w) s2 = Some s3"
    and r: "lbc_loop_momentum sl t u v w locs s3 = Some st'"
    unfolding lbc_loop_momentum_step by blast
  show ?case
    using Cons.IH [OF r] lbc_assign_trace [OF a(1)] lbc_assign_trace [OF a(2)]
      lbc_assign_trace [OF a(3)] by simp
qed

lemma lbc_loop_momentum_ok:
  "lbc_loop_momentum sl t u v w locs st = Some st' \<Longrightarrow>
   lbc_ok (lbc_ds st') key t' = lbc_ok (lbc_ds st) key t'"
proof (induction locs arbitrary: st)
  case Nil
  then show ?case by simp
next
  case (Cons l locs)
  from Cons.prems obtain su sv sw s1 s2 s3 where
    a: "lbc_assign (''u_'' @ l) t (su u) st = Some s1"
       "lbc_assign (''v_'' @ l) t (sv v) s1 = Some s2"
       "lbc_assign (''w_'' @ l) t (sw w) s2 = Some s3"
    and r: "lbc_loop_momentum sl t u v w locs s3 = Some st'"
    unfolding lbc_loop_momentum_step by blast
  show ?case
    using Cons.IH [OF r] lbc_assign_ok [OF a(1)] lbc_assign_ok [OF a(2)]
      lbc_assign_ok [OF a(3)] by simp
qed

lemma lbc_loop_momentum_frame:
  "lbc_loop_momentum sl t u v w locs st = Some st' \<Longrightarrow>
   \<not> (t' = t \<and> key \<in> momentum_keys locs) \<Longrightarrow>
   cell (lbc_ds st') key t' = cell (lbc_ds st) key t'"
proof (induction locs arbitrary: st)
  case Nil
  then show ?case by simp
next
  case (Cons l locs)
  from Cons.prems(1) obtain su sv sw s1 s2 s3 where
    a: "lbc_assign (''u_'' @ l) t (su u) st = Some s1"
       "lbc_assign (''v_'' @ l) t (sv v) s1 = Some s2"
       "lbc_assign (''w_'' @ l) t (sw w) s2 = Some s3"
    and r: "lbc_loop_momentum sl t u v w locs s3 = Some st'"
    unfolding lbc_loop_momentum_step by blast
  have k: "\<not> (key = ''u_'' @ l \<and> t' = t)" "\<not> (key = ''v_'' @ l \<and> t' = t)"
    "\<not> (key = ''w_'' @ l \<and> t' = t)" "\<not> (t' = t \<and> key \<in> momentum_keys locs)"
    using Cons.prems(2) unfolding momentum_keys_Cons by blast+
  have "cell (lbc_ds st') key t' = cell (lbc_ds s3) key t'"
    using r k(4) by (rule Cons.IH)
  also have "\<dots> = cell (lbc_ds s2) key t'"
    using lbc_assign_cell [OF a(3), of key t'] k(3) by auto
  also have "\<dots> = cell (lbc_ds s1) key t'"
    using lbc_assign_cell [OF a(2), of key t'] k(2) by auto
  also have "\<dots> = cell (lbc_ds st) key t'"
    using lbc_assign_cell [OF a(1), of key t'] k(1) by auto
  finally show ?case .
qed

lemma lbc_loop_momentum_cells:
  "lbc_loop_momentum sl t u v w locs st = Some st' \<Longrightarrow> distinct locs \<Longrightarrow> loc \<in> set locs \<Longrightarrow>
   \<exists>su sv sw. sl (''u_'' @ loc) = Some su \<and> sl (''v_'' @ loc) = Some sv \<and> sl (''w_'' @ loc) = Some sw
     \<and> cell (lbc_ds st') (''u_'' @ loc) t = Some (su u)
     \<and> cell (lbc_ds st') (''v_'' @ loc) t = Some (sv v)
     \<and> cell (lbc_ds st') (''w_'' @ loc) t = Some (sw w)"
proof (induction locs arbitrary: st)
  case Nil
  then show ?case by simp
next
  case (Cons l locs)
  from Cons.prems(1) obtain su sv sw s1 s2 s3 where
    s: "sl (''u_'' @ l) = Some su" "sl (''v_'' @ l) = Some sv" "sl (''w_'' @ l) = Some sw" and
    a: "lbc_assign (''u_'' @ l) t (su u) st = Some s1"
       "lbc_assign (''v_'' @ l) t (sv v) s1 = Some s2"
       "lbc_assign (''w_'' @ l) t (sw w) s2 = Some s3"
    and r: "lbc_loop_momentum sl t u v w locs s3 = Some st'"
    unfolding lbc_loop_momentum_step by blast
  show ?case
  proof (cases "loc = l")
    case True
    have notin: "l \<notin> set locs" using Cons.prems(2) by simp
    have fr: "cell (lbc_ds st') key t = cell (lbc_ds s3) key t"
      if "key \<in> {''u_'' @ l, ''v_'' @ l, ''w_'' @ l}" for key
    proof (rule lbc_loop_momentum_frame [OF r])
      show "\<not> (t = t \<and> key \<in> momentum_keys locs)"
        using that notin unfolding momentum_keys_def by auto
    qed
    have w3: "cell (lbc_ds s3) (''w_'' @ l) t = Some (sw w)"
      unfolding lbc_assign_cell [OF a(3), of "''w_'' @ l" t] by simp
    have v3: "cell (lbc_ds s3) (''v_'' @ l) t = Some (sv v)"
      unfolding lbc_assign_cell [OF a(3), of "''v_'' @ l" t] lbc_assign_cell [OF a(2), of "''v_'' @ l" t]
      by simp
    have u3: "cell (lbc_ds s3) (''u_'' @ l) t = Some (su u)"
      unfolding lbc_assign_cell [OF a(3), of "''u_'' @ l" t] lbc_assign_cell [OF a(2), of "''u_'' @ l" t]
        lbc_assign_cell [OF a(1), of "''u_'' @ l" t]
      by simp
    show ?thesis
      unfolding True using s u3 v3 w3 fr by simp
  next
    case False
    then have "loc \<in> set locs" "distinct locs" using Cons.prems(2,3) by simp_all
    from Cons.IH [OF r this(2) this(1)] show ?thesis .
  qed
qed

lemma lbc_loop_momentum_total:
  "\<forall>loc \<in> set locs. sl (''u_'' @ loc) \<noteq> None \<and> sl (''v_'' @ loc) \<noteq> None \<and> sl (''w_'' @ loc) \<noteq> None
      \<and> lbc_ok (lbc_ds st) (''u_'' @ loc) t \<and> lbc_ok (lbc_ds st) (''v_'' @ loc) t
      \<and> lbc_ok (lbc_ds st) (''w_'' @ loc) t \<Longrightarrow>
   \<exists>st'. lbc_loop_momentum sl t u v w locs st = Some st'"
proof (induction locs arbitrary: st)
  case Nil
  then show ?case by simp
next
  case (Cons l locs)
  from Cons.prems obtain su sv sw where
    s: "sl (''u_'' @ l) = Some su" "sl (''v_'' @ l) = Some sv" "sl (''w_'' @ l) = Some sw"
    by auto
  have "lbc_ok (lbc_ds st) (''u_'' @ l) t" using Cons.prems by simp
  then obtain s1 where a1: "lbc_assign (''u_'' @ l) t (su u) st = Some s1"
    using lbc_assign_total by blast
  have "lbc_ok (lbc_ds s1) (''v_'' @ l) t" using Cons.prems lbc_assign_ok [OF a1] by simp
  then obtain s2 where a2: "lbc_assign (''v_'' @ l) t (sv v) s1 = Some s2"
    using lbc_assign_total by blast
  have "lbc_ok (lbc_ds s2) (''w_'' @ l) t"
    using Cons.prems lbc_assign_ok [OF a1] lbc_assign_ok [OF a2] by simp
  then obtain s3 where a3: "lbc_assign (''w_'' @ l) t (sw w) s2 = Some s3"
    using lbc_assign_total by blast
  have "\<forall>loc \<in> set locs. sl (''u_'' @ loc) \<noteq> None \<and> sl (''v_'' @ loc) \<noteq> None \<and> sl (''w_'' @ loc) \<noteq> None
      \<and> lbc_ok (lbc_ds s3) (''u_'' @ loc) t \<and> lbc_ok (lbc_ds s3) (''v_'' @ loc) t
      \<and> lbc_ok (lbc_ds s3) (''w_'' @ loc) t"
    using Cons.prems lbc_assign_ok [OF a1] lbc_assign_ok [OF a2] lbc_assign_ok [OF a3] by simp
  from Cons.IH [OF this] obtain st' where "lbc_loop_momentum sl t u v w locs s3 = Some st'" by blast
  then show ?case
    unfolding lbc_loop_momentum_step using s a1 a2 a3 by blast
qed

section \<open>Properties of the surface blending\<close>


lemma blend_None: "length zh \<noteq> length w \<Longrightarrow> blend_w_to_zero_at_sfc w zh zmax = None"
  by (simp add: blend_w_to_zero_at_sfc_def)




section \<open>The filtered fields of the small instance\<close>

lemma momentum_filtered_test:
  "momentum_filtered K_test domain_test (era_test 1) (era_test 3) (era_test 5) (era_test 0)
      [125] [0, 250] ip_test ip_test ip_test 0
     = Some ([[[1, 1, 1], [1, 2, 1], [1, 1, 1]]], [[[3, 3, 3], [3, 4, 3], [3, 3, 3]]], era_test 5)"
  by (simp add: momentum_filtered_def K_test_def era_test_def domain_test_def proj_test_def)

section \<open>What the momentum pipeline writes\<close>

lemma f_out_of_inj: "f_out_of out a sfx = f_out_of out b sfx \<longleftrightarrow> a = b"
  by (simp add: f_out_of_def)

lemma momentum_start_lbc_ds:
  "lbc_ds (momentum_start domain sfx out t z zh ip_u ip_v ip_s sigma_n u v w d i j k st) = lbc_ds st"
  by (simp add: momentum_start_def save_3d_field_eq emit_def)

lemma momentum_start_files:
  "files (momentum_start domain sfx out t z zh ip_u ip_v ip_s sigma_n u v w d i j k st) =
     (if t = 0
      then (files st)(f_out_of out ''u'' sfx \<mapsto> c_order (strip_pad (n_pad domain) u),
                      f_out_of out ''v'' sfx \<mapsto> c_order (strip_pad (n_pad domain) v),
                      f_out_of out ''w'' sfx \<mapsto> c_order (strip_pad (n_pad domain) (py_slice 0 (- 1) w)))
      else files st)"
  by (simp add: momentum_start_def save_3d_field_eq emit_def)

lemma momentum_start_trace:
  "trace (momentum_start domain sfx out t z zh ip_u ip_v ip_s sigma_n u v w d i j k st) =
     trace st @ momentum_calls domain t z zh ip_u ip_v ip_s sigma_n @ [Logger_debug_divergence d i j k]
       @ (if t = 0
          then [Tofile (f_out_of out ''u'' sfx), Tofile (f_out_of out ''v'' sfx),
                Tofile (f_out_of out ''w'' sfx)]
          else [])"
  by (simp add: momentum_start_def save_3d_field_eq emit_def)

lemma parse_momentum_outputs:
  assumes mf: "momentum_fields K domain u_era v_era w_era ze z zh dz dzi rho rhoh ip_u ip_v ip_s sigma_n
                 = Some (u, v, w, d, i, j, k)"
    and ok: "\<forall>loc \<in> set lbc_locs.
        sl (''u_'' @ loc) \<noteq> None \<and> sl (''v_'' @ loc) \<noteq> None \<and> sl (''w_'' @ loc) \<noteq> None
      \<and> lbc_ok (lbc_ds st) (''u_'' @ loc) t \<and> lbc_ok (lbc_ds st) (''v_'' @ loc) t
      \<and> lbc_ok (lbc_ds st) (''w_'' @ loc) t"
  shows "\<exists>st'. parse_momentum K sfx t u_era v_era w_era ze z zh dz dzi rho rhoh ip_u ip_v ip_s sl sigma_n
                  domain out st = Some st'
     \<and> files st' = files (momentum_start domain sfx out t z zh ip_u ip_v ip_s sigma_n u v w d i j k st)
     \<and> trace st' = trace (momentum_start domain sfx out t z zh ip_u ip_v ip_s sigma_n u v w d i j k st)
          @ concat (map (\<lambda>loc. [Lbc_assign (''u_'' @ loc) t, Lbc_assign (''v_'' @ loc) t,
                                 Lbc_assign (''w_'' @ loc) t]) lbc_locs)
     \<and> (\<forall>loc \<in> set lbc_locs. \<exists>su sv sw.
            sl (''u_'' @ loc) = Some su \<and> sl (''v_'' @ loc) = Some sv \<and> sl (''w_'' @ loc) = Some sw
          \<and> cell (lbc_ds st') (''u_'' @ loc) t = Some (su u)
          \<and> cell (lbc_ds st') (''v_'' @ loc) t = Some (sv v)
          \<and> cell (lbc_ds st') (''w_'' @ loc) t = Some (sw w))
     \<and> (\<forall>key t'. \<not> (t' = t \<and> key \<in> momentum_keys lbc_locs)
            \<longrightarrow> cell (lbc_ds st') key t' = cell (lbc_ds st) key t')"
proof -
  define s1 where "s1 = momentum_start domain sfx out t z zh ip_u ip_v ip_s sigma_n u v w d i j k st"
  have ds: "lbc_ds s1 = lbc_ds st" by (simp add: s1_def momentum_start_lbc_ds)
  from ok ds obtain st' where loop: "lbc_loop_momentum sl t u v w lbc_locs s1 = Some st'"
    using lbc_loop_momentum_total [of lbc_locs sl s1 t u v w] by auto
  have run: "parse_momentum K sfx t u_era v_era w_era ze z zh dz dzi rho rhoh ip_u ip_v ip_s sl sigma_n
                  domain out st = Some st'"
    unfolding parse_momentum_Some using mf loop unfolding s1_def by blast
  have "files st' = files s1" using loop by (rule lbc_loop_momentum_files)
  moreover have "trace st' = trace s1 @ concat (map (\<lambda>loc. [Lbc_assign (''u_'' @ loc) t,
           Lbc_assign (''v_'' @ loc) t, Lbc_assign (''w_'' @ loc) t]) lbc_locs)"
    using loop by (rule lbc_loop_momentum_trace)
  moreover have "\<forall>loc \<in> set lbc_locs. \<exists>su sv sw.
            sl (''u_'' @ loc) = Some su \<and> sl (''v_'' @ loc) = Some sv \<and> sl (''w_'' @ loc) = Some sw
          \<and> cell (lbc_ds st') (''u_'' @ loc) t = Some (su u)
          \<and> cell (lbc_ds st') (''v_'' @ loc) t = Some (sv v)
          \<and> cell (lbc_ds st') (''w_'' @ loc) t = Some (sw w)"
    using lbc_loop_momentum_cells [OF loop distinct_lbc_locs] by blast
  moreover have "\<forall>key t'. \<not> (t' = t \<and> key \<in> momentum_keys lbc_locs)
            \<longrightarrow> cell (lbc_ds st') key t' = cell (lbc_ds st) key t'"
    using lbc_loop_momentum_frame [OF loop] ds by simp
  ultimately show ?thesis using run unfolding s1_def by blast
qed

lemma those_map_Some: "those (map Some ys) = Some ys"
  by (induction ys) simp_all

lemma those_SomeD: "those xs = Some ys \<Longrightarrow> xs = map Some ys"
proof (induction xs arbitrary: ys)
  case Nil
  then show ?case by simp
next
  case (Cons x xs)
  from Cons.prems obtain a zs where x: "x = Some a" and zs: "those xs = Some zs" and ys: "ys = a # zs"
    by (auto split: option.splits)
  from Cons.IH [OF zs] show ?case using x ys by simp
qed

lemma those_Some_iff: "those xs = Some ys \<longleftrightarrow> xs = map Some ys"
  using those_SomeD those_map_Some by blast

lemma those_map_nth:
  assumes "those (map f xs) = Some ys"
  shows "length ys = length xs" and "\<And>i. i < length xs \<Longrightarrow> f (xs ! i) = Some (ys ! i)"
proof -
  have eq: "map f xs = map Some ys" using assms by (rule those_SomeD)
  from arg_cong [OF eq, of length] show len: "length ys = length xs" by simp
  fix i assume i: "i < length xs"
  from arg_cong [OF eq, of "\<lambda>l. l ! i"] show "f (xs ! i) = Some (ys ! i)"
    using i len by simp
qed

lemma momentum_args_times:
  assumes "momentum_args fields_era z_era nt = Some args"
  shows "map fst args = [0..<nt]"
proof (rule nth_equalityI)
  note a = assms [unfolded momentum_args_def]
  have len: "length args = nt" using those_map_nth(1) [OF a] by simp
  show "length (map fst args) = length [0..<nt]" using len by simp
  fix i assume "i < length (map fst args)"
  then have i: "i < nt" using len by simp
  then have "i < length [0..<nt]" by simp
  from those_map_nth(2) [OF a this] have "fst (args ! i) = i"
    using i by (clarsimp simp: bind_eq_Some_conv) (metis fst_conv)
  then show "map fst args ! i = [0..<nt] ! i" using i len by simp
qed

lemma driver_momentum_present:
  assumes "\<not> list_ex (\<lambda>fld. fld \<notin> set (map fst fields_era)) [''u'', ''v'', ''w'']"
  shows "driver_momentum K ctx fields_era z_era time_era rho rhoh domain sfx out st =
     momentum_args fields_era z_era (length time_era) \<bind> (\<lambda>args.
       executor_map (\<lambda>(t, u_era, v_era, w_era, ze).
           parse_momentum K sfx t u_era v_era w_era ze
             (vgrid_z (ctx_vgrid ctx)) (vgrid_zh (ctx_vgrid ctx))
             (vgrid_dz (ctx_vgrid ctx)) (vgrid_dzi (ctx_vgrid ctx)) rho rhoh
             (factors_u (ctx_ip_facs ctx)) (factors_v (ctx_ip_facs ctx)) (factors_s (ctx_ip_facs ctx))
             (ctx_lbc_slices ctx) (ctx_sigma_n ctx) domain out) args st
       \<bind> (\<lambda>st. Some (emit Logger_info_momentum_done st)))"
  using assms by (simp add: driver_momentum_def get_interpolation_factors_def Let_def)

section \<open>The order of the steps of the momentum pipeline\<close>

lemma st_uvw_ok:
  "\<forall>loc \<in> set lbc_locs.
        slices_test (''u_'' @ loc) \<noteq> None \<and> slices_test (''v_'' @ loc) \<noteq> None
      \<and> slices_test (''w_'' @ loc) \<noteq> None
      \<and> lbc_ok (lbc_ds st_uvw) (''u_'' @ loc) 0 \<and> lbc_ok (lbc_ds st_uvw) (''v_'' @ loc) 0
      \<and> lbc_ok (lbc_ds st_uvw) (''w_'' @ loc) 0"
  by (auto simp: st_uvw_def st0_def lbc_ok_create_lbc_ds) (auto simp: lbc_locs_def slices_test_def)

lemma blend_test:
  "blend_w_to_zero_at_sfc (era_test 5) [0, 250] 500
     = Some [[[0, 0, 0], [0, 0, 0], [0, 0, 0]],
             [[5 / 2, 5 / 2, 5 / 2], [5 / 2, 7 / 2, 5 / 2], [5 / 2, 5 / 2, 5 / 2]]]"
  by (simp add: blend_w_to_zero_at_sfc_def blend_ramp_def era_test_def)

text \<open>
  C5. For a time index \<open>t\<close>, when each external kernel returns, \<^verbatim>\<open>parse_momentum\<close> returns
  and has made exactly these calls, in this order: it allocates the buffers of u and v
  (full levels) and of w (half levels); interpolates u with the factors \<open>ip_u\<close>, v with
  \<open>ip_v\<close> and w with \<open>ip_s\<close> onto the half-level heights; filters u, v and w if
  \<open>sigma_n > 0\<close>; blends w with blend height 500; corrects the divergence of u and v with
  the blended w; reconstructs w from the corrected u and v; runs the divergence check and
  logs its result; at \<open>t = 0\<close> writes the initial files of u, v and w; and assigns the
  slices of u, v and w at every side. Each step works on the result of the step before. The
  driver hands over the factors of the keys u, v and s, and runs the pipeline once for each
  time index from 0 upwards.
\<close>

theorem parse_momentum_steps:
  assumes iu: "interpolate_rect_to_curv K (length z, jtot (proj_pad domain), itot (proj_pad domain)) u_era
                 (il ip_u) (jl ip_u) (fx ip_u) (fy ip_u) z ze = Some u0"
    and iv: "interpolate_rect_to_curv K (length z, jtot (proj_pad domain), itot (proj_pad domain)) v_era
                 (il ip_v) (jl ip_v) (fx ip_v) (fy ip_v) z ze = Some v0"
    and iw: "interpolate_rect_to_curv K (length zh, jtot (proj_pad domain), itot (proj_pad domain)) w_era
                 (il ip_s) (jl ip_s) (fx ip_s) (fy ip_s) zh ze = Some w0"
    and flt: "if 0 < sigma_n
              then gaussian_filter_wrapper K u0 sigma_n = Some u1
                 \<and> gaussian_filter_wrapper K v0 sigma_n = Some v1
                 \<and> gaussian_filter_wrapper K w0 sigma_n = Some w1
              else u1 = u0 \<and> v1 = v0 \<and> w1 = w0"
    and bl: "blend_w_to_zero_at_sfc w1 zh 500 = Some w2"
    and cd: "correct_div_uv K u1 v1 w2 rho rhoh dzi (proj_x (proj_pad domain)) (proj_y (proj_pad domain))
               (xsize (proj_pad domain)) (ysize (proj_pad domain)) (n_pad domain) = Some (u, v)"
    and cw: "calc_w_from_uv K w2 u v rho rhoh dz (dxi domain) (dyi domain)
               (istart_pad domain) (iend_pad domain) (jstart_pad domain) (jend_pad domain) (length dz)
               = Some w"
    and ck: "check_divergence K u v w rho rhoh (dxi domain) (dyi domain) dzi
               (istart_pad domain) (iend_pad domain) (jstart_pad domain) (jend_pad domain) (length dz)
               = Some (d, i, j, k)"
    and ok: "\<forall>loc \<in> set lbc_locs.
        sl (''u_'' @ loc) \<noteq> None \<and> sl (''v_'' @ loc) \<noteq> None \<and> sl (''w_'' @ loc) \<noteq> None
      \<and> lbc_ok (lbc_ds st) (''u_'' @ loc) t \<and> lbc_ok (lbc_ds st) (''v_'' @ loc) t
      \<and> lbc_ok (lbc_ds st) (''w_'' @ loc) t"
  shows "\<exists>st'. parse_momentum K sfx t u_era v_era w_era ze z zh dz dzi rho rhoh ip_u ip_v ip_s sl sigma_n
                  domain out st = Some st'
     \<and> trace st' = trace st
          @ [Logger_debug_momentum t,
             Np_empty (length z) (jtot (proj_pad domain)) (itot (proj_pad domain)),
             Np_empty (length z) (jtot (proj_pad domain)) (itot (proj_pad domain)),
             Np_empty (length zh) (jtot (proj_pad domain)) (itot (proj_pad domain)),
             Interpolate_rect_to_curv ip_u z,
             Interpolate_rect_to_curv ip_v z,
             Interpolate_rect_to_curv ip_s zh]
          @ (if 0 < sigma_n
             then [Gaussian_filter_wrapper sigma_n, Gaussian_filter_wrapper sigma_n,
                   Gaussian_filter_wrapper sigma_n]
             else [])
          @ [Blend_w_to_zero_at_sfc 500, Correct_div_uv, Calc_w_from_uv, Check_divergence,
             Logger_debug_divergence d i j k]
          @ (if t = 0
             then [Tofile (f_out_of out ''u'' sfx), Tofile (f_out_of out ''v'' sfx),
                   Tofile (f_out_of out ''w'' sfx)]
             else [])
          @ concat (map (\<lambda>loc. [Lbc_assign (''u_'' @ loc) t, Lbc_assign (''v_'' @ loc) t,
                                 Lbc_assign (''w_'' @ loc) t]) lbc_locs)
     \<and> files st' =
         (if t = 0
          then (files st)(f_out_of out ''u'' sfx \<mapsto> c_order (strip_pad (n_pad domain) u),
                          f_out_of out ''v'' sfx \<mapsto> c_order (strip_pad (n_pad domain) v),
                          f_out_of out ''w'' sfx \<mapsto> c_order (strip_pad (n_pad domain) (py_slice 0 (- 1) w)))
          else files st)
     \<and> (\<forall>loc \<in> set lbc_locs. \<exists>su sv sw.
            sl (''u_'' @ loc) = Some su \<and> sl (''v_'' @ loc) = Some sv \<and> sl (''w_'' @ loc) = Some sw
          \<and> cell (lbc_ds st') (''u_'' @ loc) t = Some (su u)
          \<and> cell (lbc_ds st') (''v_'' @ loc) t = Some (sv v)
          \<and> cell (lbc_ds st') (''w_'' @ loc) t = Some (sw w))
     \<and> get_interpolation_factors facs ''u'' = factors_u facs
     \<and> get_interpolation_factors facs ''v'' = factors_v facs
     \<and> get_interpolation_factors facs ''s'' = factors_s facs
     \<and> (\<forall>fields_era z_era nt args.
           momentum_args fields_era z_era nt = Some args \<longrightarrow> map fst args = [0..<nt])
     \<and> (\<forall>ctx fields_era z_era time_era s0.
           \<not> list_ex (\<lambda>fld. fld \<notin> set (map fst fields_era)) [''u'', ''v'', ''w''] \<longrightarrow>
           driver_momentum K ctx fields_era z_era time_era rho rhoh domain sfx out s0 =
             momentum_args fields_era z_era (length time_era) \<bind> (\<lambda>args.
               executor_map (\<lambda>(t, u_era, v_era, w_era, ze).
                   parse_momentum K sfx t u_era v_era w_era ze
                     (vgrid_z (ctx_vgrid ctx)) (vgrid_zh (ctx_vgrid ctx))
                     (vgrid_dz (ctx_vgrid ctx)) (vgrid_dzi (ctx_vgrid ctx)) rho rhoh
                     (factors_u (ctx_ip_facs ctx)) (factors_v (ctx_ip_facs ctx))
                     (factors_s (ctx_ip_facs ctx))
                     (ctx_lbc_slices ctx) (ctx_sigma_n ctx) domain out) args s0
               \<bind> (\<lambda>st. Some (emit Logger_info_momentum_done st))))"
proof -
  have filt: "momentum_filtered K domain u_era v_era w_era ze z zh ip_u ip_v ip_s sigma_n = Some (u1, v1, w1)"
    using flt by (cases "0 < sigma_n") (simp_all add: momentum_filtered_def iu iv iw)
  have mf: "momentum_fields K domain u_era v_era w_era ze z zh dz dzi rho rhoh ip_u ip_v ip_s sigma_n
                 = Some (u, v, w, d, i, j, k)"
    unfolding momentum_fields_Some using filt bl cd cw ck by blast
  from parse_momentum_outputs [OF mf ok, of sfx out]
  obtain st' where run: "parse_momentum K sfx t u_era v_era w_era ze z zh dz dzi rho rhoh ip_u ip_v ip_s sl
                  sigma_n domain out st = Some st'"
    and f: "files st' = files (momentum_start domain sfx out t z zh ip_u ip_v ip_s sigma_n u v w d i j k st)"
    and tr: "trace st' = trace (momentum_start domain sfx out t z zh ip_u ip_v ip_s sigma_n u v w d i j k st)
          @ concat (map (\<lambda>loc. [Lbc_assign (''u_'' @ loc) t, Lbc_assign (''v_'' @ loc) t,
                                 Lbc_assign (''w_'' @ loc) t]) lbc_locs)"
    and c: "\<forall>loc \<in> set lbc_locs. \<exists>su sv sw.
            sl (''u_'' @ loc) = Some su \<and> sl (''v_'' @ loc) = Some sv \<and> sl (''w_'' @ loc) = Some sw
          \<and> cell (lbc_ds st') (''u_'' @ loc) t = Some (su u)
          \<and> cell (lbc_ds st') (''v_'' @ loc) t = Some (sv v)
          \<and> cell (lbc_ds st') (''w_'' @ loc) t = Some (sw w)"
    by blast
  have g: "get_interpolation_factors facs ''u'' = factors_u facs"
      "get_interpolation_factors facs ''v'' = factors_v facs"
      "get_interpolation_factors facs ''s'' = factors_s facs"
    by (simp_all add: get_interpolation_factors_def)
  have tr': "trace st' = trace st
          @ [Logger_debug_momentum t,
             Np_empty (length z) (jtot (proj_pad domain)) (itot (proj_pad domain)),
             Np_empty (length z) (jtot (proj_pad domain)) (itot (proj_pad domain)),
             Np_empty (length zh) (jtot (proj_pad domain)) (itot (proj_pad domain)),
             Interpolate_rect_to_curv ip_u z,
             Interpolate_rect_to_curv ip_v z,
             Interpolate_rect_to_curv ip_s zh]
          @ (if 0 < sigma_n
             then [Gaussian_filter_wrapper sigma_n, Gaussian_filter_wrapper sigma_n,
                   Gaussian_filter_wrapper sigma_n]
             else [])
          @ [Blend_w_to_zero_at_sfc 500, Correct_div_uv, Calc_w_from_uv, Check_divergence,
             Logger_debug_divergence d i j k]
          @ (if t = 0
             then [Tofile (f_out_of out ''u'' sfx), Tofile (f_out_of out ''v'' sfx),
                   Tofile (f_out_of out ''w'' sfx)]
             else [])
          @ concat (map (\<lambda>loc. [Lbc_assign (''u_'' @ loc) t, Lbc_assign (''v_'' @ loc) t,
                                 Lbc_assign (''w_'' @ loc) t]) lbc_locs)"
    unfolding tr momentum_start_trace momentum_calls_def by simp
  show ?thesis
    apply (rule exI [of _ st'])
    apply (intro conjI)
            apply (rule run)
           apply (rule tr')
          apply (simp only: f momentum_start_files)
         apply (rule c)
        apply (rule g(1))
       apply (rule g(2))
      apply (rule g(3))
     apply (blast intro: momentum_args_times)
    apply (intro allI impI)
    apply (erule driver_momentum_present)
    done
qed

theorem parse_momentum_steps_witness:
  "\<exists>st'. parse_momentum K_test '''' 0 (era_test 1) (era_test 3) (era_test 5) (era_test 0)
            [125] [0, 250] [250] [1 / 250] [1] [1, 1] ip_test ip_test ip_test slices_test 0
            domain_test ''.'' st_uvw = Some st'
     \<and> length (trace st') = 27
     \<and> trace st' ! 7 = Blend_w_to_zero_at_sfc 500
     \<and> trace st' ! 12 = Tofile ''./u.0000000''
     \<and> trace st' ! 15 = Lbc_assign ''u_west'' 0
     \<and> files st' ''./u.0000000'' = Some [2]"
proof -
  have iu: "interpolate_rect_to_curv K_test
              (length [125::real], jtot (proj_pad domain_test), itot (proj_pad domain_test)) (era_test 1)
              (il ip_test) (jl ip_test) (fx ip_test) (fy ip_test) [125] (era_test 0)
            = Some [[[1, 1, 1], [1, 2, 1], [1, 1, 1]]]"
    by (simp add: K_test_def era_test_def)
  have iv: "interpolate_rect_to_curv K_test
              (length [125::real], jtot (proj_pad domain_test), itot (proj_pad domain_test)) (era_test 3)
              (il ip_test) (jl ip_test) (fx ip_test) (fy ip_test) [125] (era_test 0)
            = Some [[[3, 3, 3], [3, 4, 3], [3, 3, 3]]]"
    by (simp add: K_test_def era_test_def)
  have iw: "interpolate_rect_to_curv K_test
              (length [0, 250::real], jtot (proj_pad domain_test), itot (proj_pad domain_test)) (era_test 5)
              (il ip_test) (jl ip_test) (fx ip_test) (fy ip_test) [0, 250] (era_test 0)
            = Some (era_test 5)"
    by (simp add: K_test_def era_test_def)
  have flt: "if 0 < (0::int)
      then gaussian_filter_wrapper K_test [[[1, 1, 1], [1, 2, 1], [1, 1, 1]]] 0
             = Some [[[1, 1, 1], [1, 2, 1], [1, 1, 1]]]
         \<and> gaussian_filter_wrapper K_test [[[3, 3, 3], [3, 4, 3], [3, 3, 3]]] 0
             = Some [[[3, 3, 3], [3, 4, 3], [3, 3, 3]]]
         \<and> gaussian_filter_wrapper K_test (era_test 5) 0 = Some (era_test 5)
      else [[[1, 1, 1], [1, 2, 1], [1, 1, 1::real]]] = [[[1, 1, 1], [1, 2, 1], [1, 1, 1]]]
         \<and> [[[3, 3, 3], [3, 4, 3], [3, 3, 3::real]]] = [[[3, 3, 3], [3, 4, 3], [3, 3, 3]]]
         \<and> era_test 5 = era_test 5"
    by simp
  define w2 :: field3 where "w2 = [[[0, 0, 0], [0, 0, 0], [0, 0, 0]],
             [[5 / 2, 5 / 2, 5 / 2], [5 / 2, 7 / 2, 5 / 2], [5 / 2, 5 / 2, 5 / 2]]]"
  have bl: "blend_w_to_zero_at_sfc (era_test 5) [0, 250] 500 = Some w2"
    unfolding w2_def by (rule blend_test)
  have cd: "correct_div_uv K_test [[[1, 1, 1], [1, 2, 1], [1, 1, 1]]] [[[3, 3, 3], [3, 4, 3], [3, 3, 3]]] w2
               [1] [1, 1] [1 / 250] (proj_x (proj_pad domain_test)) (proj_y (proj_pad domain_test))
               (xsize (proj_pad domain_test)) (ysize (proj_pad domain_test)) (n_pad domain_test)
             = Some ([[[1, 1, 1], [1, 2, 1], [1, 1, 1]]], [[[3, 3, 3], [3, 4, 3], [3, 3, 3]]])"
    by (simp add: K_test_def)
  have cw: "calc_w_from_uv K_test w2 [[[1, 1, 1], [1, 2, 1], [1, 1, 1]]] [[[3, 3, 3], [3, 4, 3], [3, 3, 3]]]
               [1] [1, 1] [250] (dxi domain_test) (dyi domain_test)
               (istart_pad domain_test) (iend_pad domain_test) (jstart_pad domain_test)
               (jend_pad domain_test) (length [250::real]) = Some w2"
    by (simp add: K_test_def)
  have ck: "check_divergence K_test [[[1, 1, 1], [1, 2, 1], [1, 1, 1]]] [[[3, 3, 3], [3, 4, 3], [3, 3, 3]]] w2
               [1] [1, 1] (dxi domain_test) (dyi domain_test) [1 / 250]
               (istart_pad domain_test) (iend_pad domain_test) (jstart_pad domain_test)
               (jend_pad domain_test) (length [250::real]) = Some (0, 0, 0, 0)"
    by (simp add: K_test_def)
  from parse_momentum_steps [OF iu iv iw flt bl cd cw ck st_uvw_ok, where sfx = "''''" and out = "''.''"]
  obtain st' where run: "parse_momentum K_test '''' 0 (era_test 1) (era_test 3) (era_test 5) (era_test 0)
            [125] [0, 250] [250] [1 / 250] [1] [1, 1] ip_test ip_test ip_test slices_test 0
            domain_test ''.'' st_uvw = Some st'"
    and tr: "trace st' = trace st_uvw
          @ [Logger_debug_momentum 0,
             Np_empty (length [125::real]) (jtot (proj_pad domain_test)) (itot (proj_pad domain_test)),
             Np_empty (length [125::real]) (jtot (proj_pad domain_test)) (itot (proj_pad domain_test)),
             Np_empty (length [0, 250::real]) (jtot (proj_pad domain_test)) (itot (proj_pad domain_test)),
             Interpolate_rect_to_curv ip_test [125],
             Interpolate_rect_to_curv ip_test [125],
             Interpolate_rect_to_curv ip_test [0, 250]]
          @ (if 0 < (0::int)
             then [Gaussian_filter_wrapper 0, Gaussian_filter_wrapper 0, Gaussian_filter_wrapper 0]
             else [])
          @ [Blend_w_to_zero_at_sfc 500, Correct_div_uv, Calc_w_from_uv, Check_divergence,
             Logger_debug_divergence 0 0 0 0]
          @ (if (0::nat) = 0
             then [Tofile (f_out_of ''.'' ''u'' ''''), Tofile (f_out_of ''.'' ''v'' ''''),
                   Tofile (f_out_of ''.'' ''w'' '''')]
             else [])
          @ concat (map (\<lambda>loc. [Lbc_assign (''u_'' @ loc) 0, Lbc_assign (''v_'' @ loc) 0,
                                 Lbc_assign (''w_'' @ loc) 0]) lbc_locs)"
    and f: "files st' =
         (if (0::nat) = 0
          then (files st_uvw)(f_out_of ''.'' ''u'' '''' \<mapsto>
                   c_order (strip_pad (n_pad domain_test) [[[1, 1, 1], [1, 2, 1], [1, 1, 1]]]),
                 f_out_of ''.'' ''v'' '''' \<mapsto>
                   c_order (strip_pad (n_pad domain_test) [[[3, 3, 3], [3, 4, 3], [3, 3, 3]]]),
                 f_out_of ''.'' ''w'' '''' \<mapsto>
                   c_order (strip_pad (n_pad domain_test) (py_slice 0 (- 1) w2)))
          else files st_uvw)"
    by blast
  have t0: "trace st_uvw = []" by (simp add: st_uvw_def st0_def)
  have "length (trace st') = 27" unfolding tr t0 by (simp add: lbc_locs_def)
  moreover have "trace st' ! 7 = Blend_w_to_zero_at_sfc 500" unfolding tr t0 by simp
  moreover have "trace st' ! 12 = Tofile ''./u.0000000''" unfolding tr t0 by (simp add: f_out_of_def)
  moreover have "trace st' ! 15 = Lbc_assign ''u_west'' 0"
    unfolding tr t0 by (simp add: lbc_locs_def)
  moreover have "files st' ''./u.0000000'' = Some [2]"
    unfolding f
    by (simp add: f_out_of_def c_order_def strip_pad_def py_slice_def py_bound_def domain_test_def)
  ultimately show ?thesis using run by blast
qed

section \<open>The initial file of w\<close>

lemma has_shape_butlast:
  "has_shape (Suc nk) nj ni w \<Longrightarrow> has_shape nk nj ni (butlast w)"
  by (auto simp: has_shape_def list_all_iff dest: in_set_butlastD)

lemma momentum_fields_test:
  "momentum_fields K_test domain_test (era_test 1) (era_test 3) (era_test 5) (era_test 0)
      [125] [0, 250] [250] [1 / 250] [1] [1, 1] ip_test ip_test ip_test 0
     = Some ([[[1, 1, 1], [1, 2, 1], [1, 1, 1]]], [[[3, 3, 3], [3, 4, 3], [3, 3, 3]]],
             [[[0, 0, 0], [0, 0, 0], [0, 0, 0]],
              [[5 / 2, 5 / 2, 5 / 2], [5 / 2, 7 / 2, 5 / 2], [5 / 2, 5 / 2, 5 / 2]]], 0, 0, 0, 0)"
  by (simp add: momentum_fields_def momentum_filtered_test blend_test) (simp add: K_test_def)

text \<open>
  C9. At \<open>t = 0\<close>, when the pure part of the pipeline gives the fields \<open>u\<close>, \<open>v\<close>, \<open>w\<close>,
  \<^verbatim>\<open>parse_momentum\<close> returns and the initial file of w holds the interior of \<open>w\<close> without
  its top half level (\<^verbatim>\<open>w[:-1]\<close>), while the files of u and v hold the interior of all
  their levels. So, with u and v on \<open>nk\<close> full levels and w on \<open>nk + 1\<close> half levels, the
  three files have the same number of levels, \<open>nk\<close>, and the same length. The records of
  the dataset keep every level of w.
\<close>

theorem parse_momentum_w_snapshot:
  assumes mf: "momentum_fields K domain u_era v_era w_era ze z zh dz dzi rho rhoh ip_u ip_v ip_s sigma_n
                 = Some (u, v, w, d, i, j, k)"
    and ok: "\<forall>loc \<in> set lbc_locs.
        sl (''u_'' @ loc) \<noteq> None \<and> sl (''v_'' @ loc) \<noteq> None \<and> sl (''w_'' @ loc) \<noteq> None
      \<and> lbc_ok (lbc_ds st) (''u_'' @ loc) 0 \<and> lbc_ok (lbc_ds st) (''v_'' @ loc) 0
      \<and> lbc_ok (lbc_ds st) (''w_'' @ loc) 0"
  shows "\<exists>st'. parse_momentum K sfx 0 u_era v_era w_era ze z zh dz dzi rho rhoh ip_u ip_v ip_s sl sigma_n
                  domain out st = Some st'
     \<and> files st' (f_out_of out ''u'' sfx) = Some (c_order (strip_pad (n_pad domain) u))
     \<and> files st' (f_out_of out ''v'' sfx) = Some (c_order (strip_pad (n_pad domain) v))
     \<and> files st' (f_out_of out ''w'' sfx) = Some (c_order (strip_pad (n_pad domain) (butlast w)))
     \<and> length (butlast w) = length w - 1
     \<and> (\<forall>nk nj ni. 1 \<le> n_pad domain \<and> has_shape nk nj ni u \<and> has_shape nk nj ni v
            \<and> has_shape (Suc nk) nj ni w \<longrightarrow>
          has_shape nk nj ni (butlast w)
        \<and> length (c_order (strip_pad (n_pad domain) (butlast w)))
            = nk * (nj - 2 * nat (n_pad domain)) * (ni - 2 * nat (n_pad domain))
        \<and> length (c_order (strip_pad (n_pad domain) u))
            = nk * (nj - 2 * nat (n_pad domain)) * (ni - 2 * nat (n_pad domain))
        \<and> length (c_order (strip_pad (n_pad domain) v))
            = nk * (nj - 2 * nat (n_pad domain)) * (ni - 2 * nat (n_pad domain)))
     \<and> (\<forall>loc \<in> set lbc_locs. \<exists>sw. sl (''w_'' @ loc) = Some sw
            \<and> cell (lbc_ds st') (''w_'' @ loc) 0 = Some (sw w))"
proof -
  from parse_momentum_outputs [OF mf ok, of sfx out]
  obtain st' where run: "parse_momentum K sfx 0 u_era v_era w_era ze z zh dz dzi rho rhoh ip_u ip_v ip_s sl
                  sigma_n domain out st = Some st'"
    and f: "files st' = files (momentum_start domain sfx out 0 z zh ip_u ip_v ip_s sigma_n u v w d i j k st)"
    and c: "\<forall>loc \<in> set lbc_locs. \<exists>su sv sw.
            sl (''u_'' @ loc) = Some su \<and> sl (''v_'' @ loc) = Some sv \<and> sl (''w_'' @ loc) = Some sw
          \<and> cell (lbc_ds st') (''u_'' @ loc) 0 = Some (su u)
          \<and> cell (lbc_ds st') (''v_'' @ loc) 0 = Some (sv v)
          \<and> cell (lbc_ds st') (''w_'' @ loc) 0 = Some (sw w)"
    by blast
  have fu: "files st' (f_out_of out ''u'' sfx) = Some (c_order (strip_pad (n_pad domain) u))"
    unfolding f momentum_start_files by (simp add: f_out_of_inj)
  have fv: "files st' (f_out_of out ''v'' sfx) = Some (c_order (strip_pad (n_pad domain) v))"
    unfolding f momentum_start_files by (simp add: f_out_of_inj)
  have fw: "files st' (f_out_of out ''w'' sfx) = Some (c_order (strip_pad (n_pad domain) (butlast w)))"
    unfolding f momentum_start_files by (simp add: py_slice_butlast)
  have sh: "has_shape nk nj ni (butlast w)
        \<and> length (c_order (strip_pad (n_pad domain) (butlast w)))
            = nk * (nj - 2 * nat (n_pad domain)) * (ni - 2 * nat (n_pad domain))
        \<and> length (c_order (strip_pad (n_pad domain) u))
            = nk * (nj - 2 * nat (n_pad domain)) * (ni - 2 * nat (n_pad domain))
        \<and> length (c_order (strip_pad (n_pad domain) v))
            = nk * (nj - 2 * nat (n_pad domain)) * (ni - 2 * nat (n_pad domain))"
    if h: "1 \<le> n_pad domain" "has_shape nk nj ni u" "has_shape nk nj ni v" "has_shape (Suc nk) nj ni w"
    for nk nj ni
  proof -
    have b: "has_shape nk nj ni (butlast w)" using h(4) by (rule has_shape_butlast)
    show ?thesis
      using b length_c_order [OF has_shape_strip_pad [OF h(1) b]]
        length_c_order [OF has_shape_strip_pad [OF h(1) h(2)]]
        length_c_order [OF has_shape_strip_pad [OF h(1) h(3)]]
      by simp
  qed
  have cw: "\<forall>loc \<in> set lbc_locs. \<exists>sw. sl (''w_'' @ loc) = Some sw
            \<and> cell (lbc_ds st') (''w_'' @ loc) 0 = Some (sw w)"
    using c by blast
  show ?thesis
    apply (rule exI [of _ st'])
    apply (intro conjI)
          apply (rule run)
         apply (rule fu)
        apply (rule fv)
       apply (rule fw)
      apply simp
     apply (use sh in blast)
    apply (rule cw)
    done
qed

theorem parse_momentum_w_snapshot_witness:
  "\<exists>st'. parse_momentum K_test '''' 0 (era_test 1) (era_test 3) (era_test 5) (era_test 0)
            [125] [0, 250] [250] [1 / 250] [1] [1, 1] ip_test ip_test ip_test slices_test 0
            domain_test ''.'' st_uvw = Some st'
     \<and> files st' ''./u.0000000'' = Some [2]
     \<and> files st' ''./v.0000000'' = Some [4]
     \<and> files st' ''./w.0000000'' = Some [0]
     \<and> cell (lbc_ds st') ''w_west'' 0 = Some [[[0], [0], [0]], [[5 / 2], [5 / 2], [5 / 2]]]"
proof -
  from parse_momentum_w_snapshot [OF momentum_fields_test st_uvw_ok, where sfx = "''''" and out = "''.''"]
  obtain st' where run: "parse_momentum K_test '''' 0 (era_test 1) (era_test 3) (era_test 5) (era_test 0)
            [125] [0, 250] [250] [1 / 250] [1] [1, 1] ip_test ip_test ip_test slices_test 0
            domain_test ''.'' st_uvw = Some st'"
    and fu: "files st' (f_out_of ''.'' ''u'' '''')
               = Some (c_order (strip_pad (n_pad domain_test) [[[1, 1, 1], [1, 2, 1], [1, 1, 1]]]))"
    and fv: "files st' (f_out_of ''.'' ''v'' '''')
               = Some (c_order (strip_pad (n_pad domain_test) [[[3, 3, 3], [3, 4, 3], [3, 3, 3]]]))"
    and fw: "files st' (f_out_of ''.'' ''w'' '''')
               = Some (c_order (strip_pad (n_pad domain_test) (butlast
                   [[[0, 0, 0], [0, 0, 0], [0, 0, 0]],
                    [[5 / 2, 5 / 2, 5 / 2], [5 / 2, 7 / 2, 5 / 2], [5 / 2, 5 / 2, 5 / 2]]])))"
    and cw: "\<forall>loc \<in> set lbc_locs. \<exists>sw. slices_test (''w_'' @ loc) = Some sw
            \<and> cell (lbc_ds st') (''w_'' @ loc) 0 = Some (sw
                   [[[0, 0, 0], [0, 0, 0], [0, 0, 0]],
                    [[5 / 2, 5 / 2, 5 / 2], [5 / 2, 7 / 2, 5 / 2], [5 / 2, 5 / 2, 5 / 2]]])"
    by blast
  have ev: "c_order (strip_pad (n_pad domain_test) [[[a, b, c], [d, e, f], [g, h, i::real]]]) = [e]"
    for a b c d e f g h i
    by (simp add: c_order_def strip_pad_def py_slice_def py_bound_def domain_test_def)
  have sl: "slices_test ''w_west'' = Some (map (map (take 1)))"
    by (simp add: slices_test_def)
  have "files st' ''./u.0000000'' = Some [2]" using fu ev by (simp add: f_out_of_def)
  moreover have "files st' ''./v.0000000'' = Some [4]" using fv ev by (simp add: f_out_of_def)
  moreover have "files st' ''./w.0000000'' = Some [0]" using fw ev by (simp add: f_out_of_def)
  moreover have "cell (lbc_ds st') ''w_west'' 0 = Some [[[0], [0], [0]], [[5 / 2], [5 / 2], [5 / 2]]]"
    using cw sl by (simp add: lbc_locs_def)
  ultimately show ?thesis using run by blast
qed

section \<open>The surface blending in the momentum pipeline\<close>






section \<open>Running a list of tasks\<close>

lemma lbc_key_inj:
  assumes "loc \<in> set lbc_locs" and "loc' \<in> set lbc_locs"
    and "a @ ''_'' @ loc = b @ ''_'' @ loc'"
  shows "a = b \<and> loc = loc'"
proof -
  from assms(3) have "rev (a @ ''_'' @ loc) = rev (b @ ''_'' @ loc')" by simp
  then show ?thesis
    using assms(1,2) by (auto simp: lbc_locs_def)
qed

lemma lbc_keys_disjoint: "a \<noteq> b \<Longrightarrow> key \<in> lbc_keys a \<Longrightarrow> key \<notin> lbc_keys b"
  unfolding lbc_keys_def using lbc_key_inj by blast

lemma momentum_keys_lbc_keys:
  "momentum_keys lbc_locs = lbc_keys ''u'' \<union> lbc_keys ''v'' \<union> lbc_keys ''w''"
  by (auto simp: momentum_keys_def lbc_keys_def)

lemma parse_scalar_effects:
  assumes run: "parse_scalar K name sfx t fld_era ze z_les ip sl sigma_n domain out st = Some st'"
  shows "\<exists>fld. scalar_field K domain fld_era ze z_les ip sigma_n = Some fld
     \<and> files st' = (if t = 0
                    then (files st)(f_out_of out name sfx \<mapsto> c_order (strip_pad (n_pad domain) fld))
                    else files st)
     \<and> (\<forall>loc \<in> set lbc_locs. \<exists>s. sl (''s_'' @ loc) = Some s
            \<and> cell (lbc_ds st') (name @ ''_'' @ loc) t = Some (s fld))"
    and "trace st' = trace st @ scalar_task_events domain sfx out z_les ip sigma_n name t"
    and "\<And>key t'. \<not> (t' = t \<and> key \<in> lbc_keys name) \<Longrightarrow>
            cell (lbc_ds st') key t' = cell (lbc_ds st) key t'"
    and "\<And>key t'. lbc_ok (lbc_ds st') key t' = lbc_ok (lbc_ds st) key t'"
    and "\<And>p. \<not> (t = 0 \<and> p = f_out_of out name sfx) \<Longrightarrow> files st' p = files st p"
proof -
  from run obtain fld where fld: "scalar_field K domain fld_era ze z_les ip sigma_n = Some fld"
    and loop: "lbc_loop_scalar sl name t fld lbc_locs
        ((if t = 0 then save_3d_field fld name sfx (n_pad domain) out else id)
           (st\<lparr>trace := trace st @ scalar_calls domain name t z_les ip sigma_n\<rparr>)) = Some st'"
    unfolding parse_scalar_Some by blast
  define st1 where "st1 = (if t = 0 then save_3d_field fld name sfx (n_pad domain) out else id)
           (st\<lparr>trace := trace st @ scalar_calls domain name t z_les ip sigma_n\<rparr>)"
  have ds1: "lbc_ds st1 = lbc_ds st"
    by (simp add: st1_def save_3d_field_eq emit_def)
  have f1: "files st1 = (if t = 0
                    then (files st)(f_out_of out name sfx \<mapsto> c_order (strip_pad (n_pad domain) fld))
                    else files st)"
    by (simp add: st1_def save_3d_field_eq emit_def)
  have t1: "trace st1 = trace st @ scalar_calls domain name t z_les ip sigma_n
            @ (if t = 0 then [Tofile (f_out_of out name sfx)] else [])"
    by (simp add: st1_def save_3d_field_eq emit_def)
  note loop' = loop [folded st1_def]
  have fs: "files st' = files st1" using loop' by (rule lbc_loop_scalar_files)
  have c: "\<forall>loc \<in> set lbc_locs. \<exists>s. sl (''s_'' @ loc) = Some s
            \<and> cell (lbc_ds st') (name @ ''_'' @ loc) t = Some (s fld)"
    using lbc_loop_scalar_cells [OF loop' distinct_lbc_locs] by blast
  show "\<exists>fld. scalar_field K domain fld_era ze z_les ip sigma_n = Some fld
     \<and> files st' = (if t = 0
                    then (files st)(f_out_of out name sfx \<mapsto> c_order (strip_pad (n_pad domain) fld))
                    else files st)
     \<and> (\<forall>loc \<in> set lbc_locs. \<exists>s. sl (''s_'' @ loc) = Some s
            \<and> cell (lbc_ds st') (name @ ''_'' @ loc) t = Some (s fld))"
    using fld fs f1 c by auto
  show "trace st' = trace st @ scalar_task_events domain sfx out z_les ip sigma_n name t"
    using lbc_loop_scalar_trace [OF loop'] t1 by (simp add: scalar_task_events_def)
  show "cell (lbc_ds st') key t' = cell (lbc_ds st) key t'"
    if "\<not> (t' = t \<and> key \<in> lbc_keys name)" for key t'
    using lbc_loop_scalar_frame [OF loop', of t' key] that ds1 by (simp add: lbc_keys_def)
  show "lbc_ok (lbc_ds st') key t' = lbc_ok (lbc_ds st) key t'" for key t'
    using lbc_loop_scalar_ok [OF loop', of key t'] ds1 by simp
  show "files st' p = files st p" if "\<not> (t = 0 \<and> p = f_out_of out name sfx)" for p
    using that fs f1 by auto
qed

lemma parse_scalar_total:
  assumes fld: "scalar_field K domain fld_era ze z_les ip sigma_n = Some fld"
    and ok: "\<forall>loc \<in> set lbc_locs. sl (''s_'' @ loc) \<noteq> None \<and> lbc_ok (lbc_ds st) (name @ ''_'' @ loc) t"
  shows "\<exists>st'. parse_scalar K name sfx t fld_era ze z_les ip sl sigma_n domain out st = Some st'"
proof -
  define st1 where "st1 = (if t = 0 then save_3d_field fld name sfx (n_pad domain) out else id)
           (st\<lparr>trace := trace st @ scalar_calls domain name t z_les ip sigma_n\<rparr>)"
  have ds1: "lbc_ds st1 = lbc_ds st"
    by (simp add: st1_def save_3d_field_eq emit_def)
  from ok ds1 obtain st' where "lbc_loop_scalar sl name t fld lbc_locs st1 = Some st'"
    using lbc_loop_scalar_total [of lbc_locs sl st1 name t fld] by auto
  then show ?thesis
    unfolding parse_scalar_Some st1_def using fld by blast
qed

lemma executor_map_rel:
  assumes refl: "\<And>s. R s s" and trans: "\<And>s1 s2 s3. R s1 s2 \<Longrightarrow> R s2 s3 \<Longrightarrow> R s1 s3"
    and step: "\<And>a s s'. a \<in> set args \<Longrightarrow> f a s = Some s' \<Longrightarrow> R s s'"
    and run: "executor_map f args s = Some s'"
  shows "R s s'"
  using step run
proof (induction args arbitrary: s)
  case Nil
  then show ?case using refl by simp
next
  case (Cons a args)
  from Cons.prems(2) obtain s1 where a: "f a s = Some s1" and r: "executor_map f args s1 = Some s'"
    by (auto simp: bind_eq_Some_conv)
  have "R s s1" using Cons.prems(1) [of a s s1] a by simp
  moreover have "R s1 s'"
  proof (rule Cons.IH [OF _ r])
    show "R x y" if "b \<in> set args" "f b x = Some y" for b x y
      using Cons.prems(1) [of b x y] that by simp
  qed
  ultimately show ?case by (rule trans)
qed

lemma executor_map_total:
  assumes step: "\<And>a s. a \<in> set args \<Longrightarrow> I s \<Longrightarrow> \<exists>s'. f a s = Some s' \<and> I s'"
    and init: "I s"
  shows "\<exists>s'. executor_map f args s = Some s' \<and> I s'"
  using step init
proof (induction args arbitrary: s)
  case Nil
  then show ?case by simp
next
  case (Cons a args)
  from Cons.prems obtain s1 where a: "f a s = Some s1" and i: "I s1" by (meson list.set_intros(1))
  from Cons.IH [OF _ i] Cons.prems(1) obtain s' where "executor_map f args s1 = Some s'" "I s'"
    by (meson list.set_intros(2))
  then show ?case using a by auto
qed




section \<open>The scalar tasks of a run\<close>

lemma scalar_args_Some:
  assumes f: "\<forall>(name, fld_era) \<in> set fields_era. name \<notin> set [''u'', ''v'', ''w''] \<longrightarrow> nt \<le> length fld_era"
    and z: "nt \<le> length z_era"
  shows "scalar_args fields_era z_era nt = Some (scalar_tasks fields_era z_era nt)"
proof -
  have "(case x of (name, fld_era) \<Rightarrow>
          if name \<notin> set [''u'', ''v'', ''w'']
          then map (\<lambda>t. do { f \<leftarrow> time_slice fld_era t; ze \<leftarrow> time_slice z_era t;
                             Some (name, t, f, ze) }) [0..<nt]
          else [])
      = map Some (case x of (name, fld_era) \<Rightarrow>
          if name \<notin> set [''u'', ''v'', ''w'']
          then map (\<lambda>t. (name, t, fld_era ! t, z_era ! t)) [0..<nt]
          else [])" if "x \<in> set fields_era" for x
  proof (cases x)
    case (Pair name fld_era)
    show ?thesis
    proof (cases "name \<notin> set [''u'', ''v'', ''w'']")
      case True
      then have "nt \<le> length fld_era" using f that Pair by auto
      then show ?thesis using True z Pair by (simp add: time_slice_def)
    next
      case False
      then show ?thesis using Pair by auto
    qed
  qed
  then show ?thesis
    unfolding scalar_args_def scalar_tasks_def those_Some_iff map_concat map_map
    by (intro arg_cong [where f = concat] map_cong) simp_all
qed

lemma scalar_args_SomeD:
  assumes "scalar_args fields_era z_era nt = Some args"
  shows "args = scalar_tasks fields_era z_era nt"
proof -
  let ?g = "\<lambda>(name, fld_era).
        if name \<notin> set [''u'', ''v'', ''w'']
        then map (\<lambda>t. do { f \<leftarrow> time_slice fld_era t; ze \<leftarrow> time_slice z_era t;
                           Some (name, t, f, ze) }) [0..<nt]
        else []"
  have eq: "concat (map ?g fields_era) = map Some args"
    using assms unfolding scalar_args_def by (rule those_SomeD)
  have nn: "x \<noteq> None" if "x \<in> set (concat (map ?g fields_era))" for x
    using that unfolding eq by auto
  have "\<forall>(name, fld_era) \<in> set fields_era. name \<notin> set [''u'', ''v'', ''w''] \<longrightarrow> 
          (\<forall>t < nt. t < length fld_era \<and> t < length z_era)"
  proof (clarify)
    fix name fld_era t
    assume m: "(name, fld_era) \<in> set fields_era" and n: "name \<notin> set [''u'', ''v'', ''w'']" and t: "t < nt"
    have "do { f \<leftarrow> time_slice fld_era t; ze \<leftarrow> time_slice z_era t; Some (name, t, f, ze) }
            \<in> set (?g (name, fld_era))"
      using n t by simp
    then have "do { f \<leftarrow> time_slice fld_era t; ze \<leftarrow> time_slice z_era t; Some (name, t, f, ze) }
            \<in> set (concat (map ?g fields_era))"
      using m by (auto simp del: set_simps bind_eq_None_conv)
    from nn [OF this] show "t < length fld_era \<and> t < length z_era"
      by (auto simp: time_slice_def split: if_splits)
  qed
  then have "concat (map ?g fields_era) = map Some (scalar_tasks fields_era z_era nt)"
    unfolding scalar_tasks_def map_concat map_map
    by (intro arg_cong [where f = concat] map_cong) (auto simp: time_slice_def)
  with eq have "map Some args = map Some (scalar_tasks fields_era z_era nt)" by simp
  then show ?thesis by (simp add: inj_map_eq_map)
qed

lemma set_concat_map_if:
  "a \<in> set (concat (map (\<lambda>(n, f). if P n then map (h n f) ts else []) xs)) \<longleftrightarrow>
   (\<exists>(n, f) \<in> set xs. P n \<and> (\<exists>t \<in> set ts. a = h n f t))"
  by (induction xs) auto

lemma set_scalar_tasks:
  "a \<in> set (scalar_tasks fields_era z_era nt) \<longleftrightarrow>
   (\<exists>(name, fld_era) \<in> set fields_era. name \<notin> set [''u'', ''v'', ''w'']
      \<and> (\<exists>t < nt. a = (name, t, fld_era ! t, z_era ! t)))"
  unfolding scalar_tasks_def
  using set_concat_map_if [where a = a and P = "\<lambda>n. n \<notin> set [''u'', ''v'', ''w'']"
      and h = "\<lambda>n f t. (n, t, f ! t, z_era ! t)" and ts = "[0..<nt]" and xs = fields_era]
  by (simp only: set_upt atLeastLessThan_iff Bex_def) blast

lemma distinct_scalar_tasks:
  assumes "distinct (map fst fields_era)"
  shows "distinct (map task_key (scalar_tasks fields_era z_era nt))"
  using assms
proof (induction fields_era)
  case Nil
  then show ?case by (simp add: scalar_tasks_def)
next
  case (Cons x fields)
  obtain name fe where x: "x = (name, fe)" by (cases x)
  have rest: "distinct (map task_key (scalar_tasks fields z_era nt))"
    using Cons by simp
  have notin: "name \<notin> fst ` set fields" using Cons.prems x by simp
  have split: "scalar_tasks (x # fields) z_era nt =
      (if name \<notin> set [''u'', ''v'', ''w''] then map (\<lambda>t. (name, t, fe ! t, z_era ! t)) [0..<nt] else [])
      @ scalar_tasks fields z_era nt"
    by (simp add: scalar_tasks_def x)
  have d1: "distinct (map task_key (map (\<lambda>t. (name, t, fe ! t, z_era ! t)) [0..<nt]))"
    by (simp add: distinct_map comp_def inj_on_def task_key_def)
  have disj: "task_key b \<noteq> (name, t')" if "b \<in> set (scalar_tasks fields z_era nt)" for b t'
    using that notin unfolding set_scalar_tasks task_key_def by force
  have "set (map task_key (map (\<lambda>t. (name, t, fe ! t, z_era ! t)) [0..<nt]))
          \<inter> set (map task_key (scalar_tasks fields z_era nt)) = {}"
  proof -
    have False
      if A: "k \<in> set (map task_key (map (\<lambda>t. (name, t, fe ! t, z_era ! t)) [0..<nt]))"
        and B: "k \<in> set (map task_key (scalar_tasks fields z_era nt))" for k
    proof -
      from B obtain b where b: "b \<in> set (scalar_tasks fields z_era nt)" and kb: "k = task_key b"
        by auto
      from A obtain t' where "k = (name, t')" by (auto simp: task_key_def)
      with disj [OF b, of t'] kb show False by simp
    qed
    then show ?thesis by blast
  qed
  then show ?case
    unfolding split using rest d1 by (simp del: map_map set_map)
qed

section \<open>The scalar phase\<close>

lemma scalar_task_simp:
  "scalar_task K sfx z_les ip sl sigma_n domain out (n, t, fe, ze) =
     parse_scalar K n sfx t fe ze z_les ip sl sigma_n domain out"
  by (simp add: scalar_task_def)

lemma scalar_phase_trace:
  "executor_map (scalar_task K sfx z_les ip sl sigma_n domain out) args s = Some s' \<Longrightarrow>
   trace s' = trace s
     @ concat (map (\<lambda>a. scalar_task_events domain sfx out z_les ip sigma_n (fst a) (fst (snd a))) args)"
proof (induction args arbitrary: s)
  case Nil
  then show ?case by simp
next
  case (Cons a args)
  obtain n t fe ze where a: "a = (n, t, fe, ze)" by (cases a)
  from Cons.prems obtain s1 where
    r1: "parse_scalar K n sfx t fe ze z_les ip sl sigma_n domain out s = Some s1" and
    r: "executor_map (scalar_task K sfx z_les ip sl sigma_n domain out) args s1 = Some s'"
    by (auto simp: bind_eq_Some_conv scalar_task_simp a)
  show ?case
    using Cons.IH [OF r] parse_scalar_effects(2) [OF r1] by (simp add: a)
qed

lemma scalar_phase_frame_cells:
  assumes run: "executor_map (scalar_task K sfx z_les ip sl sigma_n domain out) args s = Some s'"
    and un: "\<forall>a \<in> set args. \<not> (t = fst (snd a) \<and> key \<in> lbc_keys (fst a))"
  shows "cell (lbc_ds s') key t = cell (lbc_ds s) key t"
proof (rule executor_map_rel [where R = "\<lambda>x y. cell (lbc_ds y) key t = cell (lbc_ds x) key t"
      and f = "scalar_task K sfx z_les ip sl sigma_n domain out" and args = args])
  show "cell (lbc_ds y) key t = cell (lbc_ds x) key t"
    if "a \<in> set args" "scalar_task K sfx z_les ip sl sigma_n domain out a x = Some y" for a x y
  proof -
    obtain n t' fe ze where a: "a = (n, t', fe, ze)" by (cases a)
    from that(2) have r: "parse_scalar K n sfx t' fe ze z_les ip sl sigma_n domain out x = Some y"
      by (simp add: scalar_task_simp a)
    have "\<not> (t = t' \<and> key \<in> lbc_keys n)" using un that(1) a by auto
    then show ?thesis by (rule parse_scalar_effects(3) [OF r])
  qed
  show "executor_map (scalar_task K sfx z_les ip sl sigma_n domain out) args s = Some s'" by fact
qed simp_all

lemma scalar_phase_frame_files:
  assumes run: "executor_map (scalar_task K sfx z_les ip sl sigma_n domain out) args s = Some s'"
    and un: "\<forall>a \<in> set args. \<not> (fst (snd a) = 0 \<and> p = f_out_of out (fst a) sfx)"
  shows "files s' p = files s p"
proof (rule executor_map_rel [where R = "\<lambda>x y. files y p = files x p"
      and f = "scalar_task K sfx z_les ip sl sigma_n domain out" and args = args])
  show "files y p = files x p"
    if "a \<in> set args" "scalar_task K sfx z_les ip sl sigma_n domain out a x = Some y" for a x y
  proof -
    obtain n t' fe ze where a: "a = (n, t', fe, ze)" by (cases a)
    from that(2) have r: "parse_scalar K n sfx t' fe ze z_les ip sl sigma_n domain out x = Some y"
      by (simp add: scalar_task_simp a)
    have "\<not> (t' = 0 \<and> p = f_out_of out n sfx)" using un that(1) a by auto
    then show ?thesis by (rule parse_scalar_effects(5) [OF r])
  qed
  show "executor_map (scalar_task K sfx z_les ip sl sigma_n domain out) args s = Some s'" by fact
qed simp_all

lemma scalar_phase_ok:
  assumes run: "executor_map (scalar_task K sfx z_les ip sl sigma_n domain out) args s = Some s'"
  shows "lbc_ok (lbc_ds s') key t = lbc_ok (lbc_ds s) key t"
proof (rule executor_map_rel [where R = "\<lambda>x y. lbc_ok (lbc_ds y) key t = lbc_ok (lbc_ds x) key t"
      and f = "scalar_task K sfx z_les ip sl sigma_n domain out" and args = args])
  show "lbc_ok (lbc_ds y) key t = lbc_ok (lbc_ds x) key t"
    if "a \<in> set args" "scalar_task K sfx z_les ip sl sigma_n domain out a x = Some y" for a x y
  proof -
    obtain n t' fe ze where a: "a = (n, t', fe, ze)" by (cases a)
    from that(2) have r: "parse_scalar K n sfx t' fe ze z_les ip sl sigma_n domain out x = Some y"
      by (simp add: scalar_task_simp a)
    show ?thesis by (rule parse_scalar_effects(4) [OF r])
  qed
  show "executor_map (scalar_task K sfx z_les ip sl sigma_n domain out) args s = Some s'" by fact
qed simp_all

lemma scalar_phase_outputs:
  assumes run: "executor_map (scalar_task K sfx z_les ip sl sigma_n domain out) args s = Some s'"
    and dist: "distinct (map task_key args)"
    and mem: "(n, t, fe, ze) \<in> set args"
  shows "\<exists>fld. scalar_field K domain fe ze z_les ip sigma_n = Some fld
     \<and> (\<forall>loc \<in> set lbc_locs. \<exists>sli. sl (''s_'' @ loc) = Some sli
            \<and> cell (lbc_ds s') (n @ ''_'' @ loc) t = Some (sli fld))
     \<and> (t = 0 \<longrightarrow> files s' (f_out_of out n sfx) = Some (c_order (strip_pad (n_pad domain) fld)))"
  using run dist mem
proof (induction args arbitrary: s)
  case Nil
  then show ?case by simp
next
  case (Cons a args)
  obtain n' t' fe' ze' where a: "a = (n', t', fe', ze')" by (cases a)
  from Cons.prems(1) obtain s1 where
    r1: "parse_scalar K n' sfx t' fe' ze' z_les ip sl sigma_n domain out s = Some s1" and
    r: "executor_map (scalar_task K sfx z_les ip sl sigma_n domain out) args s1 = Some s'"
    by (auto simp: bind_eq_Some_conv scalar_task_simp a)
  show ?case
  proof (cases "(n, t, fe, ze) \<in> set args")
    case True
    then show ?thesis using Cons.IH [OF r] Cons.prems(2) by simp
  next
    case False
    then have eq: "n' = n" "t' = t" "fe' = fe" "ze' = ze" using Cons.prems(3) a by auto
    have other: "task_key b \<noteq> (n, t)" if "b \<in> set args" for b
      using Cons.prems(2) that a eq by (auto simp: task_key_def)
    from parse_scalar_effects(1) [OF r1] obtain fld where
      fld: "scalar_field K domain fe ze z_les ip sigma_n = Some fld"
      and f1: "files s1 = (if t = 0
                    then (files s)(f_out_of out n sfx \<mapsto> c_order (strip_pad (n_pad domain) fld))
                    else files s)"
      and c1: "\<forall>loc \<in> set lbc_locs. \<exists>sli. sl (''s_'' @ loc) = Some sli
            \<and> cell (lbc_ds s1) (n @ ''_'' @ loc) t = Some (sli fld)"
      unfolding eq by blast
    have keep: "cell (lbc_ds s') (n @ ''_'' @ loc) t = cell (lbc_ds s1) (n @ ''_'' @ loc) t"
      if loc: "loc \<in> set lbc_locs" for loc
    proof (rule scalar_phase_frame_cells [OF r], intro ballI)
      fix b assume b: "b \<in> set args"
      have k: "n @ ''_'' @ loc \<in> lbc_keys n" using loc by (simp add: lbc_keys_def)
      show "\<not> (t = fst (snd b) \<and> n @ ''_'' @ loc \<in> lbc_keys (fst b))"
      proof
        assume h: "t = fst (snd b) \<and> n @ ''_'' @ loc \<in> lbc_keys (fst b)"
        then have "fst b = n" using lbc_keys_disjoint [of n "fst b" "n @ ''_'' @ loc"] k by blast
        with h have "task_key b = (n, t)" by (simp add: task_key_def)
        with other [OF b] show False by simp
      qed
    qed
    have keepf: "files s' (f_out_of out n sfx) = files s1 (f_out_of out n sfx)" if "t = 0"
    proof (rule scalar_phase_frame_files [OF r], intro ballI)
      fix b assume b: "b \<in> set args"
      show "\<not> (fst (snd b) = 0 \<and> f_out_of out n sfx = f_out_of out (fst b) sfx)"
      proof
        assume h: "fst (snd b) = 0 \<and> f_out_of out n sfx = f_out_of out (fst b) sfx"
        then have "fst b = n" by (simp add: f_out_of_inj)
        with h that have "task_key b = (n, t)" by (simp add: task_key_def)
        with other [OF b] show False by simp
      qed
    qed
    show ?thesis
      using fld c1 keep keepf f1 by (intro exI [of _ fld]) auto
  qed
qed

lemma scalar_phase_total:
  assumes "\<forall>a \<in> set args.
      scalar_field K domain (fst (snd (snd a))) (snd (snd (snd a))) z_les ip sigma_n \<noteq> None
    \<and> (\<forall>loc \<in> set lbc_locs. sl (''s_'' @ loc) \<noteq> None
          \<and> lbc_ok (lbc_ds s) (fst a @ ''_'' @ loc) (fst (snd a)))"
  shows "\<exists>s'. executor_map (scalar_task K sfx z_les ip sl sigma_n domain out) args s = Some s'"
proof -
  have "\<exists>s'. executor_map (scalar_task K sfx z_les ip sl sigma_n domain out) args s = Some s'
          \<and> (\<forall>key t. lbc_ok (lbc_ds s') key t = lbc_ok (lbc_ds s) key t)"
  proof (rule executor_map_total [where I = "\<lambda>x. \<forall>key t. lbc_ok (lbc_ds x) key t = lbc_ok (lbc_ds s) key t"])
    show "\<forall>key t. lbc_ok (lbc_ds s) key t = lbc_ok (lbc_ds s) key t" by simp
    fix a and x :: pstate
    assume m: "a \<in> set args" and i: "\<forall>key t. lbc_ok (lbc_ds x) key t = lbc_ok (lbc_ds s) key t"
    obtain n t fe ze where a: "a = (n, t, fe, ze)" by (cases a)
    from assms m a obtain fld where fld: "scalar_field K domain fe ze z_les ip sigma_n = Some fld"
      by fastforce
    have ok: "\<forall>loc \<in> set lbc_locs. sl (''s_'' @ loc) \<noteq> None \<and> lbc_ok (lbc_ds x) (n @ ''_'' @ loc) t"
      using assms m a i by fastforce
    from parse_scalar_total [OF fld ok] obtain y where
      y: "parse_scalar K n sfx t fe ze z_les ip sl sigma_n domain out x = Some y" by blast
    have "\<forall>key t. lbc_ok (lbc_ds y) key t = lbc_ok (lbc_ds s) key t"
      using parse_scalar_effects(4) [OF y] i by simp
    then show "\<exists>y. scalar_task K sfx z_les ip sl sigma_n domain out a x = Some y
          \<and> (\<forall>key t. lbc_ok (lbc_ds y) key t = lbc_ok (lbc_ds s) key t)"
      using y by (simp add: scalar_task_simp a)
  qed
  then show ?thesis by blast
qed

section \<open>The three parts of the driver\<close>

lemma driver_setup_Some:
  "driver_setup K fields_era lon_era lat_era time_era z zsize domain sigma_h out st = Some (ctx, s1) \<longleftrightarrow>
   (\<exists>vg facs.
      vertical_grid_2nd K z zsize = Some vg
    \<and> setup_interpolations K lon_era lat_era (proj_pad domain) = Some facs
    \<and> proj_dx (proj_pad domain) \<noteq> 0
    \<and> ctx = \<lparr>ctx_vgrid = vg, ctx_ip_facs = facs,
              ctx_sigma_n = \<lceil>sigma_h / proj_dx (proj_pad domain)\<rceil>,
              ctx_lbc_slices = setup_lbc_slices K (n_ghost domain) (n_sponge domain)\<rparr>
    \<and> s1 = st\<lparr>lbc_ds := create_lbc_ds (map fst fields_era) time_era
                 (dom_x domain) (dom_y domain) (vgrid_z vg)
                 (dom_xh domain) (dom_yh domain) (py_slice 0 (- 1) (vgrid_zh vg))
                 (n_ghost domain) (n_sponge domain),
               trace := trace st @ [Logger_info_creating out]
                 @ (if 0 < \<lceil>sigma_h / proj_dx (proj_pad domain)\<rceil>
                    then [Logger_info_filter \<lceil>sigma_h / proj_dx (proj_pad domain)\<rceil>] else [])\<rparr>)"
  by (auto simp: driver_setup_def bind_eq_Some_conv Let_def emit_def split: if_splits)

lemma driver_scalars_eq:
  "driver_scalars K ctx fields_era z_era time_era domain sfx out s =
     scalar_args fields_era z_era (length time_era) \<bind> (\<lambda>args.
       executor_map (scalar_task K sfx (vgrid_z (ctx_vgrid ctx)) (factors_s (ctx_ip_facs ctx))
                       (ctx_lbc_slices ctx) (ctx_sigma_n ctx) domain out) args s
       \<bind> (\<lambda>s. Some (emit Logger_info_scalar_done s)))"
proof -
  have "(\<lambda>(name, t, fld_era, ze).
              parse_scalar K name sfx t fld_era ze (vgrid_z (ctx_vgrid ctx))
                (get_interpolation_factors (ctx_ip_facs ctx) ''s'')
                (ctx_lbc_slices ctx) (ctx_sigma_n ctx) domain out)
        = scalar_task K sfx (vgrid_z (ctx_vgrid ctx)) (factors_s (ctx_ip_facs ctx))
                       (ctx_lbc_slices ctx) (ctx_sigma_n ctx) domain out"
    by (rule ext) (simp add: scalar_task_def get_interpolation_factors_def)
  then show ?thesis by (simp add: driver_scalars_def Let_def)
qed

lemma driver_scalars_Some:
  "driver_scalars K ctx fields_era z_era time_era domain sfx out s = Some s2 \<longleftrightarrow>
   (\<exists>s'. scalar_args fields_era z_era (length time_era)
            = Some (scalar_tasks fields_era z_era (length time_era))
      \<and> executor_map (scalar_task K sfx (vgrid_z (ctx_vgrid ctx)) (factors_s (ctx_ip_facs ctx))
                       (ctx_lbc_slices ctx) (ctx_sigma_n ctx) domain out)
           (scalar_tasks fields_era z_era (length time_era)) s = Some s'
      \<and> s2 = emit Logger_info_scalar_done s')"
  unfolding driver_scalars_eq
  by (auto simp: bind_eq_Some_conv dest: scalar_args_SomeD)

lemma driver_momentum_missing:
  assumes "list_ex (\<lambda>fld. fld \<notin> set (map fst fields_era)) [''u'', ''v'', ''w'']"
  shows "driver_momentum K ctx fields_era z_era time_era rho rhoh domain sfx out s
           = Some (emit Logger_warning_momentum_missing s)"
  using assms by (simp add: driver_momentum_def)

lemma create_era5_input_Some:
  "create_era5_input K fields_era lon_era lat_era z_era time_era z zsize rho rhoh domain sigma_h sfx out st
     = Some st' \<longleftrightarrow>
   (\<exists>ctx s1 s2.
      driver_setup K fields_era lon_era lat_era time_era z zsize domain sigma_h out st = Some (ctx, s1)
    \<and> driver_scalars K ctx fields_era z_era time_era domain sfx out s1 = Some s2
    \<and> driver_momentum K ctx fields_era z_era time_era rho rhoh domain sfx out s2 = Some st')"
  by (auto simp: create_era5_input_def bind_eq_Some_conv)

section \<open>A run with a momentum component missing\<close>

lemma scalar_key_not_momentum:
  assumes "n \<notin> set [''u'', ''v'', ''w'']" and "loc \<in> set lbc_locs"
  shows "n @ ''_'' @ loc \<notin> momentum_keys lbc_locs"
proof -
  have k: "n @ ''_'' @ loc \<in> lbc_keys n" using assms(2) by (simp add: lbc_keys_def)
  have "n \<noteq> ''u''" "n \<noteq> ''v''" "n \<noteq> ''w''" using assms(1) by auto
  then show ?thesis
    unfolding momentum_keys_lbc_keys using lbc_keys_disjoint [OF _ k] by blast
qed

lemma scalar_task_events_not_momentum:
  assumes "n \<notin> set [''u'', ''v'', ''w'']"
    and "e \<in> set (scalar_task_events domain sfx out z_les ip sigma_n n t)"
  shows "\<not> is_momentum_event out sfx e"
proof -
  have 1: "\<not> is_momentum_event out sfx e" if "e \<in> set (scalar_calls domain n t z_les ip sigma_n)"
    using that by (auto simp: scalar_calls_def split: if_splits)
  have 2: "\<not> is_momentum_event out sfx (Tofile (f_out_of out n sfx))"
    using assms(1) by (auto simp: f_out_of_inj)
  have 3: "\<not> is_momentum_event out sfx (Lbc_assign (n @ ''_'' @ loc) t)" if "loc \<in> set lbc_locs" for loc
    using scalar_key_not_momentum [OF assms(1) that] by simp
  from assms(2) consider "e \<in> set (scalar_calls domain n t z_les ip sigma_n)"
    | "e = Tofile (f_out_of out n sfx)"
    | loc where "loc \<in> set lbc_locs" "e = Lbc_assign (n @ ''_'' @ loc) t"
    unfolding scalar_task_events_def by (auto split: if_splits)
  then show ?thesis using 1 2 3 by cases auto
qed

lemma emit_simps:
  "files (emit e s) = files s" "lbc_ds (emit e s) = lbc_ds s" "trace (emit e s) = trace s @ [e]"
  by (simp_all add: emit_def)

lemma missing_run:
  assumes missing: "list_ex (\<lambda>fld. fld \<notin> set (map fst fields_era)) [''u'', ''v'', ''w'']"
    and run: "create_era5_input K fields_era lon_era lat_era z_era time_era z zsize rho rhoh domain
                sigma_h sfx out st = Some st'"
  shows "\<exists>vg facs s'.
      vertical_grid_2nd K z zsize = Some vg
    \<and> setup_interpolations K lon_era lat_era (proj_pad domain) = Some facs
    \<and> proj_dx (proj_pad domain) \<noteq> 0
    \<and> executor_map (scalar_task K sfx (vgrid_z vg) (factors_s facs)
           (setup_lbc_slices K (n_ghost domain) (n_sponge domain))
           \<lceil>sigma_h / proj_dx (proj_pad domain)\<rceil> domain out)
         (scalar_tasks fields_era z_era (length time_era))
         (st\<lparr>lbc_ds := create_lbc_ds (map fst fields_era) time_era
                 (dom_x domain) (dom_y domain) (vgrid_z vg)
                 (dom_xh domain) (dom_yh domain) (py_slice 0 (- 1) (vgrid_zh vg))
                 (n_ghost domain) (n_sponge domain),
               trace := trace st @ [Logger_info_creating out]
                 @ (if 0 < \<lceil>sigma_h / proj_dx (proj_pad domain)\<rceil>
                    then [Logger_info_filter \<lceil>sigma_h / proj_dx (proj_pad domain)\<rceil>] else [])\<rparr>)
        = Some s'
    \<and> st' = emit Logger_warning_momentum_missing (emit Logger_info_scalar_done s')"
proof -
  from run obtain ctx s1 s2 where
    a: "driver_setup K fields_era lon_era lat_era time_era z zsize domain sigma_h out st = Some (ctx, s1)"
    and b: "driver_scalars K ctx fields_era z_era time_era domain sfx out s1 = Some s2"
    and c: "driver_momentum K ctx fields_era z_era time_era rho rhoh domain sfx out s2 = Some st'"
    unfolding create_era5_input_Some by blast
  from c have st': "st' = emit Logger_warning_momentum_missing s2"
    unfolding driver_momentum_missing [OF missing] by simp
  from a b st' show ?thesis
    unfolding driver_setup_Some driver_scalars_Some by auto
qed

lemma missing_run_total:
  assumes missing: "list_ex (\<lambda>fld. fld \<notin> set (map fst fields_era)) [''u'', ''v'', ''w'']"
    and vg: "vertical_grid_2nd K z zsize = Some vg"
    and facs: "setup_interpolations K lon_era lat_era (proj_pad domain) = Some facs"
    and dx: "proj_dx (proj_pad domain) \<noteq> 0"
    and len: "\<forall>(name, fld_era) \<in> set fields_era.
                name \<notin> set [''u'', ''v'', ''w''] \<longrightarrow> length time_era \<le> length fld_era"
    and lenz: "length time_era \<le> length z_era"
    and kern: "\<forall>(name, fld_era) \<in> set fields_era. name \<notin> set [''u'', ''v'', ''w''] \<longrightarrow>
                (\<forall>t < length time_era.
                   scalar_field K domain (fld_era ! t) (z_era ! t) (vgrid_z vg) (factors_s facs)
                     \<lceil>sigma_h / proj_dx (proj_pad domain)\<rceil> \<noteq> None)"
    and sl: "\<forall>loc \<in> set lbc_locs.
                setup_lbc_slices K (n_ghost domain) (n_sponge domain) (''s_'' @ loc) \<noteq> None"
  shows "\<exists>st'. create_era5_input K fields_era lon_era lat_era z_era time_era z zsize rho rhoh domain
                sigma_h sfx out st = Some st'"
proof -
  define ctx where "ctx = \<lparr>ctx_vgrid = vg, ctx_ip_facs = facs,
              ctx_sigma_n = \<lceil>sigma_h / proj_dx (proj_pad domain)\<rceil>,
              ctx_lbc_slices = setup_lbc_slices K (n_ghost domain) (n_sponge domain)\<rparr>"
  define s1 where "s1 = st\<lparr>lbc_ds := create_lbc_ds (map fst fields_era) time_era
                 (dom_x domain) (dom_y domain) (vgrid_z vg)
                 (dom_xh domain) (dom_yh domain) (py_slice 0 (- 1) (vgrid_zh vg))
                 (n_ghost domain) (n_sponge domain),
               trace := trace st @ [Logger_info_creating out]
                 @ (if 0 < \<lceil>sigma_h / proj_dx (proj_pad domain)\<rceil>
                    then [Logger_info_filter \<lceil>sigma_h / proj_dx (proj_pad domain)\<rceil>] else [])\<rparr>"
  have a: "driver_setup K fields_era lon_era lat_era time_era z zsize domain sigma_h out st = Some (ctx, s1)"
    unfolding driver_setup_Some ctx_def s1_def using vg facs dx by blast
  have args: "scalar_args fields_era z_era (length time_era)
                = Some (scalar_tasks fields_era z_era (length time_era))"
    using len lenz by (rule scalar_args_Some)
  have "\<exists>s'. executor_map (scalar_task K sfx (vgrid_z vg) (factors_s facs)
           (setup_lbc_slices K (n_ghost domain) (n_sponge domain))
           \<lceil>sigma_h / proj_dx (proj_pad domain)\<rceil> domain out)
         (scalar_tasks fields_era z_era (length time_era)) s1 = Some s'"
  proof (rule scalar_phase_total, intro ballI conjI)
    fix a assume "a \<in> set (scalar_tasks fields_era z_era (length time_era))"
    then obtain name fld_era t where m: "(name, fld_era) \<in> set fields_era"
      and n: "name \<notin> set [''u'', ''v'', ''w'']" and t: "t < length time_era"
      and a: "a = (name, t, fld_era ! t, z_era ! t)"
      unfolding set_scalar_tasks by blast
    show "scalar_field K domain (fst (snd (snd a))) (snd (snd (snd a))) (vgrid_z vg) (factors_s facs)
            \<lceil>sigma_h / proj_dx (proj_pad domain)\<rceil> \<noteq> None"
      using kern m n t unfolding a by auto
    fix loc assume loc: "loc \<in> set lbc_locs"
    show "setup_lbc_slices K (n_ghost domain) (n_sponge domain) (''s_'' @ loc) \<noteq> None"
      using sl loc by blast
    have "name \<in> set (map fst fields_era)" using m by force
    then show "lbc_ok (lbc_ds s1) (fst a @ ''_'' @ loc) (fst (snd a))"
      unfolding a s1_def using t loc by (auto simp: lbc_ok_create_lbc_ds)
  qed
  then obtain s' where "executor_map (scalar_task K sfx (vgrid_z vg) (factors_s facs)
           (setup_lbc_slices K (n_ghost domain) (n_sponge domain))
           \<lceil>sigma_h / proj_dx (proj_pad domain)\<rceil> domain out)
         (scalar_tasks fields_era z_era (length time_era)) s1 = Some s'" by blast
  then have b: "driver_scalars K ctx fields_era z_era time_era domain sfx out s1
                  = Some (emit Logger_info_scalar_done s')"
    unfolding driver_scalars_Some using args by (simp add: ctx_def)
  show ?thesis
    unfolding create_era5_input_Some using a b driver_momentum_missing [OF missing] by blast
qed

lemma missing_run_trace:
  assumes missing: "list_ex (\<lambda>fld. fld \<notin> set (map fst fields_era)) [''u'', ''v'', ''w'']"
    and run: "create_era5_input K fields_era lon_era lat_era z_era time_era z zsize rho rhoh domain
                sigma_h sfx out st = Some st'"
  shows "\<exists>vg facs.
      vertical_grid_2nd K z zsize = Some vg
    \<and> setup_interpolations K lon_era lat_era (proj_pad domain) = Some facs
    \<and> new_events st st' =
        [Logger_info_creating out]
        @ (if 0 < \<lceil>sigma_h / proj_dx (proj_pad domain)\<rceil>
           then [Logger_info_filter \<lceil>sigma_h / proj_dx (proj_pad domain)\<rceil>] else [])
        @ concat (map (\<lambda>a. scalar_task_events domain sfx out (vgrid_z vg) (factors_s facs)
                              \<lceil>sigma_h / proj_dx (proj_pad domain)\<rceil> (fst a) (fst (snd a)))
                    (scalar_tasks fields_era z_era (length time_era)))
        @ [Logger_info_scalar_done, Logger_warning_momentum_missing]"
proof -
  from missing_run [OF missing run] obtain vg facs s' where
    vg: "vertical_grid_2nd K z zsize = Some vg"
    and facs: "setup_interpolations K lon_era lat_era (proj_pad domain) = Some facs"
    and ex: "executor_map (scalar_task K sfx (vgrid_z vg) (factors_s facs)
           (setup_lbc_slices K (n_ghost domain) (n_sponge domain))
           \<lceil>sigma_h / proj_dx (proj_pad domain)\<rceil> domain out)
         (scalar_tasks fields_era z_era (length time_era))
         (st\<lparr>lbc_ds := create_lbc_ds (map fst fields_era) time_era
                 (dom_x domain) (dom_y domain) (vgrid_z vg)
                 (dom_xh domain) (dom_yh domain) (py_slice 0 (- 1) (vgrid_zh vg))
                 (n_ghost domain) (n_sponge domain),
               trace := trace st @ [Logger_info_creating out]
                 @ (if 0 < \<lceil>sigma_h / proj_dx (proj_pad domain)\<rceil>
                    then [Logger_info_filter \<lceil>sigma_h / proj_dx (proj_pad domain)\<rceil>] else [])\<rparr>)
        = Some s'"
    and st': "st' = emit Logger_warning_momentum_missing (emit Logger_info_scalar_done s')"
    by blast
  have "new_events st st' =
        [Logger_info_creating out]
        @ (if 0 < \<lceil>sigma_h / proj_dx (proj_pad domain)\<rceil>
           then [Logger_info_filter \<lceil>sigma_h / proj_dx (proj_pad domain)\<rceil>] else [])
        @ concat (map (\<lambda>a. scalar_task_events domain sfx out (vgrid_z vg) (factors_s facs)
                              \<lceil>sigma_h / proj_dx (proj_pad domain)\<rceil> (fst a) (fst (snd a)))
                    (scalar_tasks fields_era z_era (length time_era)))
        @ [Logger_info_scalar_done, Logger_warning_momentum_missing]"
    unfolding new_events_def st' emit_simps scalar_phase_trace [OF ex] by simp
  then show ?thesis using vg facs by blast
qed

lemma missing_run_no_momentum_event:
  assumes missing: "list_ex (\<lambda>fld. fld \<notin> set (map fst fields_era)) [''u'', ''v'', ''w'']"
    and run: "create_era5_input K fields_era lon_era lat_era z_era time_era z zsize rho rhoh domain
                sigma_h sfx out st = Some st'"
    and e: "e \<in> set (new_events st st')"
  shows "\<not> is_momentum_event out sfx e"
proof -
  from missing_run_trace [OF missing run] obtain vg facs where
    "vertical_grid_2nd K z zsize = Some vg"
    and "setup_interpolations K lon_era lat_era (proj_pad domain) = Some facs"
    and tr: "new_events st st' =
        [Logger_info_creating out]
        @ (if 0 < \<lceil>sigma_h / proj_dx (proj_pad domain)\<rceil>
           then [Logger_info_filter \<lceil>sigma_h / proj_dx (proj_pad domain)\<rceil>] else [])
        @ concat (map (\<lambda>a. scalar_task_events domain sfx out (vgrid_z vg) (factors_s facs)
                              \<lceil>sigma_h / proj_dx (proj_pad domain)\<rceil> (fst a) (fst (snd a)))
                    (scalar_tasks fields_era z_era (length time_era)))
        @ [Logger_info_scalar_done, Logger_warning_momentum_missing]"
    by (elim exE conjE) (rule that)
  from e consider "e = Logger_info_creating out"
    | "e = Logger_info_filter \<lceil>sigma_h / proj_dx (proj_pad domain)\<rceil>"
    | a where "a \<in> set (scalar_tasks fields_era z_era (length time_era))"
        "e \<in> set (scalar_task_events domain sfx out (vgrid_z vg) (factors_s facs)
                              \<lceil>sigma_h / proj_dx (proj_pad domain)\<rceil> (fst a) (fst (snd a)))"
    | "e = Logger_info_scalar_done" | "e = Logger_warning_momentum_missing"
    unfolding tr by (auto split: if_splits)
  then show ?thesis
  proof cases
    case (3 a)
    from 3(1) have "fst a \<notin> set [''u'', ''v'', ''w'']" unfolding set_scalar_tasks by force
    then show ?thesis using 3(2) by (rule scalar_task_events_not_momentum)
  qed simp_all
qed

lemma missing_run_outputs:
  assumes missing: "list_ex (\<lambda>fld. fld \<notin> set (map fst fields_era)) [''u'', ''v'', ''w'']"
    and run: "create_era5_input K fields_era lon_era lat_era z_era time_era z zsize rho rhoh domain
                sigma_h sfx out st = Some st'"
    and dist: "distinct (map fst fields_era)"
  shows "\<exists>vg facs.
      vertical_grid_2nd K z zsize = Some vg
    \<and> setup_interpolations K lon_era lat_era (proj_pad domain) = Some facs
    \<and> (\<forall>(name, fld_era) \<in> set fields_era. name \<notin> set [''u'', ''v'', ''w''] \<longrightarrow>
         (\<forall>t < length time_era. \<exists>fld.
            scalar_field K domain (fld_era ! t) (z_era ! t) (vgrid_z vg) (factors_s facs)
              \<lceil>sigma_h / proj_dx (proj_pad domain)\<rceil> = Some fld
          \<and> (\<forall>loc \<in> set lbc_locs. \<exists>sli.
                setup_lbc_slices K (n_ghost domain) (n_sponge domain) (''s_'' @ loc) = Some sli
              \<and> cell (lbc_ds st') (name @ ''_'' @ loc) t = Some (sli fld))
          \<and> (t = 0 \<longrightarrow> files st' (f_out_of out name sfx)
                = Some (c_order (strip_pad (n_pad domain) fld)))))"
proof -
  from missing_run [OF missing run] obtain vg facs s' where
    vg: "vertical_grid_2nd K z zsize = Some vg"
    and facs: "setup_interpolations K lon_era lat_era (proj_pad domain) = Some facs"
    and ex: "executor_map (scalar_task K sfx (vgrid_z vg) (factors_s facs)
           (setup_lbc_slices K (n_ghost domain) (n_sponge domain))
           \<lceil>sigma_h / proj_dx (proj_pad domain)\<rceil> domain out)
         (scalar_tasks fields_era z_era (length time_era))
         (st\<lparr>lbc_ds := create_lbc_ds (map fst fields_era) time_era
                 (dom_x domain) (dom_y domain) (vgrid_z vg)
                 (dom_xh domain) (dom_yh domain) (py_slice 0 (- 1) (vgrid_zh vg))
                 (n_ghost domain) (n_sponge domain),
               trace := trace st @ [Logger_info_creating out]
                 @ (if 0 < \<lceil>sigma_h / proj_dx (proj_pad domain)\<rceil>
                    then [Logger_info_filter \<lceil>sigma_h / proj_dx (proj_pad domain)\<rceil>] else [])\<rparr>)
        = Some s'"
    and st': "st' = emit Logger_warning_momentum_missing (emit Logger_info_scalar_done s')"
    by blast
  have fs: "files st' = files s'" "lbc_ds st' = lbc_ds s'" by (simp_all add: st' emit_simps)
  have "\<exists>fld.
            scalar_field K domain (fld_era ! t) (z_era ! t) (vgrid_z vg) (factors_s facs)
              \<lceil>sigma_h / proj_dx (proj_pad domain)\<rceil> = Some fld
          \<and> (\<forall>loc \<in> set lbc_locs. \<exists>sli.
                setup_lbc_slices K (n_ghost domain) (n_sponge domain) (''s_'' @ loc) = Some sli
              \<and> cell (lbc_ds st') (name @ ''_'' @ loc) t = Some (sli fld))
          \<and> (t = 0 \<longrightarrow> files st' (f_out_of out name sfx)
                = Some (c_order (strip_pad (n_pad domain) fld)))"
    if m: "(name, fld_era) \<in> set fields_era" and n: "name \<notin> set [''u'', ''v'', ''w'']"
      and t: "t < length time_era" for name fld_era t
  proof -
    have mem: "(name, t, fld_era ! t, z_era ! t) \<in> set (scalar_tasks fields_era z_era (length time_era))"
      unfolding set_scalar_tasks using m n t by blast
    from scalar_phase_outputs [OF ex distinct_scalar_tasks [OF dist] mem]
    show ?thesis unfolding fs .
  qed
  then show ?thesis using vg facs by blast
qed

section \<open>What a run without momentum leaves alone\<close>

lemma momentum_key_iff:
  assumes "c \<in> set [''u'', ''v'', ''w'']" and "loc \<in> set lbc_locs"
  shows "(\<exists>name \<in> set names. \<exists>loc' \<in> set lbc_locs. c @ ''_'' @ loc = name @ ''_'' @ loc') \<longleftrightarrow> c \<in> set names"
  using assms(2) lbc_key_inj by blast

lemma missing_run_untouched:
  assumes missing: "list_ex (\<lambda>fld. fld \<notin> set (map fst fields_era)) [''u'', ''v'', ''w'']"
    and run: "create_era5_input K fields_era lon_era lat_era z_era time_era z zsize rho rhoh domain
                sigma_h sfx out st = Some st'"
    and c: "c \<in> set [''u'', ''v'', ''w'']"
  shows "files st' (f_out_of out c sfx) = files st (f_out_of out c sfx)"
    and "\<And>loc t. loc \<in> set lbc_locs \<Longrightarrow> cell (lbc_ds st') (c @ ''_'' @ loc) t = None"
    and "\<And>loc t. loc \<in> set lbc_locs \<Longrightarrow>
           lbc_ok (lbc_ds st') (c @ ''_'' @ loc) t \<longleftrightarrow> c \<in> set (map fst fields_era) \<and> t < length time_era"
proof -
  from missing_run [OF missing run] obtain vg facs s' where
    "vertical_grid_2nd K z zsize = Some vg"
    and "setup_interpolations K lon_era lat_era (proj_pad domain) = Some facs"
    and "proj_dx (proj_pad domain) \<noteq> 0"
    and ex: "executor_map (scalar_task K sfx (vgrid_z vg) (factors_s facs)
           (setup_lbc_slices K (n_ghost domain) (n_sponge domain))
           \<lceil>sigma_h / proj_dx (proj_pad domain)\<rceil> domain out)
         (scalar_tasks fields_era z_era (length time_era))
         (st\<lparr>lbc_ds := create_lbc_ds (map fst fields_era) time_era
                 (dom_x domain) (dom_y domain) (vgrid_z vg)
                 (dom_xh domain) (dom_yh domain) (py_slice 0 (- 1) (vgrid_zh vg))
                 (n_ghost domain) (n_sponge domain),
               trace := trace st @ [Logger_info_creating out]
                 @ (if 0 < \<lceil>sigma_h / proj_dx (proj_pad domain)\<rceil>
                    then [Logger_info_filter \<lceil>sigma_h / proj_dx (proj_pad domain)\<rceil>] else [])\<rparr>)
        = Some s'"
    and st': "st' = emit Logger_warning_momentum_missing (emit Logger_info_scalar_done s')"
    by (elim exE conjE) (rule that)
  have fs: "files st' = files s'" "lbc_ds st' = lbc_ds s'" by (simp_all add: st' emit_simps)
  have names: "fst a \<notin> set [''u'', ''v'', ''w'']"
    if "a \<in> set (scalar_tasks fields_era z_era (length time_era))" for a
    using that unfolding set_scalar_tasks by force
  have "files s' (f_out_of out c sfx) = files (st\<lparr>lbc_ds := create_lbc_ds (map fst fields_era) time_era
                 (dom_x domain) (dom_y domain) (vgrid_z vg)
                 (dom_xh domain) (dom_yh domain) (py_slice 0 (- 1) (vgrid_zh vg))
                 (n_ghost domain) (n_sponge domain),
               trace := trace st @ [Logger_info_creating out]
                 @ (if 0 < \<lceil>sigma_h / proj_dx (proj_pad domain)\<rceil>
                    then [Logger_info_filter \<lceil>sigma_h / proj_dx (proj_pad domain)\<rceil>] else [])\<rparr>)
              (f_out_of out c sfx)"
  proof (rule scalar_phase_frame_files [OF ex], intro ballI)
    fix a assume "a \<in> set (scalar_tasks fields_era z_era (length time_era))"
    from names [OF this] c have "fst a \<noteq> c" by metis
    then show "\<not> (fst (snd a) = 0 \<and> f_out_of out c sfx = f_out_of out (fst a) sfx)"
      by (simp add: f_out_of_inj)
  qed
  then show "files st' (f_out_of out c sfx) = files st (f_out_of out c sfx)"
    unfolding fs by simp
  fix loc :: string and t :: nat
  assume loc: "loc \<in> set lbc_locs"
  have k: "c @ ''_'' @ loc \<in> lbc_keys c" using loc by (simp add: lbc_keys_def)
  have "cell (lbc_ds s') (c @ ''_'' @ loc) t = cell (lbc_ds (st\<lparr>lbc_ds := create_lbc_ds (map fst fields_era) time_era
                 (dom_x domain) (dom_y domain) (vgrid_z vg)
                 (dom_xh domain) (dom_yh domain) (py_slice 0 (- 1) (vgrid_zh vg))
                 (n_ghost domain) (n_sponge domain),
               trace := trace st @ [Logger_info_creating out]
                 @ (if 0 < \<lceil>sigma_h / proj_dx (proj_pad domain)\<rceil>
                    then [Logger_info_filter \<lceil>sigma_h / proj_dx (proj_pad domain)\<rceil>] else [])\<rparr>))
              (c @ ''_'' @ loc) t"
  proof (rule scalar_phase_frame_cells [OF ex], intro ballI)
    fix a assume "a \<in> set (scalar_tasks fields_era z_era (length time_era))"
    from names [OF this] c have "c \<noteq> fst a" by metis
    from lbc_keys_disjoint [OF this k]
    show "\<not> (t = fst (snd a) \<and> c @ ''_'' @ loc \<in> lbc_keys (fst a))" by simp
  qed
  then show "cell (lbc_ds st') (c @ ''_'' @ loc) t = None"
    unfolding fs by (simp add: cell_create_lbc_ds)
  show "lbc_ok (lbc_ds st') (c @ ''_'' @ loc) t \<longleftrightarrow> c \<in> set (map fst fields_era) \<and> t < length time_era"
    unfolding fs scalar_phase_ok [OF ex]
    using momentum_key_iff [OF c loc, of "map fst fields_era"]
    by (simp add: lbc_ok_create_lbc_ds) blast
qed

lemma scalar_args_exclude:
  assumes "scalar_args fields_era z_era nt = Some args" and "a \<in> set args"
  shows "fst a \<notin> set [''u'', ''v'', ''w'']"
  using assms(2) unfolding scalar_args_SomeD [OF assms(1)] set_scalar_tasks by force

section \<open>A small run without w\<close>

lemma missing_uv: "list_ex (\<lambda>fld. fld \<notin> set (map fst fields_uv)) [''u'', ''v'', ''w'']"
  by (simp add: fields_uv_def)

lemma dist_uv: "distinct (map fst fields_uv)"
  by (simp add: fields_uv_def)

lemma vg_test:
  "vertical_grid_2nd K_test [125] 250
     = Some \<lparr>vgrid_z = [125], vgrid_zh = [0, 250], vgrid_dz = [250], vgrid_dzi = [1 / 250]\<rparr>"
  by (simp add: K_test_def)

lemma facs_test:
  "setup_interpolations K_test [] [] (proj_pad domain_test)
     = Some \<lparr>factors_u = \<lparr>il = [], jl = [], fx = [[1]], fy = [[1]]\<rparr>,
             factors_v = \<lparr>il = [], jl = [], fx = [[2]], fy = [[2]]\<rparr>,
             factors_s = \<lparr>il = [], jl = [], fx = [[3]], fy = [[3]]\<rparr>\<rparr>"
  by (simp add: setup_interpolations_def K_test_def domain_test_def proj_test_def)

lemma dx_test: "proj_dx (proj_pad domain_test) = 100"
  by (simp add: domain_test_def proj_test_def)

lemma env_uv:
  "(\<forall>(name, fld_era) \<in> set fields_uv.
      name \<notin> set [''u'', ''v'', ''w''] \<longrightarrow> length [0, 3600 :: real] \<le> length fld_era)"
  "length [0, 3600 :: real] \<le> length z_era_test"
  "(\<forall>(name, fld_era) \<in> set fields_uv. name \<notin> set [''u'', ''v'', ''w''] \<longrightarrow>
      (\<forall>t < length [0, 3600 :: real].
         scalar_field K_test domain_test (fld_era ! t) (z_era_test ! t) zl ipf sn \<noteq> None))"
  "(\<forall>loc \<in> set lbc_locs.
      setup_lbc_slices K_test (n_ghost domain_test) (n_sponge domain_test) (''s_'' @ loc) \<noteq> None)"
     apply (simp add: fields_uv_def)
    apply (simp add: z_era_test_def)
   apply (simp add: fields_uv_def scalar_field_def K_test_def)
  apply (simp add: K_test_def slices_test_def lbc_locs_def)
  done

lemma run_test_uv_Some: "\<exists>st'. run_test fields_uv sigma_h = Some st'"
  unfolding run_test_def
  using missing_run_total [OF missing_uv vg_test facs_test _ env_uv(1) env_uv(2) env_uv(3) env_uv(4)]
  by (simp add: dx_test)

lemma scalar_field_thl:
  "scalar_field K_test domain_test (era_test c) ze [125] ipf 0
     = Some [[[c, c, c], [c, c + 1, c], [c, c, c]]]"
  by (simp add: scalar_field_def K_test_def era_test_def)

lemma c_order_interior:
  "c_order (strip_pad (n_pad domain_test) [[[a, b, c], [d, e, f], [g, h, i]]]) = [e]"
  by (simp add: c_order_def strip_pad_def py_slice_def py_bound_def domain_test_def)

lemma slices_test_west:
  "setup_lbc_slices K_test ng ns (''s_'' @ ''west'') = Some sli \<Longrightarrow> sli = map (map (take 1))"
  by (simp add: K_test_def slices_test_def)

text \<open>
  C2. Let at least one of u, v and w be absent from the input fields (a dictionary, so the
  names are distinct). Whenever \<^verbatim>\<open>create_era5_input\<close> returns, it has skipped the
  momentum processing entirely: it made none of the calls of the momentum part, the initial
  files of u, v and w are as they were before the run, and no record of u, v or w in the
  dataset holds a value. Every other field has been processed in full: for each time index
  its interpolated (and, if requested, filtered) field is in the records of the four sides,
  and at \<open>t = 0\<close> the interior of that field is in its initial file. The run returns
  whenever the vertical grid and the interpolation factors can be set up, the grid spacing
  is not zero, every scalar field and the heights hold a slice for each time, the kernels
  return on these slices, and the slices of the four sides exist.
\<close>

theorem create_era5_input_skips_momentum:
  assumes missing: "list_ex (\<lambda>fld. fld \<notin> set (map fst fields_era)) [''u'', ''v'', ''w'']"
    and dist: "distinct (map fst fields_era)"
  shows "(\<forall>st'. create_era5_input K fields_era lon_era lat_era z_era time_era z zsize rho rhoh domain
                  sigma_h sfx out st = Some st' \<longrightarrow>
            (\<forall>e \<in> set (new_events st st'). \<not> is_momentum_event out sfx e)
          \<and> (\<forall>c \<in> set [''u'', ''v'', ''w''].
                files st' (f_out_of out c sfx) = files st (f_out_of out c sfx)
              \<and> (\<forall>loc \<in> set lbc_locs. \<forall>t. cell (lbc_ds st') (c @ ''_'' @ loc) t = None))
          \<and> (\<exists>vg facs.
                vertical_grid_2nd K z zsize = Some vg
              \<and> setup_interpolations K lon_era lat_era (proj_pad domain) = Some facs
              \<and> (\<forall>(name, fld_era) \<in> set fields_era. name \<notin> set [''u'', ''v'', ''w''] \<longrightarrow>
                   (\<forall>t < length time_era. \<exists>fld.
                      scalar_field K domain (fld_era ! t) (z_era ! t) (vgrid_z vg) (factors_s facs)
                        \<lceil>sigma_h / proj_dx (proj_pad domain)\<rceil> = Some fld
                    \<and> (\<forall>loc \<in> set lbc_locs. \<exists>sli.
                          setup_lbc_slices K (n_ghost domain) (n_sponge domain) (''s_'' @ loc) = Some sli
                        \<and> cell (lbc_ds st') (name @ ''_'' @ loc) t = Some (sli fld))
                    \<and> (t = 0 \<longrightarrow> files st' (f_out_of out name sfx)
                          = Some (c_order (strip_pad (n_pad domain) fld)))))))
     \<and> (\<forall>vg facs.
            vertical_grid_2nd K z zsize = Some vg
          \<and> setup_interpolations K lon_era lat_era (proj_pad domain) = Some facs
          \<and> proj_dx (proj_pad domain) \<noteq> 0
          \<and> (\<forall>(name, fld_era) \<in> set fields_era.
                name \<notin> set [''u'', ''v'', ''w''] \<longrightarrow> length time_era \<le> length fld_era)
          \<and> length time_era \<le> length z_era
          \<and> (\<forall>(name, fld_era) \<in> set fields_era. name \<notin> set [''u'', ''v'', ''w''] \<longrightarrow>
                (\<forall>t < length time_era.
                   scalar_field K domain (fld_era ! t) (z_era ! t) (vgrid_z vg) (factors_s facs)
                     \<lceil>sigma_h / proj_dx (proj_pad domain)\<rceil> \<noteq> None))
          \<and> (\<forall>loc \<in> set lbc_locs.
                setup_lbc_slices K (n_ghost domain) (n_sponge domain) (''s_'' @ loc) \<noteq> None)
          \<longrightarrow> (\<exists>st'. create_era5_input K fields_era lon_era lat_era z_era time_era z zsize rho rhoh
                        domain sigma_h sfx out st = Some st'))"
proof (intro conjI allI impI)
  fix st'
  assume run: "create_era5_input K fields_era lon_era lat_era z_era time_era z zsize rho rhoh domain
                sigma_h sfx out st = Some st'"
  show "\<forall>e \<in> set (new_events st st'). \<not> is_momentum_event out sfx e"
    using missing_run_no_momentum_event [OF missing run] by blast
  show "\<forall>c \<in> set [''u'', ''v'', ''w''].
                files st' (f_out_of out c sfx) = files st (f_out_of out c sfx)
              \<and> (\<forall>loc \<in> set lbc_locs. \<forall>t. cell (lbc_ds st') (c @ ''_'' @ loc) t = None)"
  proof
    fix c assume c: "c \<in> set [''u'', ''v'', ''w'']"
    show "files st' (f_out_of out c sfx) = files st (f_out_of out c sfx)
              \<and> (\<forall>loc \<in> set lbc_locs. \<forall>t. cell (lbc_ds st') (c @ ''_'' @ loc) t = None)"
      using missing_run_untouched(1) [OF missing run c] missing_run_untouched(2) [OF missing run c]
      by blast
  qed
  show "\<exists>vg facs.
                vertical_grid_2nd K z zsize = Some vg
              \<and> setup_interpolations K lon_era lat_era (proj_pad domain) = Some facs
              \<and> (\<forall>(name, fld_era) \<in> set fields_era. name \<notin> set [''u'', ''v'', ''w''] \<longrightarrow>
                   (\<forall>t < length time_era. \<exists>fld.
                      scalar_field K domain (fld_era ! t) (z_era ! t) (vgrid_z vg) (factors_s facs)
                        \<lceil>sigma_h / proj_dx (proj_pad domain)\<rceil> = Some fld
                    \<and> (\<forall>loc \<in> set lbc_locs. \<exists>sli.
                          setup_lbc_slices K (n_ghost domain) (n_sponge domain) (''s_'' @ loc) = Some sli
                        \<and> cell (lbc_ds st') (name @ ''_'' @ loc) t = Some (sli fld))
                    \<and> (t = 0 \<longrightarrow> files st' (f_out_of out name sfx)
                          = Some (c_order (strip_pad (n_pad domain) fld)))))"
    using missing_run_outputs [OF missing run dist] .
next
  fix vg facs
  assume env: "vertical_grid_2nd K z zsize = Some vg
          \<and> setup_interpolations K lon_era lat_era (proj_pad domain) = Some facs
          \<and> proj_dx (proj_pad domain) \<noteq> 0
          \<and> (\<forall>(name, fld_era) \<in> set fields_era.
                name \<notin> set [''u'', ''v'', ''w''] \<longrightarrow> length time_era \<le> length fld_era)
          \<and> length time_era \<le> length z_era
          \<and> (\<forall>(name, fld_era) \<in> set fields_era. name \<notin> set [''u'', ''v'', ''w''] \<longrightarrow>
                (\<forall>t < length time_era.
                   scalar_field K domain (fld_era ! t) (z_era ! t) (vgrid_z vg) (factors_s facs)
                     \<lceil>sigma_h / proj_dx (proj_pad domain)\<rceil> \<noteq> None))
          \<and> (\<forall>loc \<in> set lbc_locs.
                setup_lbc_slices K (n_ghost domain) (n_sponge domain) (''s_'' @ loc) \<noteq> None)"
  then have e: "vertical_grid_2nd K z zsize = Some vg"
      "setup_interpolations K lon_era lat_era (proj_pad domain) = Some facs"
      "proj_dx (proj_pad domain) \<noteq> 0"
      "\<forall>(name, fld_era) \<in> set fields_era.
                name \<notin> set [''u'', ''v'', ''w''] \<longrightarrow> length time_era \<le> length fld_era"
      "length time_era \<le> length z_era"
      "\<forall>(name, fld_era) \<in> set fields_era. name \<notin> set [''u'', ''v'', ''w''] \<longrightarrow>
                (\<forall>t < length time_era.
                   scalar_field K domain (fld_era ! t) (z_era ! t) (vgrid_z vg) (factors_s facs)
                     \<lceil>sigma_h / proj_dx (proj_pad domain)\<rceil> \<noteq> None)"
      "\<forall>loc \<in> set lbc_locs.
                setup_lbc_slices K (n_ghost domain) (n_sponge domain) (''s_'' @ loc) \<noteq> None"
    by blast+
  show "\<exists>st'. create_era5_input K fields_era lon_era lat_era z_era time_era z zsize rho rhoh
                        domain sigma_h sfx out st = Some st'"
    using missing e by (rule missing_run_total)
qed

theorem create_era5_input_skips_momentum_witness:
  "\<exists>st'. run_test fields_uv 0 = Some st'
     \<and> files st' ''./thl.0000000'' = Some [11]
     \<and> cell (lbc_ds st') ''thl_west'' 1 = Some [[[20], [20], [20]]]
     \<and> files st' ''./u.0000000'' = None
     \<and> cell (lbc_ds st') ''u_west'' 0 = None"
proof -
  note th = create_era5_input_skips_momentum [OF missing_uv dist_uv,
      where K = K_test and lon_era = "[]" and lat_era = "[]" and z_era = z_era_test
        and time_era = "[0, 3600]" and z = "[125]" and zsize = 250 and rho = "[1]"
        and rhoh = "[1, 1]" and domain = domain_test and sigma_h = 0 and sfx = "''''"
        and out = "''.''" and st = st0]
  have "\<exists>st'. create_era5_input K_test fields_uv [] [] z_era_test [0, 3600] [125] 250 [1] [1, 1]
                 domain_test 0 '''' ''.'' st0 = Some st'"
    using th vg_test facs_test env_uv by (simp add: dx_test)
  then obtain st' where run: "create_era5_input K_test fields_uv [] [] z_era_test [0, 3600] [125] 250
                 [1] [1, 1] domain_test 0 '''' ''.'' st0 = Some st'"
    by blast
  from th run have
    u: "\<forall>c \<in> set [''u'', ''v'', ''w''].
                files st' (f_out_of ''.'' c '''') = files st0 (f_out_of ''.'' c '''')
              \<and> (\<forall>loc \<in> set lbc_locs. \<forall>t. cell (lbc_ds st') (c @ ''_'' @ loc) t = None)"
    and s: "\<exists>vg facs.
                vertical_grid_2nd K_test [125] 250 = Some vg
              \<and> setup_interpolations K_test [] [] (proj_pad domain_test) = Some facs
              \<and> (\<forall>(name, fld_era) \<in> set fields_uv. name \<notin> set [''u'', ''v'', ''w''] \<longrightarrow>
                   (\<forall>t < length [0, 3600 :: real]. \<exists>fld.
                      scalar_field K_test domain_test (fld_era ! t) (z_era_test ! t) (vgrid_z vg)
                        (factors_s facs) \<lceil>0 / proj_dx (proj_pad domain_test)\<rceil> = Some fld
                    \<and> (\<forall>loc \<in> set lbc_locs. \<exists>sli.
                          setup_lbc_slices K_test (n_ghost domain_test) (n_sponge domain_test)
                            (''s_'' @ loc) = Some sli
                        \<and> cell (lbc_ds st') (name @ ''_'' @ loc) t = Some (sli fld))
                    \<and> (t = 0 \<longrightarrow> files st' (f_out_of ''.'' name '''')
                          = Some (c_order (strip_pad (n_pad domain_test) fld)))))"
    by blast+
  from s obtain vg facs where
    v: "vertical_grid_2nd K_test [125] 250 = Some vg"
    and "setup_interpolations K_test [] [] (proj_pad domain_test) = Some facs"
    and t': "\<forall>(name, fld_era) \<in> set fields_uv. name \<notin> set [''u'', ''v'', ''w''] \<longrightarrow>
                   (\<forall>t < length [0, 3600 :: real]. \<exists>fld.
                      scalar_field K_test domain_test (fld_era ! t) (z_era_test ! t) (vgrid_z vg)
                        (factors_s facs) \<lceil>0 / proj_dx (proj_pad domain_test)\<rceil> = Some fld
                    \<and> (\<forall>loc \<in> set lbc_locs. \<exists>sli.
                          setup_lbc_slices K_test (n_ghost domain_test) (n_sponge domain_test)
                            (''s_'' @ loc) = Some sli
                        \<and> cell (lbc_ds st') (name @ ''_'' @ loc) t = Some (sli fld))
                    \<and> (t = 0 \<longrightarrow> files st' (f_out_of ''.'' name '''')
                          = Some (c_order (strip_pad (n_pad domain_test) fld))))"
    by (elim exE conjE) (rule that)
  have vz: "vgrid_z vg = [125]" using v unfolding vg_test by auto
  note t = t' [unfolded vz]
  have m: "(''thl'', [era_test 10, era_test 20]) \<in> set fields_uv" by (simp add: fields_uv_def)
  from t m have t0: "\<forall>t < length [0, 3600 :: real]. \<exists>fld.
                      scalar_field K_test domain_test ([era_test 10, era_test 20] ! t) (z_era_test ! t) [125]
                        (factors_s facs) \<lceil>0 / proj_dx (proj_pad domain_test)\<rceil> = Some fld
                    \<and> (\<forall>loc \<in> set lbc_locs. \<exists>sli.
                          setup_lbc_slices K_test (n_ghost domain_test) (n_sponge domain_test)
                            (''s_'' @ loc) = Some sli
                        \<and> cell (lbc_ds st') (''thl'' @ ''_'' @ loc) t = Some (sli fld))
                    \<and> (t = 0 \<longrightarrow> files st' (f_out_of ''.'' ''thl'' '''')
                          = Some (c_order (strip_pad (n_pad domain_test) fld)))"
    by fastforce
  have w: "''west'' \<in> set lbc_locs" by (simp add: lbc_locs_def)
  from t0 [rule_format, of 0] have f: "files st' ''./thl.0000000'' = Some [11]"
    by (auto simp: scalar_field_thl c_order_interior f_out_of_def)
  from t0 [rule_format, of 1] obtain sli where
    "setup_lbc_slices K_test (n_ghost domain_test) (n_sponge domain_test) (''s_'' @ ''west'') = Some sli"
    "cell (lbc_ds st') (''thl'' @ ''_'' @ ''west'') 1 = Some (sli [[[20, 20, 20], [20, 21, 20], [20, 20, 20]]])"
    using w by (auto simp: scalar_field_thl)
  then have c: "cell (lbc_ds st') ''thl_west'' 1 = Some [[[20], [20], [20]]]"
    using slices_test_west by fastforce
  from u have "files st' (f_out_of ''.'' ''u'' '''') = files st0 (f_out_of ''.'' ''u'' '''')"
    "cell (lbc_ds st') (''u'' @ ''_'' @ ''west'') 0 = None"
    using w by auto
  then have n: "files st' ''./u.0000000'' = None" "cell (lbc_ds st') ''u_west'' 0 = None"
    by (simp_all add: f_out_of_def st0_def)
  show ?thesis
    unfolding run_test_def using run f c n by blast
qed

section \<open>A missing momentum component is not an error\<close>

lemma missing_run_last:
  assumes missing: "list_ex (\<lambda>fld. fld \<notin> set (map fst fields_era)) [''u'', ''v'', ''w'']"
    and run: "create_era5_input K fields_era lon_era lat_era z_era time_era z zsize rho rhoh domain
                sigma_h sfx out st = Some st'"
  shows "last_event st' = Some Logger_warning_momentum_missing"
proof -
  from missing_run [OF missing run] obtain s' where
    "st' = emit Logger_warning_momentum_missing (emit Logger_info_scalar_done s')"
    by blast
  then show ?thesis by (simp add: last_event_def emit_simps)
qed

lemma run_test_uv_facts:
  "\<exists>st'. run_test fields_uv 0 = Some st'
     \<and> last_event st' = Some Logger_warning_momentum_missing
     \<and> files st' ''./thl.0000000'' = Some [11]"
proof -
  from run_test_uv_Some [of 0] obtain st' where r: "run_test fields_uv 0 = Some st'" by blast
  note run = r [unfolded run_test_def]
  from missing_run_outputs [OF missing_uv run dist_uv] obtain vg facs where
    v: "vertical_grid_2nd K_test [125] 250 = Some vg"
    and "setup_interpolations K_test [] [] (proj_pad domain_test) = Some facs"
    and t': "\<forall>(name, fld_era) \<in> set fields_uv. name \<notin> set [''u'', ''v'', ''w''] \<longrightarrow>
                   (\<forall>t < length [0, 3600 :: real]. \<exists>fld.
                      scalar_field K_test domain_test (fld_era ! t) (z_era_test ! t) (vgrid_z vg)
                        (factors_s facs) \<lceil>0 / proj_dx (proj_pad domain_test)\<rceil> = Some fld
                    \<and> (\<forall>loc \<in> set lbc_locs. \<exists>sli.
                          setup_lbc_slices K_test (n_ghost domain_test) (n_sponge domain_test)
                            (''s_'' @ loc) = Some sli
                        \<and> cell (lbc_ds st') (name @ ''_'' @ loc) t = Some (sli fld))
                    \<and> (t = 0 \<longrightarrow> files st' (f_out_of ''.'' name '''')
                          = Some (c_order (strip_pad (n_pad domain_test) fld))))"
    by (elim exE conjE) (rule that)
  have vz: "vgrid_z vg = [125]" using v unfolding vg_test by auto
  note t = t' [unfolded vz]
  have m: "(''thl'', [era_test 10, era_test 20]) \<in> set fields_uv" by (simp add: fields_uv_def)
  from t m have t0: "\<forall>t < length [0, 3600 :: real]. \<exists>fld.
                      scalar_field K_test domain_test ([era_test 10, era_test 20] ! t) (z_era_test ! t) [125]
                        (factors_s facs) \<lceil>0 / proj_dx (proj_pad domain_test)\<rceil> = Some fld
                    \<and> (\<forall>loc \<in> set lbc_locs. \<exists>sli.
                          setup_lbc_slices K_test (n_ghost domain_test) (n_sponge domain_test)
                            (''s_'' @ loc) = Some sli
                        \<and> cell (lbc_ds st') (''thl'' @ ''_'' @ loc) t = Some (sli fld))
                    \<and> (t = 0 \<longrightarrow> files st' (f_out_of ''.'' ''thl'' '''')
                          = Some (c_order (strip_pad (n_pad domain_test) fld)))"
    by fastforce
  from t0 [rule_format, of 0] have f: "files st' ''./thl.0000000'' = Some [11]"
    by (auto simp: scalar_field_thl c_order_interior f_out_of_def)
  show ?thesis
    using r missing_run_last [OF missing_uv run] f by blast
qed

text \<open>
  C1 (amended). When at least one of u, v and w is missing from the input fields,
  \<^verbatim>\<open>create_era5_input\<close> raises no error for it and does not abort: the run is the set-up,
  then the processing of all scalar fields, then one warning that the momentum fields are
  missing, after which it returns normally. So the run fails only if the set-up or the
  scalar processing fails. Whenever it returns, the warning is the last call it made, it
  comes after the message that the scalar input is done, and the calls before it are those
  of the set-up and of the scalar tasks only.
\<close>

theorem create_era5_input_missing_warns:
  assumes missing: "list_ex (\<lambda>fld. fld \<notin> set (map fst fields_era)) [''u'', ''v'', ''w'']"
  shows "create_era5_input K fields_era lon_era lat_era z_era time_era z zsize rho rhoh domain
           sigma_h sfx out st =
         driver_setup K fields_era lon_era lat_era time_era z zsize domain sigma_h out st
           \<bind> (\<lambda>(ctx, s1). driver_scalars K ctx fields_era z_era time_era domain sfx out s1
           \<bind> (\<lambda>s2. Some (emit Logger_warning_momentum_missing s2)))
     \<and> (\<forall>st'. create_era5_input K fields_era lon_era lat_era z_era time_era z zsize rho rhoh domain
                  sigma_h sfx out st = Some st' \<longrightarrow>
            last_event st' = Some Logger_warning_momentum_missing
          \<and> (\<exists>vg facs.
                vertical_grid_2nd K z zsize = Some vg
              \<and> setup_interpolations K lon_era lat_era (proj_pad domain) = Some facs
              \<and> new_events st st' =
                  [Logger_info_creating out]
                  @ (if 0 < \<lceil>sigma_h / proj_dx (proj_pad domain)\<rceil>
                     then [Logger_info_filter \<lceil>sigma_h / proj_dx (proj_pad domain)\<rceil>] else [])
                  @ concat (map (\<lambda>a. scalar_task_events domain sfx out (vgrid_z vg) (factors_s facs)
                                        \<lceil>sigma_h / proj_dx (proj_pad domain)\<rceil> (fst a) (fst (snd a)))
                              (scalar_tasks fields_era z_era (length time_era)))
                  @ [Logger_info_scalar_done, Logger_warning_momentum_missing]))"
proof (intro conjI allI impI)
  show "create_era5_input K fields_era lon_era lat_era z_era time_era z zsize rho rhoh domain
           sigma_h sfx out st =
         driver_setup K fields_era lon_era lat_era time_era z zsize domain sigma_h out st
           \<bind> (\<lambda>(ctx, s1). driver_scalars K ctx fields_era z_era time_era domain sfx out s1
           \<bind> (\<lambda>s2. Some (emit Logger_warning_momentum_missing s2)))"
    by (simp add: create_era5_input_def driver_momentum_missing [OF missing])
next
  fix st'
  assume run: "create_era5_input K fields_era lon_era lat_era z_era time_era z zsize rho rhoh domain
                  sigma_h sfx out st = Some st'"
  show "last_event st' = Some Logger_warning_momentum_missing"
    using missing run by (rule missing_run_last)
  show "\<exists>vg facs.
                vertical_grid_2nd K z zsize = Some vg
              \<and> setup_interpolations K lon_era lat_era (proj_pad domain) = Some facs
              \<and> new_events st st' =
                  [Logger_info_creating out]
                  @ (if 0 < \<lceil>sigma_h / proj_dx (proj_pad domain)\<rceil>
                     then [Logger_info_filter \<lceil>sigma_h / proj_dx (proj_pad domain)\<rceil>] else [])
                  @ concat (map (\<lambda>a. scalar_task_events domain sfx out (vgrid_z vg) (factors_s facs)
                                        \<lceil>sigma_h / proj_dx (proj_pad domain)\<rceil> (fst a) (fst (snd a)))
                              (scalar_tasks fields_era z_era (length time_era)))
                  @ [Logger_info_scalar_done, Logger_warning_momentum_missing]"
    using missing run by (rule missing_run_trace)
qed

theorem create_era5_input_missing_warns_witness:
  "\<exists>st'. run_test fields_uv 0 = Some st'
     \<and> last_event st' = Some Logger_warning_momentum_missing
     \<and> length (new_events st0 st') = 18
     \<and> new_events st0 st' ! 0 = Logger_info_creating ''.''
     \<and> new_events st0 st' ! 1 = Logger_debug_field ''thl'' 0
     \<and> new_events st0 st' ! 16 = Logger_info_scalar_done
     \<and> new_events st0 st' ! 17 = Logger_warning_momentum_missing"
proof -
  from run_test_uv_Some [of 0] obtain st' where r: "run_test fields_uv 0 = Some st'" by blast
  note run = r [unfolded run_test_def]
  from create_era5_input_missing_warns [OF missing_uv,
      where K = K_test and lon_era = "[]" and lat_era = "[]" and z_era = z_era_test
        and time_era = "[0, 3600]" and z = "[125]" and zsize = 250 and rho = "[1]"
        and rhoh = "[1, 1]" and domain = domain_test and sigma_h = 0 and sfx = "''''"
        and out = "''.''" and st = st0] run
  obtain vg facs where l: "last_event st' = Some Logger_warning_momentum_missing"
    and v: "vertical_grid_2nd K_test [125] 250 = Some vg"
    and "setup_interpolations K_test [] [] (proj_pad domain_test) = Some facs"
    and n: "new_events st0 st' =
                  [Logger_info_creating ''.'']
                  @ (if 0 < \<lceil>0 / proj_dx (proj_pad domain_test)\<rceil>
                     then [Logger_info_filter \<lceil>0 / proj_dx (proj_pad domain_test)\<rceil>] else [])
                  @ concat (map (\<lambda>a. scalar_task_events domain_test '''' ''.'' (vgrid_z vg) (factors_s facs)
                                        \<lceil>0 / proj_dx (proj_pad domain_test)\<rceil> (fst a) (fst (snd a)))
                              (scalar_tasks fields_uv z_era_test (length [0, 3600 :: real])))
                  @ [Logger_info_scalar_done, Logger_warning_momentum_missing]"
    by blast
  have e: "new_events st0 st' =
      [Logger_info_creating ''.'']
      @ scalar_task_events domain_test '''' ''.'' (vgrid_z vg) (factors_s facs) 0 ''thl'' 0
      @ scalar_task_events domain_test '''' ''.'' (vgrid_z vg) (factors_s facs) 0 ''thl'' 1
      @ [Logger_info_scalar_done, Logger_warning_momentum_missing]"
    unfolding n by (simp add: scalar_tasks_def fields_uv_def)
  have "length (new_events st0 st') = 18
     \<and> new_events st0 st' ! 0 = Logger_info_creating ''.''
     \<and> new_events st0 st' ! 1 = Logger_debug_field ''thl'' 0
     \<and> new_events st0 st' ! 16 = Logger_info_scalar_done
     \<and> new_events st0 st' ! 17 = Logger_warning_momentum_missing"
    unfolding e by (simp add: scalar_task_events_def scalar_calls_def lbc_locs_def)
  then show ?thesis using r l by blast
qed

text \<open>
  The run does not abort on a missing component: with the scalar thl and the components u
  and v but no w, the run returns, its last call is the warning, and the initial file of
  thl has been written.
\<close>

theorem missing_component_no_abort:
  "run_test fields_uv 0 \<bind> last_event = Some Logger_warning_momentum_missing
   \<and> run_test fields_uv 0 \<bind> file_of ''./thl.0000000'' = Some [11]"
proof -
  from run_test_uv_facts obtain st' where "run_test fields_uv 0 = Some st'"
    "last_event st' = Some Logger_warning_momentum_missing"
    "files st' ''./thl.0000000'' = Some [11]"
    by blast
  then show ?thesis by (simp add: file_of_def)
qed

section \<open>The scalar part leaves u, v and w alone\<close>

lemma scalar_args_filter:
  "scalar_args (filter (\<lambda>nf. fst nf \<notin> set [''u'', ''v'', ''w'']) fields_era) z_era nt
     = scalar_args fields_era z_era nt"
proof -
  have "concat (map (\<lambda>(name, fld_era).
            if name \<notin> set [''u'', ''v'', ''w'']
            then map (\<lambda>t. do { f \<leftarrow> time_slice fld_era t;
                               ze \<leftarrow> time_slice z_era t;
                               Some (name, t, f, ze) }) [0..<nt]
            else []) (filter (\<lambda>nf. fst nf \<notin> set [''u'', ''v'', ''w'']) fields_era))
      = concat (map (\<lambda>(name, fld_era).
            if name \<notin> set [''u'', ''v'', ''w'']
            then map (\<lambda>t. do { f \<leftarrow> time_slice fld_era t;
                               ze \<leftarrow> time_slice z_era t;
                               Some (name, t, f, ze) }) [0..<nt]
            else []) fields_era)"
    by (induction fields_era) (auto simp: split_def)
  then show ?thesis unfolding scalar_args_def by simp
qed

lemma driver_scalars_filter:
  "driver_scalars K ctx (filter (\<lambda>nf. fst nf \<notin> set [''u'', ''v'', ''w'']) fields_era) z_era time_era
      domain sfx out s
     = driver_scalars K ctx fields_era z_era time_era domain sfx out s"
  unfolding driver_scalars_eq scalar_args_filter ..

lemma driver_scalars_no_momentum_event:
  assumes run: "driver_scalars K ctx fields_era z_era time_era domain sfx out s1 = Some s2"
    and e: "e \<in> set (new_events s1 s2)"
  shows "\<not> is_momentum_event out sfx e"
proof -
  from run obtain s' where
    ex: "executor_map (scalar_task K sfx (vgrid_z (ctx_vgrid ctx)) (factors_s (ctx_ip_facs ctx))
                       (ctx_lbc_slices ctx) (ctx_sigma_n ctx) domain out)
           (scalar_tasks fields_era z_era (length time_era)) s1 = Some s'"
    and s2: "s2 = emit Logger_info_scalar_done s'"
    unfolding driver_scalars_Some by blast
  have "new_events s1 s2 =
      concat (map (\<lambda>a. scalar_task_events domain sfx out (vgrid_z (ctx_vgrid ctx))
                          (factors_s (ctx_ip_facs ctx)) (ctx_sigma_n ctx) (fst a) (fst (snd a)))
                (scalar_tasks fields_era z_era (length time_era)))
      @ [Logger_info_scalar_done]"
    unfolding new_events_def s2 by (simp add: emit_simps scalar_phase_trace [OF ex])
  with e consider a where "a \<in> set (scalar_tasks fields_era z_era (length time_era))"
        "e \<in> set (scalar_task_events domain sfx out (vgrid_z (ctx_vgrid ctx))
                          (factors_s (ctx_ip_facs ctx)) (ctx_sigma_n ctx) (fst a) (fst (snd a)))"
    | "e = Logger_info_scalar_done"
    by auto
  then show ?thesis
  proof cases
    case (1 a)
    from 1(1) have "fst a \<notin> set [''u'', ''v'', ''w'']" unfolding set_scalar_tasks by force
    then show ?thesis using 1(2) by (rule scalar_task_events_not_momentum)
  qed simp
qed

lemma momentum_output_events:
  assumes "c \<in> set [''u'', ''v'', ''w'']"
  shows "is_momentum_event out sfx (Tofile (f_out_of out c sfx))"
    and "loc \<in> set lbc_locs \<Longrightarrow> is_momentum_event out sfx (Lbc_assign (c @ ''_'' @ loc) t)"
  using assms by (auto simp: momentum_keys_def)

text \<open>
  C10. The scalar part of \<^verbatim>\<open>create_era5_input\<close> excludes the fields named u, v and w
  unconditionally: no scalar task is made for them, the scalar part gives the same result
  as on the input without these fields, and in every run that returns the scalar part makes
  no call that writes an initial file or a record of u, v or w. So, when a run skips the
  momentum part because a component is missing, the components that are present are
  processed by neither part: whenever such a run returns, for each of u, v and w the
  initial file is as it was before the run and was not written, and at every side and time
  its record holds no value and was not assigned. The record itself exists exactly when the
  component is among the input fields and the time index lies on the time axis.
\<close>

theorem momentum_components_not_scalars:
  "(\<forall>nt args a. scalar_args fields_era z_era nt = Some args \<and> a \<in> set args \<longrightarrow>
        fst a \<notin> set [''u'', ''v'', ''w''])
   \<and> (\<forall>ctx s. driver_scalars K ctx fields_era z_era time_era domain sfx out s
         = driver_scalars K ctx (filter (\<lambda>nf. fst nf \<notin> set [''u'', ''v'', ''w'']) fields_era)
             z_era time_era domain sfx out s)
   \<and> (\<forall>st'. create_era5_input K fields_era lon_era lat_era z_era time_era z zsize rho rhoh domain
               sigma_h sfx out st = Some st' \<longrightarrow>
         (\<exists>ctx s1 s2.
             driver_setup K fields_era lon_era lat_era time_era z zsize domain sigma_h out st
               = Some (ctx, s1)
           \<and> driver_scalars K ctx fields_era z_era time_era domain sfx out s1 = Some s2
           \<and> driver_momentum K ctx fields_era z_era time_era rho rhoh domain sfx out s2 = Some st'
           \<and> (\<forall>e \<in> set (new_events s1 s2). \<not> is_momentum_event out sfx e)))
   \<and> (\<forall>st' c. list_ex (\<lambda>fld. fld \<notin> set (map fst fields_era)) [''u'', ''v'', ''w'']
         \<and> create_era5_input K fields_era lon_era lat_era z_era time_era z zsize rho rhoh domain
               sigma_h sfx out st = Some st'
         \<and> c \<in> set [''u'', ''v'', ''w''] \<longrightarrow>
           files st' (f_out_of out c sfx) = files st (f_out_of out c sfx)
         \<and> Tofile (f_out_of out c sfx) \<notin> set (new_events st st')
         \<and> (\<forall>loc \<in> set lbc_locs. \<forall>t.
                cell (lbc_ds st') (c @ ''_'' @ loc) t = None
              \<and> Lbc_assign (c @ ''_'' @ loc) t \<notin> set (new_events st st')
              \<and> (lbc_ok (lbc_ds st') (c @ ''_'' @ loc) t
                    \<longleftrightarrow> c \<in> set (map fst fields_era) \<and> t < length time_era)))"
proof (intro conjI allI impI)
  fix nt args a
  assume "scalar_args fields_era z_era nt = Some args \<and> a \<in> set args"
  then show "fst a \<notin> set [''u'', ''v'', ''w'']"
    using scalar_args_exclude by blast
next
  fix ctx s
  show "driver_scalars K ctx fields_era z_era time_era domain sfx out s
         = driver_scalars K ctx (filter (\<lambda>nf. fst nf \<notin> set [''u'', ''v'', ''w'']) fields_era)
             z_era time_era domain sfx out s"
    by (rule driver_scalars_filter [symmetric])
next
  fix st'
  assume run: "create_era5_input K fields_era lon_era lat_era z_era time_era z zsize rho rhoh domain
               sigma_h sfx out st = Some st'"
  then obtain ctx s1 s2 where
    a: "driver_setup K fields_era lon_era lat_era time_era z zsize domain sigma_h out st = Some (ctx, s1)"
    and b: "driver_scalars K ctx fields_era z_era time_era domain sfx out s1 = Some s2"
    and c: "driver_momentum K ctx fields_era z_era time_era rho rhoh domain sfx out s2 = Some st'"
    unfolding create_era5_input_Some by blast
  have "\<forall>e \<in> set (new_events s1 s2). \<not> is_momentum_event out sfx e"
    using driver_scalars_no_momentum_event [OF b] by blast
  with a b c show "\<exists>ctx s1 s2.
             driver_setup K fields_era lon_era lat_era time_era z zsize domain sigma_h out st
               = Some (ctx, s1)
           \<and> driver_scalars K ctx fields_era z_era time_era domain sfx out s1 = Some s2
           \<and> driver_momentum K ctx fields_era z_era time_era rho rhoh domain sfx out s2 = Some st'
           \<and> (\<forall>e \<in> set (new_events s1 s2). \<not> is_momentum_event out sfx e)"
    by blast
next
  fix st' c
  assume h: "list_ex (\<lambda>fld. fld \<notin> set (map fst fields_era)) [''u'', ''v'', ''w'']
         \<and> create_era5_input K fields_era lon_era lat_era z_era time_era z zsize rho rhoh domain
               sigma_h sfx out st = Some st'
         \<and> c \<in> set [''u'', ''v'', ''w'']"
  then have missing: "list_ex (\<lambda>fld. fld \<notin> set (map fst fields_era)) [''u'', ''v'', ''w'']"
    and run: "create_era5_input K fields_era lon_era lat_era z_era time_era z zsize rho rhoh domain
               sigma_h sfx out st = Some st'"
    and c: "c \<in> set [''u'', ''v'', ''w'']"
    by blast+
  show "files st' (f_out_of out c sfx) = files st (f_out_of out c sfx)"
    using missing run c by (rule missing_run_untouched(1))
  show "Tofile (f_out_of out c sfx) \<notin> set (new_events st st')"
    using missing_run_no_momentum_event [OF missing run] momentum_output_events(1) [OF c] by blast
  show "\<forall>loc \<in> set lbc_locs. \<forall>t.
                cell (lbc_ds st') (c @ ''_'' @ loc) t = None
              \<and> Lbc_assign (c @ ''_'' @ loc) t \<notin> set (new_events st st')
              \<and> (lbc_ok (lbc_ds st') (c @ ''_'' @ loc) t
                    \<longleftrightarrow> c \<in> set (map fst fields_era) \<and> t < length time_era)"
  proof (intro ballI allI conjI)
    fix loc t assume loc: "loc \<in> set lbc_locs"
    show "cell (lbc_ds st') (c @ ''_'' @ loc) t = None"
      using missing run c loc by (rule missing_run_untouched(2))
    show "Lbc_assign (c @ ''_'' @ loc) t \<notin> set (new_events st st')"
      using missing_run_no_momentum_event [OF missing run] momentum_output_events(2) [OF c loc]
      by blast
    show "lbc_ok (lbc_ds st') (c @ ''_'' @ loc) t
                    \<longleftrightarrow> c \<in> set (map fst fields_era) \<and> t < length time_era"
      using missing run c loc by (rule missing_run_untouched(3))
  qed
qed

theorem momentum_components_not_scalars_witness:
  "\<exists>st'. run_test fields_uv 0 = Some st'
     \<and> files st' ''./u.0000000'' = None
     \<and> files st' ''./v.0000000'' = None
     \<and> Tofile ''./u.0000000'' \<notin> set (new_events st0 st')
     \<and> cell (lbc_ds st') ''u_west'' 0 = None
     \<and> cell (lbc_ds st') ''v_north'' 1 = None
     \<and> Lbc_assign ''u_west'' 0 \<notin> set (new_events st0 st')
     \<and> lbc_ok (lbc_ds st') ''u_west'' 0
     \<and> \<not> lbc_ok (lbc_ds st') ''w_west'' 0"
proof -
  from run_test_uv_Some [of 0] obtain st' where r: "run_test fields_uv 0 = Some st'" by blast
  note run = r [unfolded run_test_def]
  note th = momentum_components_not_scalars [where K = K_test and fields_era = fields_uv
        and lon_era = "[]" and lat_era = "[]" and z_era = z_era_test
        and time_era = "[0, 3600]" and z = "[125]" and zsize = 250 and rho = "[1]"
        and rhoh = "[1, 1]" and domain = domain_test and sigma_h = 0 and sfx = "''''"
        and out = "''.''" and st = st0]
  have d: "\<And>c. c \<in> set [''u'', ''v'', ''w''] \<Longrightarrow>
           files st' (f_out_of ''.'' c '''') = files st0 (f_out_of ''.'' c '''')
         \<and> Tofile (f_out_of ''.'' c '''') \<notin> set (new_events st0 st')
         \<and> (\<forall>loc \<in> set lbc_locs. \<forall>t.
                cell (lbc_ds st') (c @ ''_'' @ loc) t = None
              \<and> Lbc_assign (c @ ''_'' @ loc) t \<notin> set (new_events st0 st')
              \<and> (lbc_ok (lbc_ds st') (c @ ''_'' @ loc) t
                    \<longleftrightarrow> c \<in> set (map fst fields_uv) \<and> t < length [0, 3600 :: real]))"
    using th missing_uv run by blast
  have l: "''west'' \<in> set lbc_locs" "''north'' \<in> set lbc_locs" by (simp_all add: lbc_locs_def)
  from d [of "''u''"] l(1) have
    "files st' ''./u.0000000'' = None" "Tofile ''./u.0000000'' \<notin> set (new_events st0 st')"
    "cell (lbc_ds st') ''u_west'' 0 = None" "Lbc_assign ''u_west'' 0 \<notin> set (new_events st0 st')"
    "lbc_ok (lbc_ds st') ''u_west'' 0"
    by (auto simp: f_out_of_def st0_def fields_uv_def)
  moreover from d [of "''v''"] l(2) have
    "files st' ''./v.0000000'' = None" "cell (lbc_ds st') ''v_north'' 1 = None"
    by (auto simp: f_out_of_def st0_def)
  moreover from d [of "''w''"] l(1) have "\<not> lbc_ok (lbc_ds st') ''w_west'' 0"
    by (auto simp: fields_uv_def)
  ultimately show ?thesis using r by blast
qed

section \<open>The calls of the Gaussian filter\<close>





section \<open>The width of the Gaussian filter\<close>








end
